(* ===== verification/Prelude.thy ===== *)
theory Prelude
  imports Main
begin

text \<open>
  Shared vocabulary of the development: the Python \<open>str\<close> operations the
  sources use (\<open>str.isspace\<close>, \<open>str.strip\<close>, \<open>str.split(sep)\<close>,
  \<open>sep.join\<close>, \<open>str(n)\<close>, the \<open>{n:02d}\<close> format), written over
  \<open>string\<close>, and the lemmas about them the components share.

  A Python \<open>str\<close> is modelled as the list of bytes of its UTF-8 encoding.
  Every separator and delimiter the code looks for (newline, \<open>.\<close>,
  \<open><\<close>, \<open>>\<close>, \<open>:\<close>, the decimal digits) is an ASCII character, and
  UTF-8 never uses an ASCII byte inside a multi-byte sequence, so splitting,
  joining and matching on bytes gives the same result as on code points.
  Whitespace is the ASCII part of Python's \<open>str.isspace\<close>.
\<close>

named_theorems py_simps "equations of the Python string operations, for evaluation"

section \<open>Characters\<close>

abbreviation nl :: char where
  "nl \<equiv> CHR ''\<newline>''"

definition is_space :: "char \<Rightarrow> bool" where
  "is_space c \<longleftrightarrow>
     (let n = (of_char c :: nat) in (9 \<le> n \<and> n \<le> 13) \<or> (28 \<le> n \<and> n \<le> 32))"

definition is_digit :: "char \<Rightarrow> bool" where
  "is_digit c \<longleftrightarrow> 48 \<le> (of_char c :: nat) \<and> (of_char c :: nat) \<le> 57"

definition digit_char :: "nat \<Rightarrow> char" where
  "digit_char d = char_of (48 + d)"

declare is_space_def [py_simps] is_digit_def [py_simps] digit_char_def [py_simps]
  char_of_eq_iff [py_simps]

lemma replicate_numeral [py_simps]: "replicate (numeral k) x = x # replicate (pred_numeral k) x"
  by (simp add: numeral_eq_Suc)

lemma is_digit_digit_char [simp]: "d < 10 \<Longrightarrow> is_digit (digit_char d)"
  by (simp add: is_digit_def digit_char_def)

lemma digit_char_value [simp]: "d < 10 \<Longrightarrow> (of_char (digit_char d) :: nat) = 48 + d"
  by (simp add: digit_char_def)

lemma digit_not_space [simp]: "is_digit c \<Longrightarrow> \<not> is_space c"
  by (simp add: is_digit_def is_space_def Let_def)

lemma digit_not_dot [simp]: "is_digit c \<Longrightarrow> c \<noteq> CHR ''.''"
  by (auto simp: is_digit_def)

lemma digit_not_newline [simp]: "is_digit c \<Longrightarrow> c \<noteq> CHR ''\<newline>''"
  by (auto simp: is_digit_def)

lemma digit_not_slash [simp]: "is_digit c \<Longrightarrow> c \<noteq> CHR ''/''"
  by (auto simp: is_digit_def)

lemma newline_is_space [simp]: "is_space CHR ''\<newline>''"
  by (simp add: is_space_def)

section \<open>str.strip, str.split, str.join\<close>

definition py_strip :: "string \<Rightarrow> string" where
  "py_strip s = rev (dropWhile is_space (rev (dropWhile is_space s)))"

text \<open>\<open>s.split(d)\<close> for a one-character separator: every occurrence splits,
  so the result has one more field than there are separators.\<close>

fun py_split :: "char \<Rightarrow> string \<Rightarrow> string list" where
  "py_split d [] = [[]]"
| "py_split d (c # cs) =
     (let ws = py_split d cs in if c = d then [] # ws else (c # hd ws) # tl ws)"

text \<open>\<open>sep.join(xs)\<close>.\<close>

fun py_join :: "string \<Rightarrow> string list \<Rightarrow> string" where
  "py_join sep [] = []"
| "py_join sep [x] = x"
| "py_join sep (x # y # zs) = x @ sep @ py_join sep (y # zs)"

lemma py_split_not_Nil [simp]: "py_split d s \<noteq> []"
  by (induction s) (simp_all add: Let_def)

lemma py_split_no_sep [simp]: "d \<notin> set s \<Longrightarrow> py_split d s = [s]"
  by (induction s) (auto simp: Let_def)

lemma py_split_append_sep:
  "d \<notin> set x \<Longrightarrow> py_split d (x @ d # y) = x # py_split d y"
  by (induction x) (auto simp: Let_def)

lemma py_split_join:
  assumes "xs \<noteq> []" and "\<forall>x \<in> set xs. d \<notin> set x"
  shows "py_split d (py_join [d] xs) = xs"
  using assms
proof (induction "[d]" xs rule: py_join.induct)
  case (3 x y zs)
  then show ?case by (simp add: py_split_append_sep)
qed simp_all

lemma py_join_split: "py_join [d] (py_split d s) = s"
proof (induction s)
  case (Cons c cs)
  then show ?case
    by (cases "py_split d cs"; cases "tl (py_split d cs)") (auto simp: Let_def)
qed simp

lemma length_py_split: "length (py_split d s) = Suc (count_list s d)"
  by (induction s) (auto simp: Let_def)

lemma py_join_Cons_append:
  "xs \<noteq> [] \<Longrightarrow> py_join sep (x # xs) = x @ sep @ py_join sep xs"
  by (cases xs) simp_all

lemma set_py_join_subset:
  "set (py_join sep xs) \<subseteq> \<Union> (set ` set xs) \<union> set sep"
  by (induction sep xs rule: py_join.induct) auto

lemma py_join_hd:
  "xs \<noteq> [] \<Longrightarrow> hd xs \<noteq> [] \<Longrightarrow> py_join sep xs \<noteq> [] \<and> hd (py_join sep xs) = hd (hd xs)"
  by (induction sep xs rule: py_join.induct) auto

lemma py_join_not_Nil_last:
  "xs \<noteq> [] \<Longrightarrow> last xs \<noteq> [] \<Longrightarrow> py_join sep xs \<noteq> []"
  by (induction sep xs rule: py_join.induct) auto

lemma py_join_last:
  "xs \<noteq> [] \<Longrightarrow> last xs \<noteq> [] \<Longrightarrow> last (py_join sep xs) = last (last xs)"
  by (induction sep xs rule: py_join.induct) (auto simp: py_join_not_Nil_last)

lemma py_strip_all_space: "\<forall>c \<in> set s. is_space c \<Longrightarrow> py_strip s = []"
proof -
  assume "\<forall>c \<in> set s. is_space c"
  then have d: "dropWhile is_space s = []" by simp
  show ?thesis by (simp add: py_strip_def d)
qed

lemma py_strip_no_space_ends:
  "s \<noteq> [] \<Longrightarrow> \<not> is_space (hd s) \<Longrightarrow> \<not> is_space (last s) \<Longrightarrow> py_strip s = s"
proof -
  assume ne: "s \<noteq> []" and h: "\<not> is_space (hd s)" and l: "\<not> is_space (last s)"
  from ne h have "dropWhile is_space s = s" by (cases s) simp_all
  moreover from ne l have "dropWhile is_space (rev s) = rev s"
    by (cases "rev s") (simp_all add: last_rev[symmetric])
  ultimately show ?thesis by (simp add: py_strip_def)
qed

lemma py_strip_space_Cons: "is_space c \<Longrightarrow> py_strip (c # s) = py_strip s"
  by (simp add: py_strip_def)

section \<open>Maps\<close>

lemma map_upds_nth:
  "distinct xs \<Longrightarrow> length xs = length ys \<Longrightarrow> j < length xs \<Longrightarrow> (m(xs [\<mapsto>] ys)) (xs ! j) = Some (ys ! j)"
proof (induction xs arbitrary: m ys j)
  case (Cons x xs)
  then obtain y ys' where ys: "ys = y # ys'" by (cases ys) auto
  show ?case
  proof (cases j)
    case 0
    with Cons.prems ys show ?thesis by (simp add: map_upds_apply_nontin)
  next
    case (Suc j')
    with Cons ys show ?thesis using nth_mem [of j' xs] by auto
  qed
qed simp

section \<open>dict.get with a default\<close>

definition py_get :: "'a option \<Rightarrow> 'a \<Rightarrow> 'a" where
  "py_get v d = (case v of None \<Rightarrow> d | Some x \<Rightarrow> x)"

lemma py_get_simps [simp]: "py_get None d = d" "py_get (Some x) d = x"
  by (simp_all add: py_get_def)

section \<open>Python dicts: insertion-ordered, updated in place\<close>

text \<open>A \<open>dict\<close> as the association list of its items in iteration order.
  \<open>d[k] = v\<close> replaces the value of an existing key where it stands and
  appends a new key at the end, as CPython's dicts do.\<close>

fun dict_set :: "'k \<Rightarrow> 'v \<Rightarrow> ('k \<times> 'v) list \<Rightarrow> ('k \<times> 'v) list" where
  "dict_set k v [] = [(k, v)]"
| "dict_set k v ((k', v') # d) = (if k = k' then (k, v) # d else (k', v') # dict_set k v d)"

lemma map_of_dict_set [simp]: "map_of (dict_set k v d) = (map_of d)(k \<mapsto> v)"
  by (induction d) (auto simp: fun_eq_iff)

lemma keys_dict_set: "map fst (dict_set k v d) = (if k \<in> set (map fst d) then map fst d else map fst d @ [k])"
  by (induction d) (auto, force)

lemma distinct_dict_set [simp]: "distinct (map fst d) \<Longrightarrow> distinct (map fst (dict_set k v d))"
  by (simp add: keys_dict_set)

lemma length_dict_set: "length (dict_set k v d) = (if k \<in> set (map fst d) then length d else Suc (length d))"
  using keys_dict_set [of k v d] by (metis length_map length_append_singleton)

text \<open>The keys of a dict built by successive assignments are the assigned keys
  in order of first assignment.\<close>

lemma first_occ_append:
  "rev (remdups (rev (rev (remdups (rev xs)) @ ys))) = rev (remdups (rev (xs @ ys)))"
  by (simp add: remdups_append2)

lemma keys_dict_set_first_occ:
  "distinct (map fst d) \<Longrightarrow> map fst (dict_set k v d) = rev (remdups (rev (map fst d @ [k])))"
  by (simp add: keys_dict_set distinct_remdups_id)

section \<open>The operator in on strings\<close>

text \<open>\<open>needle in s\<close>: \<open>needle\<close> occurs in \<open>s\<close> at some position.\<close>

fun py_contains :: "string \<Rightarrow> string \<Rightarrow> bool" where
  "py_contains needle [] = (needle = [])"
| "py_contains needle (c # cs) = (take (length needle) (c # cs) = needle \<or> py_contains needle cs)"

lemma py_contains_append: "py_contains needle s \<Longrightarrow> py_contains needle (pre @ s)"
  by (induction pre) simp_all

section \<open>str slicing by code points\<close>

text \<open>\<open>s[:n]\<close> on the UTF-8 bytes of \<open>s\<close>: the first \<open>n\<close> code points,
  each a lead byte with the continuation bytes (\<open>10xxxxxx\<close>) after it.\<close>

definition is_cont :: "char \<Rightarrow> bool" where
  "is_cont c \<longleftrightarrow> 128 \<le> (of_char c :: nat) \<and> (of_char c :: nat) < 192"

fun cp_take :: "nat \<Rightarrow> string \<Rightarrow> string" where
  "cp_take n [] = []"
| "cp_take n (c # cs) =
     (if is_cont c then c # cp_take n cs else if n = 0 then [] else c # cp_take (n - 1) cs)"

lemma cp_take_ascii: "\<forall>c \<in> set s. (of_char c :: nat) < 128 \<Longrightarrow> cp_take n s = take n s"
  by (induction n s rule: cp_take.induct) (auto simp: is_cont_def take_Cons')

lemma cp_take_code_points: "length (filter (\<lambda>c. \<not> is_cont c) (cp_take n s)) \<le> n"
  by (induction n s rule: cp_take.induct) auto

section \<open>Decimal numerals: str(n) and the {n:0wd} format\<close>

fun nat_to_dec :: "nat \<Rightarrow> string" where
  "nat_to_dec n =
     (if n < 10 then [digit_char n] else nat_to_dec (n div 10) @ [digit_char (n mod 10)])"

declare nat_to_dec.simps [simp del]

text \<open>\<open>f"{n:0wd}"\<close>: the numeral, padded with zeros on the left to width \<open>w\<close>.\<close>

definition fmt_0d :: "nat \<Rightarrow> nat \<Rightarrow> string" where
  "fmt_0d w n = (let s = nat_to_dec n in replicate (w - length s) CHR ''0'' @ s)"

text \<open>The value of a string of decimal digits (Python's \<open>int(s)\<close> on digits).\<close>

definition dec_value :: "string \<Rightarrow> nat" where
  "dec_value s = foldl (\<lambda>acc c. 10 * acc + (of_char c - 48)) 0 s"

lemma nat_to_dec_small [simp]: "n < 10 \<Longrightarrow> nat_to_dec n = [digit_char n]"
  by (simp add: nat_to_dec.simps)

lemma nat_to_dec_not_Nil [simp]: "nat_to_dec n \<noteq> []"
  by (subst nat_to_dec.simps) simp

lemma nat_to_dec_digits: "\<forall>c \<in> set (nat_to_dec n). is_digit c"
proof (induction n rule: nat_to_dec.induct)
  case (1 n)
  then show ?case by (subst nat_to_dec.simps) auto
qed

lemma nat_to_dec_digit [simp]: "c \<in> set (nat_to_dec n) \<Longrightarrow> is_digit c"
  using nat_to_dec_digits by blast

lemma newline_notin_nat_to_dec [simp]: "CHR ''\<newline>'' \<notin> set (nat_to_dec n)"
  using nat_to_dec_digit digit_not_newline by blast

lemma dec_value_snoc: "dec_value (s @ [c]) = 10 * dec_value s + (of_char c - 48)"
  by (simp add: dec_value_def)

lemma dec_value_nat_to_dec [simp]: "dec_value (nat_to_dec n) = n"
proof (induction n rule: nat_to_dec.induct)
  case (1 n)
  then show ?case
    by (subst nat_to_dec.simps) (simp add: dec_value_snoc dec_value_def)
qed

lemma dec_value_zeros [simp]: "dec_value (replicate k CHR ''0'' @ s) = dec_value s"
  by (induction k) (simp_all add: dec_value_def)

lemma dec_value_fmt_0d [simp]: "dec_value (fmt_0d w n) = n"
  by (simp add: fmt_0d_def Let_def)

lemma is_digit_zero [simp]: "is_digit CHR ''0''"
  by (simp add: is_digit_def)

lemma fmt_0d_digits: "c \<in> set (fmt_0d w n) \<Longrightarrow> is_digit c"
  by (auto simp: fmt_0d_def Let_def)

lemma newline_notin_fmt_0d [simp]: "nl \<notin> set (fmt_0d w n)"
  using fmt_0d_digits digit_not_newline by blast

text \<open>\<open>str(i)\<close> for a Python \<open>int\<close>.\<close>

definition int_to_dec :: "int \<Rightarrow> string" where
  "int_to_dec i = (if i < 0 then CHR ''-'' # nat_to_dec (nat (- i)) else nat_to_dec (nat i))"

text \<open>A string between single quotes, as \<open>repr\<close> and the messages of
  CPython's exceptions print a name.\<close>

definition quoted :: "string \<Rightarrow> string" where
  "quoted p = [CHR 0x27] @ p @ [CHR 0x27]"

text \<open>A lower-case hexadecimal digit, as \<open>%x\<close> prints it.\<close>

definition hex_digit :: "nat \<Rightarrow> char" where
  "hex_digit d = (if d < 10 then digit_char d else char_of (87 + d))"

lemma length_nat_to_dec_less: "n < 10 ^ k \<Longrightarrow> 0 < k \<Longrightarrow> length (nat_to_dec n) \<le> k"
proof (induction n arbitrary: k rule: nat_to_dec.induct)
  case (1 n)
  show ?case
  proof (cases "n < 10")
    case True
    with "1.prems" show ?thesis by (subst nat_to_dec.simps) simp
  next
    case False
    from "1.prems"(1) False have "k \<noteq> 1" by auto
    with "1.prems"(2) obtain j where k: "k = Suc j" and j: "0 < j" by (cases k) auto
    from "1.prems"(1) k have "n div 10 < 10 ^ j" by (simp add: div_less_iff_less_mult)
    with "1.IH" False j have "length (nat_to_dec (n div 10)) \<le> j" by blast
    with False k show ?thesis by (subst nat_to_dec.simps) simp
  qed
qed

lemma length_fmt_0d: "n < 10 ^ w \<Longrightarrow> 0 < w \<Longrightarrow> length (fmt_0d w n) = w"
  using length_nat_to_dec_less [of n w] by (simp add: fmt_0d_def Let_def)

end
