(* ===== verification/Json.thy ===== *)
theory Json
  imports Prelude
begin

text \<open>
  The configuration file of the application is JSON. A JSON value is the
  datatype below; an object keeps the pairs in the order of the text.
  \<open>json.load\<close> builds a Python dict from them, which is
  \<open>py_dict\<close>: a repeated key keeps its first position and its last value.
  The encoder is CPython's \<open>json.dump(obj, f, indent=4,
  ensure_ascii=False)\<close> (the pure-Python \<open>_make_iterencode\<close>, used when an
  indent is given). The other operations are what the sources do to a value
  read from the file: \<open>str()\<close> in an f-string, \<open>obj[key]\<close>, and
  \<open>len(obj)\<close> with \<open>obj[i]\<close>. Numbers are integers: the configuration
  has no floats.
\<close>

datatype json =
    JNull | JBool bool | JInt int | JStr string | JArr "json list" | JObj "(string \<times> json) list"

section \<open>Encoding\<close>

text \<open>\<open>py_encode_basestring\<close>: the quote, the backslash and the control
  characters are escaped; with \<open>ensure_ascii=False\<close> every other byte is
  written as it is.\<close>

definition json_escape :: "char \<Rightarrow> string" where
  "json_escape c =
     (let n = (of_char c :: nat)
      in if n = 0x22 then [CHR 0x5C, CHR 0x22]
         else if n = 0x5C then [CHR 0x5C, CHR 0x5C]
         else if n = 0x0A then [CHR 0x5C, CHR ''n'']
         else if n = 0x0D then [CHR 0x5C, CHR ''r'']
         else if n = 0x09 then [CHR 0x5C, CHR ''t'']
         else if n = 0x08 then [CHR 0x5C, CHR ''b'']
         else if n = 0x0C then [CHR 0x5C, CHR ''f'']
         else if n < 0x20 then [CHR 0x5C, CHR ''u'', CHR ''0'', CHR ''0'', hex_digit (n div 16), hex_digit (n mod 16)]
         else [c])"

definition json_str :: "string \<Rightarrow> string" where
  "json_str s = [CHR 0x22] @ concat (map json_escape s) @ [CHR 0x22]"

text \<open>A newline and the indentation of level \<open>l\<close>.\<close>

definition newline_indent :: "nat \<Rightarrow> string" where
  "newline_indent l = CHR ''\<newline>'' # replicate (4 * l) CHR '' ''"

text \<open>\<open>_iterencode\<close> at indentation level \<open>l\<close>: an empty list or dict is
  written \<open>[]\<close> or \<open>{}\<close>; otherwise each item starts on a new line one level
  deeper, items are separated by a comma, and keys by \<open>": "\<close>.\<close>

fun json_enc :: "nat \<Rightarrow> json \<Rightarrow> string" where
  "json_enc l JNull = ''null''"
| "json_enc l (JBool b) = (if b then ''true'' else ''false'')"
| "json_enc l (JInt i) = int_to_dec i"
| "json_enc l (JStr s) = json_str s"
| "json_enc l (JArr vs) =
     (if vs = [] then ''[]''
      else ''['' @ newline_indent (Suc l) @
           py_join (CHR '','' # newline_indent (Suc l)) (map (json_enc (Suc l)) vs) @
           newline_indent l @ '']'')"
| "json_enc l (JObj kvs) =
     (if kvs = [] then ''{}''
      else ''{'' @ newline_indent (Suc l) @
           py_join (CHR '','' # newline_indent (Suc l)) (map (\<lambda>(k, v). json_str k @ '': '' @ json_enc (Suc l) v) kvs) @
           newline_indent l @ ''}'')"

definition json_dump :: "json \<Rightarrow> string" where
  "json_dump v = json_enc 0 v"

section \<open>The values the sources read\<close>

text \<open>The dict \<open>json.load\<close> builds from the pairs of an object.\<close>

definition py_dict :: "(string \<times> json) list \<Rightarrow> (string \<times> json) list" where
  "py_dict kvs = fold (\<lambda>(k, v) d. dict_set k v d) kvs []"

definition type_name :: "json \<Rightarrow> string" where
  "type_name v =
     (case v of JNull \<Rightarrow> ''NoneType'' | JBool _ \<Rightarrow> ''bool'' | JInt _ \<Rightarrow> ''int''
              | JStr _ \<Rightarrow> ''str'' | JArr _ \<Rightarrow> ''list'' | JObj _ \<Rightarrow> ''dict'')"

text \<open>\<open>repr\<close> of a str: single quotes unless the string has a single quote
  and no double quote; the backslash, the chosen quote and the ASCII control
  characters are escaped. Bytes of non-ASCII code points are kept, which is
  what \<open>repr\<close> does for printable code points.\<close>

definition repr_char :: "char \<Rightarrow> char \<Rightarrow> string" where
  "repr_char q c =
     (let n = (of_char c :: nat)
      in if c = q \<or> n = 0x5C then [CHR 0x5C, c]
         else if n = 0x09 then [CHR 0x5C, CHR ''t'']
         else if n = 0x0A then [CHR 0x5C, CHR ''n'']
         else if n = 0x0D then [CHR 0x5C, CHR ''r'']
         else if n < 0x20 \<or> n = 0x7F then [CHR 0x5C, CHR ''x'', hex_digit (n div 16), hex_digit (n mod 16)]
         else [c])"

definition repr_str :: "string \<Rightarrow> string" where
  "repr_str s =
     (let q = (if CHR 0x27 \<in> set s \<and> CHR 0x22 \<notin> set s then CHR 0x22 else CHR 0x27)
      in q # concat (map (repr_char q) s) @ [q])"

text \<open>The dict keeps only pairs of the object.\<close>

lemma set_dict_set: "set (dict_set k v d) \<subseteq> insert (k, v) (set d)"
  by (induction d) (auto split: if_splits)

lemma set_fold_dict_set: "set (fold (\<lambda>(k, v) d. dict_set k v d) kvs d) \<subseteq> set kvs \<union> set d"
proof (induction kvs arbitrary: d)
  case (Cons kv kvs)
  then show ?case using set_dict_set [of "fst kv" "snd kv" d] by (cases kv) fastforce
qed simp

lemma mem_py_dict: "x \<in> set (py_dict kvs) \<Longrightarrow> x \<in> set kvs"
  using set_fold_dict_set [of kvs "[]"] by (auto simp: py_dict_def)

text \<open>\<open>repr\<close> of a loaded value.\<close>

function py_repr :: "json \<Rightarrow> string" where
  "py_repr JNull = ''None''"
| "py_repr (JBool b) = (if b then ''True'' else ''False'')"
| "py_repr (JInt i) = int_to_dec i"
| "py_repr (JStr s) = repr_str s"
| "py_repr (JArr vs) = ''['' @ py_join '', '' (map py_repr vs) @ '']''"
| "py_repr (JObj kvs) =
     ''{'' @ py_join '', '' (map (\<lambda>(k, v). repr_str k @ '': '' @ py_repr v) (py_dict kvs)) @ ''}''"
  by pat_completeness auto
termination
proof (relation "measure size")
  fix kvs :: "(string \<times> json) list" and x k v
  assume "x \<in> set (py_dict kvs)" and "(k, v) = x"
  then have "(k, v) \<in> set kvs" by (auto dest: mem_py_dict)
  then have "size v \<le> size_list (size_prod (\<lambda>_. 0) size) kvs"
    by (rule size_list_estimation') simp
  then show "(v, JObj kvs) \<in> measure size" by simp
qed (auto intro: le_imp_less_Suc size_list_estimation')

text \<open>\<open>str()\<close>, as an f-string formats a value.\<close>

definition py_str :: "json \<Rightarrow> string" where
  "py_str v = (case v of JStr s \<Rightarrow> s | _ \<Rightarrow> py_repr v)"

text \<open>\<open>obj[key]\<close> with a str key: the value, or the message of the
  \<open>KeyError\<close> or \<open>TypeError\<close> raised.\<close>

definition py_getitem :: "json \<Rightarrow> string \<Rightarrow> string + json" where
  "py_getitem v key =
     (case v of
        JObj kvs \<Rightarrow> (case map_of (py_dict kvs) key of None \<Rightarrow> Inl (repr_str key) | Some x \<Rightarrow> Inr x)
      | JArr _ \<Rightarrow> Inl ''list indices must be integers or slices, not str''
      | JStr _ \<Rightarrow> Inl (''string indices must be integers, not '' @ quoted ''str'')
      | _ \<Rightarrow> Inl (quoted (type_name v) @ '' object is not subscriptable''))"

text \<open>The code points of a str, as iterating over it gives them.\<close>

function cp_split :: "string \<Rightarrow> string list" where
  "cp_split [] = []"
| "cp_split (c # cs) = (c # takeWhile is_cont cs) # cp_split (dropWhile is_cont cs)"
  by pat_completeness auto
termination
  by (relation "measure length") (auto simp: le_imp_less_Suc length_dropWhile_le)

text \<open>\<open>obj[i]\<close> for \<open>i\<close> in \<open>range(len(obj))\<close>, formatted by \<open>str()\<close>: the
  elements of a list, the code points of a str; a non-empty dict raises
  \<open>KeyError(0)\<close>, and a scalar has no \<open>len()\<close>.\<close>

definition py_items :: "json \<Rightarrow> string + string list" where
  "py_items v =
     (case v of
        JArr vs \<Rightarrow> Inr (map py_str vs)
      | JStr s \<Rightarrow> Inr (cp_split s)
      | JObj kvs \<Rightarrow> (if py_dict kvs = [] then Inr [] else Inl ''0'')
      | _ \<Rightarrow> Inl (''object of type '' @ quoted (type_name v) @ '' has no len()''))"

end
