(* ===== verification/GuiTexts.thy ===== *)
theory GuiTexts
  imports Prelude
begin

text \<open>
  The Vietnamese texts of the event handlers of \<open>MainApp\<close>
  (src/src/gui.py, lines 800--1410) and the message of the \<open>ValueError\<close> of
  \<open>SRTTranslator.translate_file\<close>, as the UTF-8 bytes of the source text.
  The comment above each shows the text without its diacritics.
\<close>

definition gui_warn :: string where
  \<comment> \<open>Canh bao\<close>
  "gui_warn = ''C'' @ [CHR 0xE1, CHR 0xBA, CHR 0xA3] @ ''nh b'' @ [CHR 0xC3, CHR 0xA1] @ ''o''"

definition gui_err :: string where
  \<comment> \<open>Loi\<close>
  "gui_err = ''L'' @ [CHR 0xE1, CHR 0xBB, CHR 0x97] @ ''i''"

definition gui_ok :: string where
  \<comment> \<open>Thanh cong\<close>
  "gui_ok = ''Th'' @ [CHR 0xC3, CHR 0xA0] @ ''nh c'' @ [CHR 0xC3, CHR 0xB4] @ ''ng''"

definition gui_info :: string where
  \<comment> \<open>Thong tin\<close>
  "gui_info = ''Th'' @ [CHR 0xC3, CHR 0xB4] @ ''ng tin''"

definition gui_need_story :: string where
  \<comment> \<open>Vui long nhap noi dung truyen!\<close>
  "gui_need_story = ''Vui l'' @ [CHR 0xC3, CHR 0xB2] @ ''ng nh'' @ [CHR 0xE1, CHR 0xBA, CHR 0xAD] @ ''p n'' @ [CHR 0xE1, CHR 0xBB, CHR 0x99] @ ''i dung truy'' @ [CHR 0xE1, CHR 0xBB, CHR 0x87] @ ''n!''"

definition gui_nothing_to_save :: string where
  \<comment> \<open>Khong co noi dung de luu!\<close>
  "gui_nothing_to_save = ''Kh'' @ [CHR 0xC3, CHR 0xB4] @ ''ng c'' @ [CHR 0xC3, CHR 0xB3] @ '' n'' @ [CHR 0xE1, CHR 0xBB, CHR 0x99] @ ''i dung '' @ [CHR 0xC4, CHR 0x91, CHR 0xE1, CHR 0xBB, CHR 0x83] @ '' l'' @ [CHR 0xC6, CHR 0xB0] @ ''u!''"

definition gui_need_srt :: string where
  \<comment> \<open>Vui long chon file SRT!\<close>
  "gui_need_srt = ''Vui l'' @ [CHR 0xC3, CHR 0xB2] @ ''ng ch'' @ [CHR 0xE1, CHR 0xBB, CHR 0x8D] @ ''n file SRT!''"

definition gui_need_url :: string where
  \<comment> \<open>Vui long nhap URL video!\<close>
  "gui_need_url = ''Vui l'' @ [CHR 0xC3, CHR 0xB2] @ ''ng nh'' @ [CHR 0xE1, CHR 0xBA, CHR 0xAD] @ ''p URL video!''"

definition gui_no_script_to_save :: string where
  \<comment> \<open>Khong co kich ban de luu!\<close>
  "gui_no_script_to_save = ''Kh'' @ [CHR 0xC3, CHR 0xB4] @ ''ng c'' @ [CHR 0xC3, CHR 0xB3] @ '' k'' @ [CHR 0xE1, CHR 0xBB, CHR 0x8B] @ ''ch b'' @ [CHR 0xE1, CHR 0xBA, CHR 0xA3] @ ''n '' @ [CHR 0xC4, CHR 0x91, CHR 0xE1, CHR 0xBB, CHR 0x83] @ '' l'' @ [CHR 0xC6, CHR 0xB0] @ ''u!''"

definition gui_nothing_to_copy :: string where
  \<comment> \<open>Khong co noi dung de sao chep!\<close>
  "gui_nothing_to_copy = ''Kh'' @ [CHR 0xC3, CHR 0xB4] @ ''ng c'' @ [CHR 0xC3, CHR 0xB3] @ '' n'' @ [CHR 0xE1, CHR 0xBB, CHR 0x99] @ ''i dung '' @ [CHR 0xC4, CHR 0x91, CHR 0xE1, CHR 0xBB, CHR 0x83] @ '' sao ch'' @ [CHR 0xC3, CHR 0xA9] @ ''p!''"

definition gui_need_prompt :: string where
  \<comment> \<open>Vui long nhap prompt hoac kich ban!\<close>
  "gui_need_prompt = ''Vui l'' @ [CHR 0xC3, CHR 0xB2] @ ''ng nh'' @ [CHR 0xE1, CHR 0xBA, CHR 0xAD] @ ''p prompt ho'' @ [CHR 0xE1, CHR 0xBA, CHR 0xB7] @ ''c k'' @ [CHR 0xE1, CHR 0xBB, CHR 0x8B] @ ''ch b'' @ [CHR 0xE1, CHR 0xBA, CHR 0xA3] @ ''n!''"

definition gui_no_images :: string where
  \<comment> \<open>Khong tao duoc anh nao!\<close>
  "gui_no_images = ''Kh'' @ [CHR 0xC3, CHR 0xB4] @ ''ng t'' @ [CHR 0xE1, CHR 0xBA, CHR 0xA1] @ ''o '' @ [CHR 0xC4, CHR 0x91, CHR 0xC6, CHR 0xB0, CHR 0xE1, CHR 0xBB, CHR 0xA3] @ ''c '' @ [CHR 0xE1, CHR 0xBA, CHR 0xA3] @ ''nh n'' @ [CHR 0xC3, CHR 0xA0] @ ''o!''"

definition gui_in_development :: string where
  \<comment> \<open>Tinh nang dang phat trien!\<close>
  "gui_in_development = ''T'' @ [CHR 0xC3, CHR 0xAD] @ ''nh n'' @ [CHR 0xC4, CHR 0x83] @ ''ng '' @ [CHR 0xC4, CHR 0x91] @ ''ang ph'' @ [CHR 0xC3, CHR 0xA1] @ ''t tri'' @ [CHR 0xE1, CHR 0xBB, CHR 0x83] @ ''n!''"

definition gui_processing_1 :: string where
  \<comment> \<open>Dang xu ly voi AI (\<close>
  "gui_processing_1 = [CHR 0xC4, CHR 0x90] @ ''ang x'' @ [CHR 0xE1, CHR 0xBB, CHR 0xAD] @ '' l'' @ [CHR 0xC3, CHR 0xBD] @ '' v'' @ [CHR 0xE1, CHR 0xBB, CHR 0x9B] @ ''i AI (''"

definition gui_processing_2 :: string where
  \<comment> \<open>)...\<close>
  "gui_processing_2 = '')...''"

definition gui_edit_done :: string where
  \<comment> \<open>Da hoan thanh chinh sua!\<close>
  "gui_edit_done = [CHR 0xC4, CHR 0x90, CHR 0xC3, CHR 0xA3] @ '' ho'' @ [CHR 0xC3, CHR 0xA0] @ ''n th'' @ [CHR 0xC3, CHR 0xA0] @ ''nh ch'' @ [CHR 0xE1, CHR 0xBB, CHR 0x89] @ ''nh s'' @ [CHR 0xE1, CHR 0xBB, CHR 0xAD] @ ''a!''"

definition gui_loaded_file :: string where
  \<comment> \<open>Da tai file: \<close>
  "gui_loaded_file = [CHR 0xC4, CHR 0x90, CHR 0xC3, CHR 0xA3] @ '' t'' @ [CHR 0xE1, CHR 0xBA, CHR 0xA3] @ ''i file: ''"

definition gui_saved_file :: string where
  \<comment> \<open>Da luu file: \<close>
  "gui_saved_file = [CHR 0xC4, CHR 0x90, CHR 0xC3, CHR 0xA3] @ '' l'' @ [CHR 0xC6, CHR 0xB0] @ ''u file: ''"

definition gui_saved_story :: string where
  \<comment> \<open>Da luu truyen thanh cong!\<close>
  "gui_saved_story = [CHR 0xC4, CHR 0x90, CHR 0xC3, CHR 0xA3] @ '' l'' @ [CHR 0xC6, CHR 0xB0] @ ''u truy'' @ [CHR 0xE1, CHR 0xBB, CHR 0x87] @ ''n th'' @ [CHR 0xC3, CHR 0xA0] @ ''nh c'' @ [CHR 0xC3, CHR 0xB4] @ ''ng!''"

definition gui_cannot_read :: string where
  \<comment> \<open>Khong the doc file: \<close>
  "gui_cannot_read = ''Kh'' @ [CHR 0xC3, CHR 0xB4] @ ''ng th'' @ [CHR 0xE1, CHR 0xBB, CHR 0x83] @ '' '' @ [CHR 0xC4, CHR 0x91, CHR 0xE1, CHR 0xBB, CHR 0x8D] @ ''c file: ''"

definition gui_cannot_save :: string where
  \<comment> \<open>Khong the luu file: \<close>
  "gui_cannot_save = ''Kh'' @ [CHR 0xC3, CHR 0xB4] @ ''ng th'' @ [CHR 0xE1, CHR 0xBB, CHR 0x83] @ '' l'' @ [CHR 0xC6, CHR 0xB0] @ ''u file: ''"

definition gui_loaded_srt :: string where
  \<comment> \<open>Da tai file SRT: \<close>
  "gui_loaded_srt = [CHR 0xC4, CHR 0x90, CHR 0xC3, CHR 0xA3] @ '' t'' @ [CHR 0xE1, CHR 0xBA, CHR 0xA3] @ ''i file SRT: ''"

definition gui_cannot_read_srt :: string where
  \<comment> \<open>Khong the doc file SRT: \<close>
  "gui_cannot_read_srt = ''Kh'' @ [CHR 0xC3, CHR 0xB4] @ ''ng th'' @ [CHR 0xE1, CHR 0xBB, CHR 0x83] @ '' '' @ [CHR 0xC4, CHR 0x91, CHR 0xE1, CHR 0xBB, CHR 0x8D] @ ''c file SRT: ''"

definition gui_translate_start :: string where
  \<comment> \<open>Dang bat dau dich...\<close>
  "gui_translate_start = [CHR 0xC4, CHR 0x90] @ ''ang b'' @ [CHR 0xE1, CHR 0xBA, CHR 0xAF] @ ''t '' @ [CHR 0xC4, CHR 0x91, CHR 0xE1, CHR 0xBA, CHR 0xA7] @ ''u d'' @ [CHR 0xE1, CHR 0xBB, CHR 0x8B] @ ''ch...''"

definition gui_translating :: string where
  \<comment> \<open>Dang dich... \<close>
  "gui_translating = [CHR 0xC4, CHR 0x90] @ ''ang d'' @ [CHR 0xE1, CHR 0xBB, CHR 0x8B] @ ''ch... ''"

definition gui_sentences :: string where
  \<comment> \<open> cau (\<close>
  "gui_sentences = '' c'' @ [CHR 0xC3, CHR 0xA2] @ ''u (''"

definition gui_ask_save :: string where
  \<comment> \<open>Da dich xong! Ban co muon luu file khong?\<close>
  "gui_ask_save = [CHR 0xC4, CHR 0x90, CHR 0xC3, CHR 0xA3] @ '' d'' @ [CHR 0xE1, CHR 0xBB, CHR 0x8B] @ ''ch xong! B'' @ [CHR 0xE1, CHR 0xBA, CHR 0xA1] @ ''n c'' @ [CHR 0xC3, CHR 0xB3] @ '' mu'' @ [CHR 0xE1, CHR 0xBB, CHR 0x91] @ ''n l'' @ [CHR 0xC6, CHR 0xB0] @ ''u file kh'' @ [CHR 0xC3, CHR 0xB4] @ ''ng?''"

definition gui_saved_translation :: string where
  \<comment> \<open>Da luu file dich: \<close>
  "gui_saved_translation = [CHR 0xC4, CHR 0x90, CHR 0xC3, CHR 0xA3] @ '' l'' @ [CHR 0xC6, CHR 0xB0] @ ''u file d'' @ [CHR 0xE1, CHR 0xBB, CHR 0x8B] @ ''ch: ''"

definition gui_finished :: string where
  \<comment> \<open>Hoan thanh!\<close>
  "gui_finished = ''Ho'' @ [CHR 0xC3, CHR 0xA0] @ ''n th'' @ [CHR 0xC3, CHR 0xA0] @ ''nh!''"

definition gui_checking_url :: string where
  \<comment> \<open>Dang kiem tra URL: \<close>
  "gui_checking_url = [CHR 0xC4, CHR 0x90] @ ''ang ki'' @ [CHR 0xE1, CHR 0xBB, CHR 0x83] @ ''m tra URL: ''"

definition gui_found_video :: string where
  \<comment> \<open>Tim thay video: / \<close>
  "gui_found_video = ''T'' @ [CHR 0xC3, CHR 0xAC] @ ''m th'' @ [CHR 0xE1, CHR 0xBA, CHR 0xA5] @ ''y video:'' @ [CHR 0x0A]"

definition gui_title_label :: string where
  \<comment> \<open>Tieu de: \<close>
  "gui_title_label = ''Ti'' @ [CHR 0xC3, CHR 0xAA] @ ''u '' @ [CHR 0xC4, CHR 0x91, CHR 0xE1, CHR 0xBB, CHR 0x81] @ '': ''"

definition gui_duration_label :: string where
  \<comment> \<open>Thoi luong: \<close>
  "gui_duration_label = ''Th'' @ [CHR 0xE1, CHR 0xBB, CHR 0x9D] @ ''i l'' @ [CHR 0xC6, CHR 0xB0, CHR 0xE1, CHR 0xBB, CHR 0xA3] @ ''ng: ''"

definition gui_seconds :: string where
  \<comment> \<open> giay / \<close>
  "gui_seconds = '' gi'' @ [CHR 0xC3, CHR 0xA2] @ ''y'' @ [CHR 0x0A]"

definition gui_format_label :: string where
  \<comment> \<open>Dinh dang: \<close>
  "gui_format_label = [CHR 0xC4, CHR 0x90, CHR 0xE1, CHR 0xBB, CHR 0x8B] @ ''nh d'' @ [CHR 0xE1, CHR 0xBA, CHR 0xA1] @ ''ng: ''"

definition gui_qualities_label :: string where
  \<comment> \<open>Chat luong co san: \<close>
  "gui_qualities_label = ''Ch'' @ [CHR 0xE1, CHR 0xBA, CHR 0xA5] @ ''t l'' @ [CHR 0xC6, CHR 0xB0, CHR 0xE1, CHR 0xBB, CHR 0xA3] @ ''ng c'' @ [CHR 0xC3, CHR 0xB3] @ '' s'' @ [CHR 0xE1, CHR 0xBA, CHR 0xB5] @ ''n: ''"

definition gui_url_checked :: string where
  \<comment> \<open>Da kiem tra URL thanh cong!\<close>
  "gui_url_checked = [CHR 0xC4, CHR 0x90, CHR 0xC3, CHR 0xA3] @ '' ki'' @ [CHR 0xE1, CHR 0xBB, CHR 0x83] @ ''m tra URL th'' @ [CHR 0xC3, CHR 0xA0] @ ''nh c'' @ [CHR 0xC3, CHR 0xB4] @ ''ng!''"

definition gui_download_start :: string where
  \<comment> \<open>Dang bat dau tai video...\<close>
  "gui_download_start = [CHR 0xC4, CHR 0x90] @ ''ang b'' @ [CHR 0xE1, CHR 0xBA, CHR 0xAF] @ ''t '' @ [CHR 0xC4, CHR 0x91, CHR 0xE1, CHR 0xBA, CHR 0xA7] @ ''u t'' @ [CHR 0xE1, CHR 0xBA, CHR 0xA3] @ ''i video...''"

definition gui_downloaded :: string where
  \<comment> \<open>Da tai video: \<close>
  "gui_downloaded = [CHR 0xC4, CHR 0x90, CHR 0xC3, CHR 0xA3] @ '' t'' @ [CHR 0xE1, CHR 0xBA, CHR 0xA3] @ ''i video: ''"

definition gui_download_ok :: string where
  \<comment> \<open>Da tai video thanh cong! / Luu tai: \<close>
  "gui_download_ok = [CHR 0xC4, CHR 0x90, CHR 0xC3, CHR 0xA3] @ '' t'' @ [CHR 0xE1, CHR 0xBA, CHR 0xA3] @ ''i video th'' @ [CHR 0xC3, CHR 0xA0] @ ''nh c'' @ [CHR 0xC3, CHR 0xB4] @ ''ng!'' @ [CHR 0x0A] @ ''L'' @ [CHR 0xC6, CHR 0xB0] @ ''u t'' @ [CHR 0xE1, CHR 0xBA, CHR 0xA1] @ ''i: ''"

definition gui_script_start :: string where
  \<comment> \<open>Dang tao kich ban anh voi AI...\<close>
  "gui_script_start = [CHR 0xC4, CHR 0x90] @ ''ang t'' @ [CHR 0xE1, CHR 0xBA, CHR 0xA1] @ ''o k'' @ [CHR 0xE1, CHR 0xBB, CHR 0x8B] @ ''ch b'' @ [CHR 0xE1, CHR 0xBA, CHR 0xA3] @ ''n '' @ [CHR 0xE1, CHR 0xBA, CHR 0xA3] @ ''nh v'' @ [CHR 0xE1, CHR 0xBB, CHR 0x9B] @ ''i AI...''"

definition gui_script_done :: string where
  \<comment> \<open>Da tao kich ban anh!\<close>
  "gui_script_done = [CHR 0xC4, CHR 0x90, CHR 0xC3, CHR 0xA3] @ '' t'' @ [CHR 0xE1, CHR 0xBA, CHR 0xA1] @ ''o k'' @ [CHR 0xE1, CHR 0xBB, CHR 0x8B] @ ''ch b'' @ [CHR 0xE1, CHR 0xBA, CHR 0xA3] @ ''n '' @ [CHR 0xE1, CHR 0xBA, CHR 0xA3] @ ''nh!''"

definition gui_saved_script :: string where
  \<comment> \<open>Da luu kich ban: \<close>
  "gui_saved_script = [CHR 0xC4, CHR 0x90, CHR 0xC3, CHR 0xA3] @ '' l'' @ [CHR 0xC6, CHR 0xB0] @ ''u k'' @ [CHR 0xE1, CHR 0xBB, CHR 0x8B] @ ''ch b'' @ [CHR 0xE1, CHR 0xBA, CHR 0xA3] @ ''n: ''"

definition gui_saved_script_ok :: string where
  \<comment> \<open>Da luu kich ban thanh cong!\<close>
  "gui_saved_script_ok = [CHR 0xC4, CHR 0x90, CHR 0xC3, CHR 0xA3] @ '' l'' @ [CHR 0xC6, CHR 0xB0] @ ''u k'' @ [CHR 0xE1, CHR 0xBB, CHR 0x8B] @ ''ch b'' @ [CHR 0xE1, CHR 0xBA, CHR 0xA3] @ ''n th'' @ [CHR 0xC3, CHR 0xA0] @ ''nh c'' @ [CHR 0xC3, CHR 0xB4] @ ''ng!''"

definition gui_copied :: string where
  \<comment> \<open>Da sao chep kich ban vao clipboard!\<close>
  "gui_copied = [CHR 0xC4, CHR 0x90, CHR 0xC3, CHR 0xA3] @ '' sao ch'' @ [CHR 0xC3, CHR 0xA9] @ ''p k'' @ [CHR 0xE1, CHR 0xBB, CHR 0x8B] @ ''ch b'' @ [CHR 0xE1, CHR 0xBA, CHR 0xA3] @ ''n v'' @ [CHR 0xC3, CHR 0xA0] @ ''o clipboard!''"

definition gui_copied_ok :: string where
  \<comment> \<open>Da sao chep kich ban!\<close>
  "gui_copied_ok = [CHR 0xC4, CHR 0x90, CHR 0xC3, CHR 0xA3] @ '' sao ch'' @ [CHR 0xC3, CHR 0xA9] @ ''p k'' @ [CHR 0xE1, CHR 0xBB, CHR 0x8B] @ ''ch b'' @ [CHR 0xE1, CHR 0xBA, CHR 0xA3] @ ''n!''"

definition gui_loaded_script :: string where
  \<comment> \<open>Da tai kich ban: \<close>
  "gui_loaded_script = [CHR 0xC4, CHR 0x90, CHR 0xC3, CHR 0xA3] @ '' t'' @ [CHR 0xE1, CHR 0xBA, CHR 0xA3] @ ''i k'' @ [CHR 0xE1, CHR 0xBB, CHR 0x8B] @ ''ch b'' @ [CHR 0xE1, CHR 0xBA, CHR 0xA3] @ ''n: ''"

definition gui_images_start :: string where
  \<comment> \<open>Dang tao anh voi AI...\<close>
  "gui_images_start = [CHR 0xC4, CHR 0x90] @ ''ang t'' @ [CHR 0xE1, CHR 0xBA, CHR 0xA1] @ ''o '' @ [CHR 0xE1, CHR 0xBA, CHR 0xA3] @ ''nh v'' @ [CHR 0xE1, CHR 0xBB, CHR 0x9B] @ ''i AI...''"

definition gui_created_1 :: string where
  \<comment> \<open>Da tao \<close>
  "gui_created_1 = [CHR 0xC4, CHR 0x90, CHR 0xC3, CHR 0xA3] @ '' t'' @ [CHR 0xE1, CHR 0xBA, CHR 0xA1] @ ''o ''"

definition gui_created_2 :: string where
  \<comment> \<open> anh!\<close>
  "gui_created_2 = '' '' @ [CHR 0xE1, CHR 0xBA, CHR 0xA3] @ ''nh!''"

definition gui_cannot_show :: string where
  \<comment> \<open>Khong the hien thi anh: \<close>
  "gui_cannot_show = ''Kh'' @ [CHR 0xC3, CHR 0xB4] @ ''ng th'' @ [CHR 0xE1, CHR 0xBB, CHR 0x83] @ '' hi'' @ [CHR 0xE1, CHR 0xBB, CHR 0x83] @ ''n th'' @ [CHR 0xE1, CHR 0xBB, CHR 0x8B] @ '' '' @ [CHR 0xE1, CHR 0xBA, CHR 0xA3] @ ''nh: ''"

definition gui_cannot_open_dir :: string where
  \<comment> \<open>Khong the mo thu muc: \<close>
  "gui_cannot_open_dir = ''Kh'' @ [CHR 0xC3, CHR 0xB4] @ ''ng th'' @ [CHR 0xE1, CHR 0xBB, CHR 0x83] @ '' m'' @ [CHR 0xE1, CHR 0xBB, CHR 0x9F] @ '' th'' @ [CHR 0xC6, CHR 0xB0] @ '' m'' @ [CHR 0xE1, CHR 0xBB, CHR 0xA5] @ ''c: ''"

definition gui_cleared_image :: string where
  \<comment> \<open>Da xoa anh hien thi\<close>
  "gui_cleared_image = [CHR 0xC4, CHR 0x90, CHR 0xC3, CHR 0xA3] @ '' x'' @ [CHR 0xC3, CHR 0xB3] @ ''a '' @ [CHR 0xE1, CHR 0xBA, CHR 0xA3] @ ''nh hi'' @ [CHR 0xE1, CHR 0xBB, CHR 0x83] @ ''n th'' @ [CHR 0xE1, CHR 0xBB, CHR 0x8B]"

definition gui_err_edit :: string where
  \<comment> \<open>Khong the xu ly truyen: \<close>
  "gui_err_edit = ''Kh'' @ [CHR 0xC3, CHR 0xB4] @ ''ng th'' @ [CHR 0xE1, CHR 0xBB, CHR 0x83] @ '' x'' @ [CHR 0xE1, CHR 0xBB, CHR 0xAD] @ '' l'' @ [CHR 0xC3, CHR 0xBD] @ '' truy'' @ [CHR 0xE1, CHR 0xBB, CHR 0x87] @ ''n: ''"

definition gui_err_translate :: string where
  \<comment> \<open>Loi khi dich: \<close>
  "gui_err_translate = ''L'' @ [CHR 0xE1, CHR 0xBB, CHR 0x97] @ ''i khi d'' @ [CHR 0xE1, CHR 0xBB, CHR 0x8B] @ ''ch: ''"

definition gui_err_check :: string where
  \<comment> \<open>Khong the kiem tra URL: \<close>
  "gui_err_check = ''Kh'' @ [CHR 0xC3, CHR 0xB4] @ ''ng th'' @ [CHR 0xE1, CHR 0xBB, CHR 0x83] @ '' ki'' @ [CHR 0xE1, CHR 0xBB, CHR 0x83] @ ''m tra URL: ''"

definition gui_err_download :: string where
  \<comment> \<open>Loi khi tai video: \<close>
  "gui_err_download = ''L'' @ [CHR 0xE1, CHR 0xBB, CHR 0x97] @ ''i khi t'' @ [CHR 0xE1, CHR 0xBA, CHR 0xA3] @ ''i video: ''"

definition gui_err_script :: string where
  \<comment> \<open>Khong the tao kich ban: \<close>
  "gui_err_script = ''Kh'' @ [CHR 0xC3, CHR 0xB4] @ ''ng th'' @ [CHR 0xE1, CHR 0xBB, CHR 0x83] @ '' t'' @ [CHR 0xE1, CHR 0xBA, CHR 0xA1] @ ''o k'' @ [CHR 0xE1, CHR 0xBB, CHR 0x8B] @ ''ch b'' @ [CHR 0xE1, CHR 0xBA, CHR 0xA3] @ ''n: ''"

definition gui_err_images :: string where
  \<comment> \<open>Khong the tao anh: \<close>
  "gui_err_images = ''Kh'' @ [CHR 0xC3, CHR 0xB4] @ ''ng th'' @ [CHR 0xE1, CHR 0xBB, CHR 0x83] @ '' t'' @ [CHR 0xE1, CHR 0xBA, CHR 0xA1] @ ''o '' @ [CHR 0xE1, CHR 0xBA, CHR 0xA3] @ ''nh: ''"

definition gui_lm_connected :: string where
  \<comment> \<open>LM Studio: Da ket noi ?\<close>
  "gui_lm_connected = ''LM Studio: '' @ [CHR 0xC4, CHR 0x90, CHR 0xC3, CHR 0xA3] @ '' k'' @ [CHR 0xE1, CHR 0xBA, CHR 0xBF] @ ''t n'' @ [CHR 0xE1, CHR 0xBB, CHR 0x91] @ ''i '' @ [CHR 0xE2, CHR 0x9C, CHR 0x85]"

definition gui_lm_not_connected :: string where
  \<comment> \<open>LM Studio: Chua ket noi ?\<close>
  "gui_lm_not_connected = ''LM Studio: Ch'' @ [CHR 0xC6, CHR 0xB0] @ ''a k'' @ [CHR 0xE1, CHR 0xBA, CHR 0xBF] @ ''t n'' @ [CHR 0xE1, CHR 0xBB, CHR 0x91] @ ''i '' @ [CHR 0xE2, CHR 0x9D, CHR 0x8C]"

definition gui_lm_error :: string where
  \<comment> \<open>LM Studio: Loi ket noi\<close>
  "gui_lm_error = ''LM Studio: L'' @ [CHR 0xE1, CHR 0xBB, CHR 0x97] @ ''i k'' @ [CHR 0xE1, CHR 0xBA, CHR 0xBF] @ ''t n'' @ [CHR 0xE1, CHR 0xBB, CHR 0x91] @ ''i''"

definition gui_tab_1 :: string where
  \<comment> \<open>Chinh Sua Truyen\<close>
  "gui_tab_1 = ''Ch'' @ [CHR 0xE1, CHR 0xBB, CHR 0x89] @ ''nh S'' @ [CHR 0xE1, CHR 0xBB, CHR 0xAD] @ ''a Truy'' @ [CHR 0xE1, CHR 0xBB, CHR 0x87] @ ''n''"

definition gui_tab_2 :: string where
  \<comment> \<open>Dich Phu De\<close>
  "gui_tab_2 = ''D'' @ [CHR 0xE1, CHR 0xBB, CHR 0x8B] @ ''ch Ph'' @ [CHR 0xE1, CHR 0xBB, CHR 0xA5] @ '' '' @ [CHR 0xC4, CHR 0x90, CHR 0xE1, CHR 0xBB, CHR 0x81]"

definition gui_tab_3 :: string where
  \<comment> \<open>Tai Video\<close>
  "gui_tab_3 = ''T'' @ [CHR 0xE1, CHR 0xBA, CHR 0xA3] @ ''i Video''"

definition gui_tab_4 :: string where
  \<comment> \<open>Viet Kich Ban Anh\<close>
  "gui_tab_4 = ''Vi'' @ [CHR 0xE1, CHR 0xBA, CHR 0xBF] @ ''t K'' @ [CHR 0xE1, CHR 0xBB, CHR 0x8B] @ ''ch B'' @ [CHR 0xE1, CHR 0xBA, CHR 0xA3] @ ''n '' @ [CHR 0xE1, CHR 0xBA, CHR 0xA2] @ ''nh''"

definition gui_tab_5 :: string where
  \<comment> \<open>Tao Anh tu Kich Ban\<close>
  "gui_tab_5 = ''T'' @ [CHR 0xE1, CHR 0xBA, CHR 0xA1] @ ''o '' @ [CHR 0xE1, CHR 0xBA, CHR 0xA2] @ ''nh t'' @ [CHR 0xE1, CHR 0xBB, CHR 0xAB] @ '' K'' @ [CHR 0xE1, CHR 0xBB, CHR 0x8B] @ ''ch B'' @ [CHR 0xE1, CHR 0xBA, CHR 0xA3] @ ''n''"

definition gui_settings_title :: string where
  \<comment> \<open>Cai Dat Ung Dung\<close>
  "gui_settings_title = ''C'' @ [CHR 0xC3, CHR 0xA0] @ ''i '' @ [CHR 0xC4, CHR 0x90, CHR 0xE1, CHR 0xBA, CHR 0xB7] @ ''t '' @ [CHR 0xE1, CHR 0xBB, CHR 0xA8] @ ''ng D'' @ [CHR 0xE1, CHR 0xBB, CHR 0xA5] @ ''ng''"

definition gui_status_title :: string where
  \<comment> \<open>Trang Thai He Thong\<close>
  "gui_status_title = ''Tr'' @ [CHR 0xE1, CHR 0xBA, CHR 0xA1] @ ''ng Th'' @ [CHR 0xC3, CHR 0xA1] @ ''i H'' @ [CHR 0xE1, CHR 0xBB, CHR 0x87] @ '' Th'' @ [CHR 0xE1, CHR 0xBB, CHR 0x91] @ ''ng''"

definition srt_empty_msg :: string where
  \<comment> \<open>File SRT trong hoac khong doc duoc\<close>
  "srt_empty_msg = ''File SRT tr'' @ [CHR 0xE1, CHR 0xBB, CHR 0x91] @ ''ng ho'' @ [CHR 0xE1, CHR 0xBA, CHR 0xB7] @ ''c kh'' @ [CHR 0xC3, CHR 0xB4] @ ''ng '' @ [CHR 0xC4, CHR 0x91, CHR 0xE1, CHR 0xBB, CHR 0x8D] @ ''c '' @ [CHR 0xC4, CHR 0x91, CHR 0xC6, CHR 0xB0, CHR 0xE1, CHR 0xBB, CHR 0xA3] @ ''c''"

definition gui_ready_progress :: string where
  \<comment> \<open>San sang...\<close>
  "gui_ready_progress = ''S'' @ [CHR 0xE1, CHR 0xBA, CHR 0xB5] @ ''n s'' @ [CHR 0xC3, CHR 0xA0] @ ''ng...''"

definition gui_ready :: string where
  \<comment> \<open>San sang\<close>
  "gui_ready = ''S'' @ [CHR 0xE1, CHR 0xBA, CHR 0xB5] @ ''n s'' @ [CHR 0xC3, CHR 0xA0] @ ''ng''"

definition gui_lm_checking :: string where
  \<comment> \<open>LM Studio: Dang kiem tra...\<close>
  "gui_lm_checking = ''LM Studio: '' @ [CHR 0xC4, CHR 0x90] @ ''ang ki'' @ [CHR 0xE1, CHR 0xBB, CHR 0x83] @ ''m tra...''"

end
