(* ===== verification/Batcher.thy ===== *)
theory Batcher
  imports Prelude
begin

text \<open>
  The batcher: \<open>SRTTranslator._create_batches\<close> (src/src/srt_translator.py,
  lines 61--76). The loop state (\<open>batches\<close>, \<open>current_batch\<close>) is a record,
  one iteration of the \<open>for\<close> loop is \<open>batch_step\<close>, the loop is a
  \<open>fold\<close>, and the final \<open>if current_batch\<close> flush is in
  \<open>create_batches\<close>. \<open>batch_size\<close> is a Python \<open>int\<close>, so any value
  (zero or negative too) is accepted. The abstract contract is \<open>chunks\<close>:
  consecutive slices of a fixed positive width; the loop implements it with
  width \<open>max 1 batch_size\<close>.
\<close>

record 'a batch_state =
  batches :: "'a list list"
  current_batch :: "'a list"

definition batch_init :: "'a batch_state" where
  "batch_init = \<lparr>batches = [], current_batch = []\<rparr>"

text \<open>Lines 67--71: append, and close the batch once it reaches the size.\<close>

definition batch_step :: "int \<Rightarrow> 'a \<Rightarrow> 'a batch_state \<Rightarrow> 'a batch_state" where
  "batch_step batch_size sub st =
     (let cur = current_batch st @ [sub] in
      if batch_size \<le> int (length cur)
      then st\<lparr>batches := batches st @ [cur], current_batch := []\<rparr>
      else st\<lparr>current_batch := cur\<rparr>)"

text \<open>Lines 73--74: a non-empty last batch is appended after the loop.\<close>

definition flush_batches :: "'a batch_state \<Rightarrow> 'a list list" where
  "flush_batches st =
     (if current_batch st \<noteq> [] then batches st @ [current_batch st] else batches st)"

definition create_batches :: "'a list \<Rightarrow> int \<Rightarrow> 'a list list" where
  "create_batches subs batch_size =
     flush_batches (fold (batch_step batch_size) subs batch_init)"

text \<open>The contract: consecutive slices of width \<open>k\<close>, the last one possibly shorter.\<close>

fun chunks :: "nat \<Rightarrow> 'a list \<Rightarrow> 'a list list" where
  "chunks k xs = (if xs = [] \<or> k = 0 then [] else take k xs # chunks k (drop k xs))"

declare chunks.simps [simp del]

definition batch_width :: "int \<Rightarrow> nat" where
  "batch_width batch_size = nat (max 1 batch_size)"

subsection \<open>Lemmas on the contract\<close>

lemma chunks_Nil [simp]: "chunks k [] = []"
  by (simp add: chunks.simps)

lemma chunks_short: "0 < k \<Longrightarrow> xs \<noteq> [] \<Longrightarrow> length xs \<le> k \<Longrightarrow> chunks k xs = [xs]"
  by (subst chunks.simps) simp

lemma chunks_append_full:
  "0 < k \<Longrightarrow> length xs = k \<Longrightarrow> chunks k (xs @ ys) = xs # chunks k ys"
  by (subst chunks.simps) auto

lemma concat_chunks: "0 < k \<Longrightarrow> concat (chunks k xs) = xs"
proof (induction k xs rule: chunks.induct)
  case (1 k xs)
  then show ?case by (subst chunks.simps) auto
qed

lemma chunks_nonempty_bounded: "b \<in> set (chunks k xs) \<Longrightarrow> b \<noteq> [] \<and> length b \<le> k"
proof (induction k xs rule: chunks.induct)
  case (1 k xs)
  then show ?case by (subst (asm) chunks.simps) (auto split: if_splits)
qed

lemma chunks_butlast_full: "b \<in> set (butlast (chunks k xs)) \<Longrightarrow> length b = k"
proof (induction k xs rule: chunks.induct)
  case (1 k xs)
  show ?case
  proof (cases "xs = [] \<or> k = 0")
    case True
    with "1.prems" show ?thesis by (simp add: chunks.simps)
  next
    case False
    then have eq: "chunks k xs = take k xs # chunks k (drop k xs)"
      by (simp add: chunks.simps)
    show ?thesis
    proof (cases "drop k xs = []")
      case True
      with "1.prems" eq show ?thesis by simp
    next
      case False
      with "1.prems" eq \<open>\<not> (xs = [] \<or> k = 0)\<close> "1.IH" show ?thesis
        by (auto simp: chunks.simps [of k "drop k xs"] split: if_splits)
    qed
  qed
qed

lemma length_chunks: "0 < k \<Longrightarrow> length (chunks k xs) = (length xs + k - 1) div k"
proof (induction k xs rule: chunks.induct)
  case (1 k xs)
  show ?case
  proof (cases "xs = []")
    case True
    with "1.prems" show ?thesis by simp
  next
    case False
    with "1.prems" "1.IH" have
      "length (chunks k xs) = Suc ((length xs - k + k - 1) div k)"
      by (subst chunks.simps) simp
    also have "\<dots> = (length xs + k - 1) div k"
    proof (cases "length xs \<le> k")
      case True
      from False have "0 < length xs" by simp
      with True have "length xs - k = 0" and "k \<le> length xs + k - 1"
        by arith+
      with "1.prems" True show ?thesis by (simp add: le_div_geq)
    next
      case False
      with "1.prems" show ?thesis
        by (simp add: div_if le_div_geq)
    qed
    finally show ?thesis .
  qed
qed

subsection \<open>The loop implements the contract\<close>

lemma batch_width_pos [simp]: "0 < batch_width bs"
  by (simp add: batch_width_def)

lemma batch_closes_iff: "0 < n \<Longrightarrow> (bs \<le> int n) = (batch_width bs \<le> n)"
  by (auto simp: batch_width_def)

lemma batch_step_closes:
  "batch_width bs \<le> Suc (length (current_batch st)) \<Longrightarrow>
   batch_step bs x st =
     st\<lparr>batches := batches st @ [current_batch st @ [x]], current_batch := []\<rparr>"
  using batch_closes_iff [of "Suc (length (current_batch st))" bs]
  by (simp add: batch_step_def Let_def)

lemma batch_step_fills:
  "\<not> batch_width bs \<le> Suc (length (current_batch st)) \<Longrightarrow>
   batch_step bs x st = st\<lparr>current_batch := current_batch st @ [x]\<rparr>"
  using batch_closes_iff [of "Suc (length (current_batch st))" bs]
  by (simp add: batch_step_def Let_def)

text \<open>The loop invariant: the open batch is shorter than the width, and the rest of
  the run cuts the open batch followed by the unread input into chunks.\<close>

lemma fold_batch_step:
  "length (current_batch st) < batch_width bs \<Longrightarrow>
   flush_batches (fold (batch_step bs) xs st) =
     batches st @ chunks (batch_width bs) (current_batch st @ xs)"
proof (induction xs arbitrary: st)
  case Nil
  then show ?case
    by (cases "current_batch st = []") (simp_all add: flush_batches_def chunks_short)
next
  case (Cons x xs)
  let ?k = "batch_width bs"
  let ?cur = "current_batch st @ [x]"
  show ?case
  proof (cases "?k \<le> Suc (length (current_batch st))")
    case True
    with Cons.prems have full: "length ?cur = ?k" by simp
    let ?st' = "st\<lparr>batches := batches st @ [?cur], current_batch := []\<rparr>"
    have "flush_batches (fold (batch_step bs) (x # xs) st) =
          flush_batches (fold (batch_step bs) xs ?st')"
      using True by (simp add: batch_step_closes)
    also have "\<dots> = batches st @ [?cur] @ chunks ?k xs"
      using Cons.IH [of ?st'] by simp
    also have "\<dots> = batches st @ chunks ?k (?cur @ xs)"
      using chunks_append_full [OF batch_width_pos full] by simp
    finally show ?thesis by simp
  next
    case False
    let ?st' = "st\<lparr>current_batch := ?cur\<rparr>"
    have "flush_batches (fold (batch_step bs) (x # xs) st) =
          flush_batches (fold (batch_step bs) xs ?st')"
      using False by (simp add: batch_step_fills)
    also have "\<dots> = batches st @ chunks ?k (?cur @ xs)"
      using Cons.IH [of ?st'] False by simp
    finally show ?thesis by simp
  qed
qed

lemma create_batches_chunks:
  "create_batches subs bs = chunks (batch_width bs) subs"
  using fold_batch_step [of batch_init bs subs]
  by (simp add: create_batches_def batch_init_def)

lemma chunks_one: "chunks (Suc 0) xs = map (\<lambda>x. [x]) xs"
  by (induction xs) (simp_all add: chunks.simps [of "Suc 0"])

lemma create_batches_nth_nonempty:
  "k < length (create_batches subs bs) \<Longrightarrow> create_batches subs bs ! k \<noteq> []"
proof -
  assume "k < length (create_batches subs bs)"
  then have "create_batches subs bs ! k \<in> set (chunks (batch_width bs) subs)"
    by (metis nth_mem create_batches_chunks)
  then show ?thesis by (simp add: chunks_nonempty_bounded)
qed

subsection \<open>Properties of the batcher\<close>

text \<open>C1. Equivalence: the accumulate-and-flush loop of \<open>_create_batches\<close> computes
  exactly the consecutive slices of width \<open>max 1 batch_size\<close> of its input.\<close>

theorem create_batches_eq_chunks:
  "create_batches subs batch_size = chunks (nat (max 1 batch_size)) subs"
  using fold_batch_step [of batch_init batch_size subs]
  by (simp add: create_batches_def batch_init_def batch_width_def)

text \<open>Order preservation: concatenating the batches gives back the subtitles,
  in order, with no gap and no overlap, for every batch size.\<close>

theorem concat_create_batches: "concat (create_batches subs batch_size) = subs"
  by (simp add: create_batches_chunks concat_chunks)

text \<open>Shape: every batch is non-empty and holds at most \<open>max 1 batch_size\<close>
  subtitles, and every batch but the last holds exactly that many.\<close>

theorem create_batches_shape:
  "(\<forall>b \<in> set (create_batches subs batch_size).
      b \<noteq> [] \<and> length b \<le> batch_width batch_size) \<and>
   (\<forall>b \<in> set (butlast (create_batches subs batch_size)).
      length b = batch_width batch_size)"
  by (simp add: create_batches_chunks chunks_nonempty_bounded chunks_butlast_full)

theorem create_batches_shape_witness:
  "create_batches [1, 2, 3, 4, 5 :: nat] 2 = [[1, 2], [3, 4], [5]] \<and>
   length [5 :: nat] \<le> batch_width 2 \<and> length [1, 2 :: nat] = batch_width 2 \<and>
   length [3, 4 :: nat] = batch_width 2"
proof -
  have e: "create_batches [1, 2, 3, 4, 5 :: nat] 2 = [[1, 2], [3, 4], [5]]"
    by (simp add: create_batches_def batch_init_def batch_step_def flush_batches_def)
  show ?thesis using create_batches_shape [of "[1, 2, 3, 4, 5 :: nat]" 2] e by simp
qed

text \<open> A batch size below 1 is not rejected: the comparison
  \<open>len(current_batch) >= batch_size\<close> holds after every append, so every
  subtitle becomes a batch of its own.\<close>

theorem create_batches_nonpositive:
  "batch_size \<le> 1 \<Longrightarrow> create_batches subs batch_size = map (\<lambda>x. [x]) subs"
proof -
  assume "batch_size \<le> 1"
  then have w: "batch_width batch_size = 1" by (simp add: batch_width_def)
  then show ?thesis by (simp add: create_batches_chunks chunks_one One_nat_def)
qed

theorem create_batches_nonpositive_witness:
  "(0::int) \<le> 1 \<and> create_batches [''a'', ''b''] 0 = [[''a''], [''b'']]"
  using create_batches_nonpositive [of 0 "[''a'', ''b'']"] by simp

text \<open>Number of batches: \<open>ceil(len(subs) / max 1 batch_size)\<close>.\<close>

theorem length_create_batches:
  "length (create_batches subs batch_size) =
     (length subs + batch_width batch_size - 1) div batch_width batch_size"
  by (simp add: create_batches_chunks length_chunks)

end
