(* ===== verification/Cues.thy ===== *)
theory Cues
  imports Prelude
begin

text \<open>
  The subtitle data the translator works on. \<open>pysrt.open\<close> (a library, not
  part of this repository) yields \<open>SubRipItem\<close>s with an index, a start and an
  end time and a text; the translator reads \<open>.text\<close>, \<open>.start\<close> and
  \<open>.end\<close> only. \<open>srt_translator.py\<close> annotates the times as
  \<open>datetime.timedelta\<close> and formats them with \<open>total_seconds()\<close>, so a
  time is modelled as a non-negative number of microseconds, the resolution of
  \<open>timedelta\<close>. A translated subtitle is the tuple
  \<open>(translated_text, original.start, original.end)\<close> built at line 110.
\<close>

type_synonym timedelta = nat

record sub_item =
  sub_index :: nat
  sub_start :: timedelta
  sub_end :: timedelta
  sub_text :: string

type_synonym translated_item = "string \<times> timedelta \<times> timedelta"

definition item_timing :: "translated_item \<Rightarrow> timedelta \<times> timedelta" where
  "item_timing it = snd it"

definition sub_timing :: "sub_item \<Rightarrow> timedelta \<times> timedelta" where
  "sub_timing sub = (sub_start sub, sub_end sub)"

end
