(* ===== verification/Codec.thy ===== *)
theory Codec
  imports Cues
begin

text \<open>
  The prompt codec of src/src/srt_translator.py. Encoding is
  \<open>_batch_to_text\<close> (lines 78--89): each subtitle's text is cleaned by
  \<open>re.sub(r'<[^>]+>', '', text)\<close> (\<open>strip_tags\<close>) and
  \<open>.replace('\n', ' ')\<close> (\<open>clean_text\<close>), prefixed with its 1-based
  position in the batch, and the lines are joined with newlines. Decoding is
  \<open>_text_to_subtitles\<close> (lines 91--112): the response is stripped and split
  at newlines, each line is matched against \<open>^\d+\.\s*(.+)\<close>
  (\<open>match_numbered\<close>, which follows the regex engine's backtracking order),
  and line \<open>i\<close> is paired with the timing of subtitle \<open>i\<close> while
  \<open>i < len(original_batch)\<close>.
\<close>

section \<open>Encoding\<close>

text \<open>\<open>re.sub(r'<[^>]+>', '', s)\<close>: scanning left to right, a \<open><\<close> that is
  followed by at least one character other than \<open>>\<close> and then by \<open>>\<close>
  starts a match, which is removed up to and including the first \<open>>\<close>;
  any other character is kept and the scan moves on by one.\<close>

function strip_tags :: "string \<Rightarrow> string" where
  "strip_tags [] = []"
| "strip_tags (c # cs) =
     (let body = takeWhile (\<lambda>x. x \<noteq> CHR ''>'') cs;
          rest = dropWhile (\<lambda>x. x \<noteq> CHR ''>'') cs
      in if c = CHR ''<'' \<and> body \<noteq> [] \<and> rest \<noteq> []
         then strip_tags (tl rest) else c # strip_tags cs)"
  by pat_completeness auto
termination
proof (relation "measure length")
  fix c :: char and cs body rest
  assume "rest = dropWhile (\<lambda>x. x \<noteq> CHR ''>'') cs"
  then show "(tl rest, c # cs) \<in> measure length"
    using length_dropWhile_le [of "\<lambda>x. x \<noteq> CHR ''>''" cs] by simp
qed auto

definition clean_text :: "string \<Rightarrow> string" where
  "clean_text s = map (\<lambda>c. if c = nl then CHR '' '' else c) (strip_tags s)"

text \<open>The loop of lines 82--87, with \<open>enumerate(batch, 1)\<close> as the counter.\<close>

fun number_lines :: "nat \<Rightarrow> sub_item list \<Rightarrow> string list" where
  "number_lines i [] = []"
| "number_lines i (sub # subs) =
     (nat_to_dec i @ ''. '' @ clean_text (sub_text sub)) # number_lines (Suc i) subs"

definition batch_to_text :: "sub_item list \<Rightarrow> string" where
  "batch_to_text batch = py_join [nl] (number_lines 1 batch)"

section \<open>Decoding\<close>

text \<open>The group of \<open>\s*(.+)\<close> on the text after the dot: \<open>\s*\<close> first takes
  all \<open>j\<close> leading blanks and gives them back one at a time until \<open>.+\<close>
  (characters other than newline, at least one) matches.\<close>

fun group_after_blanks :: "string \<Rightarrow> nat \<Rightarrow> string option" where
  "group_after_blanks rest 0 =
     (let g = takeWhile (\<lambda>c. c \<noteq> nl) rest in if g \<noteq> [] then Some g else None)"
| "group_after_blanks rest (Suc j) =
     (let g = takeWhile (\<lambda>c. c \<noteq> nl) (drop (Suc j) rest)
      in if g \<noteq> [] then Some g else group_after_blanks rest j)"

text \<open>\<open>re.match(r'^\d+\.\s*(.+)', line)\<close>, returning \<open>match.group(1)\<close>.
  \<open>\d+\<close> is greedy and must be followed by a literal dot, so it takes all
  leading digits.\<close>

definition match_numbered :: "string \<Rightarrow> string option" where
  "match_numbered line =
     (let ds = takeWhile is_digit line; r = dropWhile is_digit line
      in if ds = [] \<or> r = [] \<or> hd r \<noteq> CHR ''.'' then None
         else group_after_blanks (tl r) (length (takeWhile is_space (tl r))))"

text \<open>Lines 103--107: the group when the line matches, the whole line otherwise.\<close>

definition line_text :: "string \<Rightarrow> string" where
  "line_text line = (case match_numbered line of Some g \<Rightarrow> g | None \<Rightarrow> line)"

text \<open>The loop of lines 98--110 over \<open>enumerate(lines)\<close>: line \<open>i\<close> gets the
  timing of \<open>original_batch[i]\<close>; lines past the end of the batch are skipped.\<close>

fun subtitles_loop :: "nat \<Rightarrow> string list \<Rightarrow> sub_item list \<Rightarrow> translated_item list" where
  "subtitles_loop i [] batch = []"
| "subtitles_loop i (line # lines) batch =
     (if i < length batch
      then (line_text line, sub_start (batch ! i), sub_end (batch ! i))
             # subtitles_loop (Suc i) lines batch
      else subtitles_loop (Suc i) lines batch)"

definition text_to_subtitles :: "string \<Rightarrow> sub_item list \<Rightarrow> translated_item list" where
  "text_to_subtitles translated_text original_batch =
     subtitles_loop 0 (py_split nl (py_strip translated_text)) original_batch"

text \<open>\<open>re.search(r'<[^>]+>', s)\<close> as a predicate: some \<open><\<close> is followed by at
  least one character other than \<open>>\<close> and then by \<open>>\<close>.\<close>

fun has_tag :: "string \<Rightarrow> bool" where
  "has_tag [] = False"
| "has_tag (c # cs) =
     ((c = CHR ''<'' \<and> takeWhile (\<lambda>x. x \<noteq> CHR ''>'') cs \<noteq> []
                    \<and> dropWhile (\<lambda>x. x \<noteq> CHR ''>'') cs \<noteq> []) \<or> has_tag cs)"

text \<open>The reference form of a numbered response: line \<open>i\<close> is \<open>"{i}. {t}"\<close>.\<close>

fun numbered :: "nat \<Rightarrow> string list \<Rightarrow> string list" where
  "numbered i [] = []"
| "numbered i (t # ts) = (nat_to_dec i @ ''. '' @ t) # numbered (Suc i) ts"

section \<open>Lemmas on encoding\<close>

declare strip_tags.simps [simp del]

lemma strip_tags_Nil [simp]: "strip_tags [] = []"
  by (simp add: strip_tags.simps)

lemma strip_tags_other [simp]: "c \<noteq> CHR ''<'' \<Longrightarrow> strip_tags (c # cs) = c # strip_tags cs"
  by (simp add: strip_tags.simps)

lemma set_tl_dropWhile: "set (tl (dropWhile P xs)) \<subseteq> set xs"
proof (cases "dropWhile P xs")
  case (Cons y ys)
  then have "set ys \<subseteq> set (dropWhile P xs)" by auto
  then show ?thesis using Cons set_dropWhileD [of _ P xs] by auto
next
  case Nil
  show ?thesis unfolding Nil by simp
qed

lemma set_strip_tags: "set (strip_tags s) \<subseteq> set s"
proof (induction s rule: strip_tags.induct)
  case (2 c cs)
  let ?body = "takeWhile (\<lambda>x. x \<noteq> CHR ''>'') cs"
  let ?rest = "dropWhile (\<lambda>x. x \<noteq> CHR ''>'') cs"
  show ?case
  proof (cases "c = CHR ''<'' \<and> ?body \<noteq> [] \<and> ?rest \<noteq> []")
    case True
    then have "strip_tags (c # cs) = strip_tags (tl ?rest)"
      by (auto simp: strip_tags.simps(2) Let_def)
    moreover have "set (strip_tags (tl ?rest)) \<subseteq> set (tl ?rest)"
      using "2.IH"(1) [OF refl refl] True by blast
    ultimately show ?thesis using set_tl_dropWhile [of _ cs] by auto
  next
    case False
    then have "strip_tags (c # cs) = c # strip_tags cs"
      by (auto simp: strip_tags.simps(2) Let_def)
    moreover have "set (strip_tags cs) \<subseteq> set cs"
      using "2.IH"(2) [OF refl refl] False by blast
    ultimately show ?thesis by auto
  qed
qed simp

lemma strip_tags_keeps_no_tag:
  "\<not> has_tag s \<Longrightarrow> strip_tags s = s"
proof (induction s rule: strip_tags.induct)
  case (2 c cs)
  then show ?case by (auto simp: strip_tags.simps(2) [of c cs] Let_def)
qed simp

lemma clean_text_no_newline [simp]: "nl \<notin> set (clean_text s)"
  by (auto simp: clean_text_def)

lemma number_lines_numbered:
  "number_lines i batch = numbered i (map (\<lambda>sub. clean_text (sub_text sub)) batch)"
  by (induction batch arbitrary: i) simp_all

lemma numbered_nth:
  "numbered i ts = map (\<lambda>j. nat_to_dec (i + j) @ ''. '' @ ts ! j) [0..<length ts]"
proof (induction ts arbitrary: i)
  case (Cons t ts)
  then show ?case by (simp add: map_upt_Suc del: upt_Suc)
qed simp

lemma numbered_no_newline:
  "\<forall>t \<in> set ts. nl \<notin> set t \<Longrightarrow> \<forall>l \<in> set (numbered i ts). nl \<notin> set l"
  by (induction ts arbitrary: i) auto

lemma numbered_length [simp]: "length (numbered i ts) = length ts"
  by (induction ts arbitrary: i) simp_all

lemma numbered_Nil_iff [simp]: "numbered i ts = [] \<longleftrightarrow> ts = []"
  by (cases ts) simp_all

section \<open>Lemmas on decoding\<close>

lemma subtitles_loop_zip:
  "subtitles_loop i lines batch =
     map (\<lambda>(line, sub). (line_text line, sub_start sub, sub_end sub)) (zip lines (drop i batch))"
proof (induction lines arbitrary: i)
  case (Cons line lines)
  show ?case
  proof (cases "i < length batch")
    case True
    then have "drop i batch = batch ! i # drop (Suc i) batch"
      by (simp add: Cons_nth_drop_Suc)
    with True Cons.IH show ?thesis by simp
  next
    case False
    with Cons.IH show ?thesis by simp
  qed
qed simp

lemma text_to_subtitles_zip:
  "text_to_subtitles resp batch =
     map (\<lambda>(line, sub). (line_text line, sub_start sub, sub_end sub))
         (zip (py_split nl (py_strip resp)) batch)"
  by (simp add: text_to_subtitles_def subtitles_loop_zip)

lemma match_numbered_numbered:
  assumes "t \<noteq> []" and "nl \<notin> set t" and "\<not> is_space (hd t)"
  shows "match_numbered (nat_to_dec n @ CHR ''.'' # CHR '' '' # t) = Some t"
proof -
  have dot: "\<not> is_digit CHR ''.''" and sp: "is_space CHR '' ''"
    by (simp_all add: is_digit_def is_space_def)
  from assms(1,3) have tw: "takeWhile is_space t = []"
    by (cases t) simp_all
  from assms(2) have tw2: "takeWhile (\<lambda>c. c \<noteq> nl) t = t"
    by (auto intro: takeWhile_eq_all_conv [THEN iffD2])
  from assms(1) have "tw2' \<noteq> []" if "tw2' = takeWhile (\<lambda>c. c \<noteq> nl) t" for tw2'
    using that tw2 by simp
  with assms(1) dot sp tw tw2 show ?thesis
    by (simp add: match_numbered_def Let_def del: takeWhile_eq_Nil_iff)
qed

lemma match_numbered_not_digit: "line = [] \<or> \<not> is_digit (hd line) \<Longrightarrow> match_numbered line = None"
  by (cases line) (simp_all add: match_numbered_def)

lemma decode_numbered_zip:
  assumes "\<forall>t \<in> set ts. t \<noteq> [] \<and> nl \<notin> set t \<and> \<not> is_space (hd t)"
      and "length ts = length batch"
  shows "map (\<lambda>(line, sub). (line_text line, sub_start sub, sub_end sub)) (zip (numbered i ts) batch)
           = zip ts (map sub_timing batch)"
  using assms
proof (induction ts arbitrary: i batch)
  case (Cons t ts)
  then obtain b bs where "batch = b # bs" by (cases batch) auto
  with Cons show ?case
    by (simp add: line_text_def match_numbered_numbered sub_timing_def)
qed simp

lemma numbered_last:
  "ts \<noteq> [] \<Longrightarrow> \<exists>n. last (numbered i ts) = nat_to_dec n @ ''. '' @ last ts"
  by (induction ts arbitrary: i) auto

section \<open>Properties of the codec\<close>

text \<open>C4. Cleaning removes every markup tag: after \<open>re.sub(r'<[^>]+>', '', s)\<close>
  no substring of the form \<open><...>\<close> is left, so a removal never joins the
  pieces around it into a new tag.\<close>

theorem strip_tags_no_tag: "\<not> has_tag (strip_tags s)"
proof (induction s rule: strip_tags.induct)
  case (2 c cs)
  let ?body = "takeWhile (\<lambda>x. x \<noteq> CHR ''>'') cs"
  let ?rest = "dropWhile (\<lambda>x. x \<noteq> CHR ''>'') cs"
  show ?case
  proof (cases "c = CHR ''<'' \<and> ?body \<noteq> [] \<and> ?rest \<noteq> []")
    case True
    then have "strip_tags (c # cs) = strip_tags (tl ?rest)"
      by (auto simp: strip_tags.simps(2) Let_def)
    with "2.IH"(1) [OF refl refl] True show ?thesis by simp
  next
    case False
    then have eq: "strip_tags (c # cs) = c # strip_tags cs"
      by (auto simp: strip_tags.simps(2) Let_def)
    have ih: "\<not> has_tag (strip_tags cs)"
      using "2.IH"(2) [OF refl refl] False by blast
    have "\<not> (takeWhile (\<lambda>x. x \<noteq> CHR ''>'') (strip_tags cs) \<noteq> []
             \<and> dropWhile (\<lambda>x. x \<noteq> CHR ''>'') (strip_tags cs) \<noteq> [])"
      if "c = CHR ''<''"
    proof (cases "?body = []")
      case True
      then show ?thesis
      proof (cases cs)
        case (Cons d ds)
        from True Cons have "d = CHR ''>''" by (simp split: if_splits)
        with Cons show ?thesis by simp
      qed simp
    next
      case False
      with \<open>\<not> (c = CHR ''<'' \<and> ?body \<noteq> [] \<and> ?rest \<noteq> [])\<close> that
      have "CHR ''>'' \<notin> set cs" by simp
      then have "CHR ''>'' \<notin> set (strip_tags cs)" using set_strip_tags by blast
      then show ?thesis by simp
    qed
    with eq ih show ?thesis by auto
  qed
qed simp

text \<open>C5. Encoding gives one line per subtitle: splitting the prompt text at
  newlines yields, for the subtitle at 0-based position \<open>j\<close>, exactly the line
  \<open>"{j+1}. {cleaned text}"\<close>, because cleaning turns every newline into a space.\<close>

theorem batch_to_text_lines:
  "batch \<noteq> [] \<Longrightarrow>
   py_split nl (batch_to_text batch) =
     map (\<lambda>j. nat_to_dec (Suc j) @ ''. '' @ clean_text (sub_text (batch ! j))) [0..<length batch]"
proof -
  assume ne: "batch \<noteq> []"
  let ?ts = "map (\<lambda>sub. clean_text (sub_text sub)) batch"
  have "\<forall>l \<in> set (numbered 1 ?ts). nl \<notin> set l"
    by (rule numbered_no_newline) simp
  with ne have "py_split nl (batch_to_text batch) = numbered 1 ?ts"
    by (simp add: batch_to_text_def number_lines_numbered py_split_join)
  then show ?thesis by (simp add: numbered_nth)
qed

theorem batch_to_text_lines_witness:
  "[\<lparr>sub_index = 1, sub_start = 0, sub_end = 1, sub_text = ''<b>Hi</b>''\<rparr>] \<noteq> [] \<and>
   py_split nl (batch_to_text [\<lparr>sub_index = 1, sub_start = 0, sub_end = 1, sub_text = ''<b>Hi</b>''\<rparr>])
     = [''1. Hi'']"
  using batch_to_text_lines [of "[\<lparr>sub_index = 1, sub_start = 0, sub_end = 1, sub_text = ''<b>Hi</b>''\<rparr>]"]
  by (simp add: clean_text_def strip_tags.simps(2) py_simps)

text \<open>Decoding yields one translated subtitle per response line, cut at the
  batch length: \<open>min(len(lines), len(original_batch))\<close>. A response with fewer
  lines than the batch loses the trailing subtitles; no fallback is produced.\<close>

lemma length_text_to_subtitles:
  "length (text_to_subtitles resp batch) = min (length (py_split nl (py_strip resp))) (length batch)"
  by (simp add: text_to_subtitles_zip)

text \<open>C6. Timing is attached by position: the translated subtitles carry, in
  order, the start and end times of the first \<open>len(lines)\<close> subtitles of the
  batch, whatever the response says.\<close>

theorem text_to_subtitles_timing:
  "map item_timing (text_to_subtitles resp batch) =
     map sub_timing (take (length (py_split nl (py_strip resp))) batch)"
proof -
  have "map item_timing (text_to_subtitles resp batch) =
        map sub_timing (map snd (zip (py_split nl (py_strip resp)) batch))"
    by (simp add: text_to_subtitles_zip item_timing_def sub_timing_def case_prod_beta)
  then show ?thesis by (simp add: map_snd_zip_take min_def)
qed

text \<open>C7. Round trip: a response of well-formed numbered lines \<open>"{i}. {t_i}"\<close>,
  one per subtitle and in order, decodes to exactly the texts \<open>t_i\<close>, each with the
  timing of the subtitle at its position. A text must be non-empty, one line, and
  not start with a blank (the regex's \<open>\s*\<close> would eat it); the response as a
  whole must not end in a blank (\<open>strip()\<close> would eat it).\<close>

theorem decode_numbered_response:
  assumes "length ts = length batch" and "ts \<noteq> []"
      and "\<forall>t \<in> set ts. t \<noteq> [] \<and> nl \<notin> set t \<and> \<not> is_space (hd t)"
      and "\<not> is_space (last (last ts))"
  shows "text_to_subtitles (py_join [nl] (numbered 1 ts)) batch = zip ts (map sub_timing batch)"
proof -
  let ?ls = "numbered 1 ts"
  have nonl: "\<forall>l \<in> set ?ls. nl \<notin> set l"
    using assms(3) by (intro numbered_no_newline) blast
  from assms(2) obtain t ts' where ts: "ts = t # ts'" by (cases ts) auto
  have hd: "py_join [nl] ?ls \<noteq> [] \<and> hd (py_join [nl] ?ls) = digit_char 1"
    using py_join_hd [of ?ls "[nl]"] ts by simp
  from assms(2) obtain n where "last ?ls = nat_to_dec n @ ''. '' @ last ts"
    using numbered_last by blast
  moreover have "last ts \<noteq> []" using assms(2,3) by simp
  ultimately have "last (py_join [nl] ?ls) = last (last ts)"
    using py_join_last [of ?ls "[nl]"] assms(2) by simp
  with hd assms(4) have "py_strip (py_join [nl] ?ls) = py_join [nl] ?ls"
    by (intro py_strip_no_space_ends) simp_all
  moreover have "py_split nl (py_join [nl] ?ls) = ?ls"
    using nonl assms(2) by (simp add: py_split_join)
  ultimately show ?thesis
    using decode_numbered_zip [OF assms(3,1)] by (simp add: text_to_subtitles_zip)
qed

theorem decode_numbered_response_witness:
  "text_to_subtitles (py_join [nl] (numbered 1 [''Xin chao'', ''The gioi'']))
     [\<lparr>sub_index = 1, sub_start = 1000000, sub_end = 2000000, sub_text = ''Hello''\<rparr>,
      \<lparr>sub_index = 2, sub_start = 2000000, sub_end = 3000000, sub_text = ''World''\<rparr>]
   = [(''Xin chao'', 1000000, 2000000), (''The gioi'', 2000000, 3000000)]"
proof -
  have "\<not> is_space CHR ''X''" "\<not> is_space CHR ''T''" "\<not> is_space CHR ''i''"
    by (simp_all add: is_space_def)
  then show ?thesis
    using decode_numbered_response
      [of "[''Xin chao'', ''The gioi'']"
          "[\<lparr>sub_index = 1, sub_start = 1000000, sub_end = 2000000, sub_text = ''Hello''\<rparr>,
            \<lparr>sub_index = 2, sub_start = 2000000, sub_end = 3000000, sub_text = ''World''\<rparr>]"]
    by (simp add: sub_timing_def)
qed

text \<open> An empty or all-blank response (the service returned nothing) decodes
  to a single subtitle with empty text and the first subtitle's timing, whatever
  the batch size: \<open>''.strip().split('\n')\<close> is \<open>['']\<close>.\<close>

theorem blank_response_one_item:
  "batch \<noteq> [] \<Longrightarrow> \<forall>c \<in> set resp. is_space c \<Longrightarrow>
   text_to_subtitles resp batch = [([], sub_start (hd batch), sub_end (hd batch))]"
  by (cases batch)
     (simp_all add: text_to_subtitles_zip py_strip_all_space line_text_def match_numbered_def)

theorem blank_response_one_item_witness:
  "text_to_subtitles '' ''
     [\<lparr>sub_index = 1, sub_start = 5, sub_end = 6, sub_text = ''a''\<rparr>,
      \<lparr>sub_index = 2, sub_start = 7, sub_end = 8, sub_text = ''b''\<rparr>] = [([], 5, 6)]"
  using blank_response_one_item
    [of "[\<lparr>sub_index = 1, sub_start = 5, sub_end = 6, sub_text = ''a''\<rparr>,
          \<lparr>sub_index = 2, sub_start = 7, sub_end = 8, sub_text = ''b''\<rparr>]" "'' ''"]
  by (simp add: is_space_def)

text \<open>The number in front of a response line is not checked: a line
  \<open>"{n}. {t}"\<close> yields \<open>t\<close> for every \<open>n\<close>, so a renumbered or reordered
  response attaches texts by position; a line that does not start with a digit is
  taken verbatim.\<close>

theorem line_text_ignores_label:
  "(t \<noteq> [] \<and> nl \<notin> set t \<and> \<not> is_space (hd t) \<longrightarrow> line_text (nat_to_dec n @ ''. '' @ t) = t) \<and>
   (line = [] \<or> \<not> is_digit (hd line) \<longrightarrow> line_text line = line)"
  by (simp add: line_text_def match_numbered_numbered match_numbered_not_digit)

theorem line_text_ignores_label_witness:
  "line_text (nat_to_dec 7 @ ''. '' @ ''Hi'') = ''Hi'' \<and> line_text ''Error: 500'' = ''Error: 500''"
proof -
  have "\<not> is_space CHR ''H''" "\<not> is_digit CHR ''E''"
    by (simp_all add: is_space_def is_digit_def)
  then show ?thesis
    using line_text_ignores_label [of "''Hi''" 7 "''Error: 500''"] by simp
qed

end
