(* ===== verification/PyFloat.thy ===== *)
theory PyFloat
  imports Prelude
begin

text \<open>
  The CPython \<open>float\<close> operations used by \<open>_timedelta_to_srt\<close>
  (src/src/srt_translator.py, lines 132--133) on non-negative values:
  \<open>timedelta.total_seconds()\<close> (the microsecond count divided by \<open>10**6\<close>,
  correctly rounded), \<open>int(x)\<close> (truncation), \<open>x - n\<close> and \<open>x * 1000\<close>
  with an \<open>int\<close> operand. A finite non-negative IEEE-754 double is a pair
  \<open>(m, e)\<close> denoting \<open>m * 2 ^ e\<close> with \<open>m < 2 ^ 53\<close>; every operation
  computes the exact result and rounds it to 53 significant bits, ties to even,
  as IEEE-754 round-to-nearest does. The values met here lie between
  \<open>10 ^ -6\<close> and \<open>2 ^ 63\<close> or are zero, so subnormals and overflow do not arise
  and are not modelled.
\<close>

type_synonym double = "nat \<times> int"

fun bitlen :: "nat \<Rightarrow> nat" where
  "bitlen n = (if n = 0 then 0 else Suc (bitlen (n div 2)))"

declare bitlen.simps [simp del]

text \<open>\<open>a / b\<close> rounded to the nearest integer, ties to even.\<close>

definition rdiv_even :: "nat \<Rightarrow> nat \<Rightarrow> nat" where
  "rdiv_even a b =
     (let q = a div b; r = a mod b
      in if 2 * r < b then q else if b < 2 * r then Suc q else if even q then q else Suc q)"

text \<open>Rounding an exact dyadic value \<open>m * 2 ^ e\<close> to a double.\<close>

definition round53 :: "nat \<Rightarrow> int \<Rightarrow> double" where
  "round53 m e =
     (let k = bitlen m
      in if k \<le> 53 then (m, e) else (rdiv_even m (2 ^ (k - 53)), e + int (k - 53)))"

text \<open>\<open>a / b\<close> for integers (Python's true division, correctly rounded): the
  exponent \<open>ex\<close> is \<open>floor(log2(a / b))\<close>, found from the bit lengths, and
  the quotient is scaled to 53 bits before rounding.\<close>

definition fl_div :: "nat \<Rightarrow> nat \<Rightarrow> double" where
  "fl_div a b =
     (if a = 0 then (0, 0) else
      let k = int (bitlen a) - int (bitlen b);
          ge = (if 0 \<le> k then b * 2 ^ nat k \<le> a else b \<le> a * 2 ^ nat (- k));
          ex = (if ge then k else k - 1);
          sh = 52 - ex
      in if 0 \<le> sh then round53 (rdiv_even (a * 2 ^ nat sh) b) (- sh)
         else round53 (rdiv_even a (b * 2 ^ nat (- sh))) (- sh))"

text \<open>\<open>int(x)\<close> for a non-negative double: the integer part.\<close>

definition dfloor :: "double \<Rightarrow> nat" where
  "dfloor d = (let (m, e) = d in if 0 \<le> e then m * 2 ^ nat e else m div 2 ^ nat (- e))"

text \<open>\<open>x - n\<close> for an integer \<open>n \<le> x\<close>, and \<open>x * n\<close>.\<close>

definition dsub_nat :: "double \<Rightarrow> nat \<Rightarrow> double" where
  "dsub_nat d n =
     (let (m, e) = d
      in if 0 \<le> e then round53 (m * 2 ^ nat e - n) 0 else round53 (m - n * 2 ^ nat (- e)) e)"

definition dmul_nat :: "double \<Rightarrow> nat \<Rightarrow> double" where
  "dmul_nat d n = (let (m, e) = d in round53 (m * n) e)"


lemma bitlen_0 [simp]: "bitlen 0 = 0"
  by (simp add: bitlen.simps)

lemma bitlen_pos: "0 < n \<Longrightarrow> bitlen n = Suc (bitlen (n div 2))"
  by (simp add: bitlen.simps)

lemmas float_eval = fl_div_def dfloor_def dsub_nat_def dmul_nat_def round53_def rdiv_even_def
  bitlen_pos Let_def

end
