(* ===== verification/Serializer.thy ===== *)
theory Serializer
  imports Cues PyFloat
begin

text \<open>
  The SRT writer of src/src/srt_translator.py: \<open>_timedelta_to_srt\<close>
  (lines 130--139) formats a time as \<open>HH:MM:SS,mmm\<close>, taking the seconds as
  \<open>int(td.total_seconds())\<close> and the milliseconds as
  \<open>int((td.total_seconds() - total_seconds) * 1000)\<close> in double arithmetic
  (theory \<open>PyFloat\<close>); \<open>_create_srt_content\<close> (lines 114--128) writes four
  lines per subtitle (its 1-based position, the timing line, the text, a blank
  line) and joins them with newlines.
\<close>

definition td_total_seconds :: "timedelta \<Rightarrow> double" where
  "td_total_seconds td = fl_div td 1000000"

definition timedelta_to_srt :: "timedelta \<Rightarrow> string" where
  "timedelta_to_srt td =
     (let total_seconds = dfloor (td_total_seconds td);
          milliseconds = dfloor (dmul_nat (dsub_nat (td_total_seconds td) total_seconds) 1000);
          hours = total_seconds div 3600;
          minutes = (total_seconds mod 3600) div 60;
          seconds = total_seconds mod 60
      in fmt_0d 2 hours @ '':'' @ fmt_0d 2 minutes @ '':'' @ fmt_0d 2 seconds @ '','' @
         fmt_0d 3 milliseconds)"

text \<open>The loop of lines 118--126 over \<open>enumerate(subs, 1)\<close>.\<close>

fun srt_lines :: "nat \<Rightarrow> translated_item list \<Rightarrow> string list" where
  "srt_lines i [] = []"
| "srt_lines i ((text, start, stop) # subs) =
     nat_to_dec i # (timedelta_to_srt start @ '' --> '' @ timedelta_to_srt stop) # text # []
       # srt_lines (Suc i) subs"

definition create_srt_content :: "translated_item list \<Rightarrow> string" where
  "create_srt_content subs = py_join [nl] (srt_lines 1 subs)"

text \<open>The block the writer emits for the subtitle at 1-based position \<open>i\<close>.\<close>

definition srt_block :: "nat \<Rightarrow> translated_item \<Rightarrow> string list" where
  "srt_block i it =
     [nat_to_dec i, timedelta_to_srt (fst (snd it)) @ '' --> '' @ timedelta_to_srt (snd (snd it)),
      fst it, []]"

section \<open>Lemmas\<close>

lemma srt_lines_blocks:
  "srt_lines i subs = concat (map (\<lambda>j. srt_block (i + j) (subs ! j)) [0..<length subs])"
proof (induction subs arbitrary: i)
  case (Cons it subs)
  obtain t s e where "it = (t, s, e)" by (cases it) auto
  with Cons show ?case
    by (simp add: srt_block_def map_upt_Suc del: upt_Suc)
qed simp

lemma srt_lines_no_newline:
  "\<forall>it \<in> set subs. nl \<notin> set (fst it) \<Longrightarrow> \<forall>l \<in> set (srt_lines i subs). nl \<notin> set l"
proof (induction subs arbitrary: i)
  case (Cons it subs)
  obtain t s e where "it = (t, s, e)" by (cases it) auto
  moreover have "nl \<notin> set (timedelta_to_srt d)" for d
    by (simp add: timedelta_to_srt_def Let_def)
  ultimately show ?case using Cons by auto
qed simp

lemma length_srt_lines [simp]: "length (srt_lines i subs) = 4 * length subs"
proof (induction subs arbitrary: i)
  case (Cons it subs)
  then show ?case by (cases it) auto
qed simp



text \<open>The formatted time from the two values computed in double arithmetic.\<close>

lemma timedelta_to_srt_fields:
  assumes "dfloor (td_total_seconds td) = s"
      and "dfloor (dmul_nat (dsub_nat (td_total_seconds td) s) 1000) = ms"
  shows "timedelta_to_srt td =
    fmt_0d 2 (s div 3600) @ '':'' @ fmt_0d 2 (s mod 3600 div 60) @ '':'' @ fmt_0d 2 (s mod 60) @
    '','' @ fmt_0d 3 ms"
  using assms by (simp add: timedelta_to_srt_def Let_def)

section \<open>Properties of the writer\<close>

text \<open>C8. Layout and renumbering: when no text contains a newline, the written
  file splits into one four-line block per subtitle, in order; the block of the
  subtitle at 0-based position \<open>j\<close> starts with the number \<open>j + 1\<close>, not with
  the subtitle's original index, then the timing line, the text and a blank line.\<close>

theorem create_srt_content_blocks:
  "subs \<noteq> [] \<Longrightarrow> \<forall>it \<in> set subs. nl \<notin> set (fst it) \<Longrightarrow>
   py_split nl (create_srt_content subs) =
     concat (map (\<lambda>j. srt_block (Suc j) (subs ! j)) [0..<length subs])"
proof -
  assume ne: "subs \<noteq> []" and one_line: "\<forall>it \<in> set subs. nl \<notin> set (fst it)"
  from ne have "srt_lines 1 subs \<noteq> []" by (cases subs) auto
  moreover have "\<forall>l \<in> set (srt_lines 1 subs). nl \<notin> set l"
    using one_line by (rule srt_lines_no_newline)
  ultimately have "py_split nl (create_srt_content subs) = srt_lines 1 subs"
    by (simp add: create_srt_content_def py_split_join)
  then show ?thesis by (simp add: srt_lines_blocks)
qed

theorem create_srt_content_blocks_witness:
  "py_split nl (create_srt_content [(''Xin chao'', 1000000, 2000000)]) =
     [''1'', ''00:00:01,000 --> 00:00:02,000'', ''Xin chao'', []]"
proof -
  have "timedelta_to_srt 1000000 = ''00:00:01,000''"
    by (rule trans [OF timedelta_to_srt_fields [where s = 1 and ms = 0]])
       (simp_all add: td_total_seconds_def float_eval fmt_0d_def py_simps)
  moreover have "timedelta_to_srt 2000000 = ''00:00:02,000''"
    by (rule trans [OF timedelta_to_srt_fields [where s = 2 and ms = 0]])
       (simp_all add: td_total_seconds_def float_eval fmt_0d_def py_simps)
  ultimately show ?thesis
    using create_srt_content_blocks [of "[(''Xin chao'', 1000000, 2000000)]"]
    by (simp add: srt_block_def py_simps)
qed

text \<open>The milliseconds are truncated from a double, not computed from the
  microseconds: 1.001 s is written as \<open>00:00:01,000\<close>, because
  \<open>1.001 - 1\<close> is \<open>0.000999999999999889...\<close> in binary floating point.\<close>

lemma timedelta_to_srt_float_truncation:
  "timedelta_to_srt 1001000 = ''00:00:01,000''"
  by (rule trans [OF timedelta_to_srt_fields [where s = 1 and ms = 0]])
     (simp_all add: td_total_seconds_def float_eval fmt_0d_def py_simps)

end
