(* ===== verification/Orchestrator.thy ===== *)
theory Orchestrator
  imports Batcher Codec Serializer
begin

text \<open>
  \<open>SRTTranslator.translate_file\<close> (src/src/srt_translator.py, lines 15--59).
  The subtitles are the result of \<open>pysrt.open\<close> (an input here); an empty list
  raises \<open>ValueError\<close>, which is the error value \<open>Empty_srt\<close>. The AI client
  is the interface \<open>ai_translate\<close>: the text returned by the \<open>i\<close>-th call
  \<open>ai_client.translate_text(text, source_lang, target_lang, style)\<close>, so any
  service, stateful or not, is an instance (theory \<open>Spec2Isabelle\<close> plugs in
  \<open>LMStudioClient\<close>). The loop over \<open>enumerate(batches, 1)\<close> is
  \<open>run_batches\<close>; its state is the accumulator \<open>translated_subs\<close> and the
  trace of observable effects in order: the progress callback (when one is
  given), the call to the service, and the log line.
\<close>

datatype event =
    Progress nat nat
  | Translate_call nat string
  | Log_info string

datatype translate_error = Empty_srt

type_synonym ai_translate = "nat \<Rightarrow> string \<Rightarrow> string \<Rightarrow> string \<Rightarrow> string \<Rightarrow> string"

record job_state =
  translated_subs :: "translated_item list"
  events :: "event list"

definition job_init :: job_state where
  "job_init = \<lparr>translated_subs = [], events = []\<rparr>"

definition log_translated :: "nat \<Rightarrow> nat \<Rightarrow> string" where
  "log_translated i total_batches = ''Translated batch '' @ nat_to_dec i @ ''/'' @ nat_to_dec total_batches"

text \<open>One iteration, lines 34--54.\<close>

definition batch_iteration ::
  "ai_translate \<Rightarrow> string \<Rightarrow> string \<Rightarrow> string \<Rightarrow> bool \<Rightarrow> nat \<Rightarrow> nat \<Rightarrow> sub_item list \<Rightarrow>
   job_state \<Rightarrow> job_state" where
  "batch_iteration tr src_lang tgt_lang style has_callback total_batches i batch st =
     (let st1 = (if has_callback then st\<lparr>events := events st @ [Progress i total_batches]\<rparr> else st);
          batch_text = batch_to_text batch;
          translated_text = tr i batch_text src_lang tgt_lang style;
          st2 = st1\<lparr>events := events st1 @ [Translate_call i batch_text]\<rparr>;
          translated_batch = text_to_subtitles translated_text batch;
          st3 = st2\<lparr>translated_subs := translated_subs st2 @ translated_batch\<rparr>
      in st3\<lparr>events := events st3 @ [Log_info (log_translated i total_batches)]\<rparr>)"

fun run_batches ::
  "ai_translate \<Rightarrow> string \<Rightarrow> string \<Rightarrow> string \<Rightarrow> bool \<Rightarrow> nat \<Rightarrow> nat \<Rightarrow> sub_item list list \<Rightarrow>
   job_state \<Rightarrow> job_state" where
  "run_batches tr s t sty cb n i [] js = js"
| "run_batches tr s t sty cb n i (b # bs) js =
     run_batches tr s t sty cb n (Suc i) bs (batch_iteration tr s t sty cb n i b js)"

text \<open>Lines 26--54: batching and the loop.\<close>

definition translate_job ::
  "ai_translate \<Rightarrow> sub_item list \<Rightarrow> string \<Rightarrow> string \<Rightarrow> string \<Rightarrow> int \<Rightarrow> bool \<Rightarrow> job_state" where
  "translate_job tr subs src_lang tgt_lang style batch_size has_callback =
     (let batches = create_batches subs batch_size
      in run_batches tr src_lang tgt_lang style has_callback (length batches) 1 batches job_init)"

definition translate_file ::
  "ai_translate \<Rightarrow> sub_item list \<Rightarrow> string \<Rightarrow> string \<Rightarrow> string \<Rightarrow> int \<Rightarrow> bool \<Rightarrow>
   translate_error + (string \<times> event list)" where
  "translate_file tr subs src_lang tgt_lang style batch_size has_callback =
     (if subs = [] then Inl Empty_srt
      else let js = translate_job tr subs src_lang tgt_lang style batch_size has_callback
           in Inr (create_srt_content (translated_subs js), events js))"

section \<open>The loop, unrolled\<close>

text \<open>What batch \<open>k\<close> (1-based) contributes to the trace and to the accumulator.\<close>

definition batch_events :: "bool \<Rightarrow> nat \<Rightarrow> nat \<Rightarrow> sub_item list \<Rightarrow> event list" where
  "batch_events cb n k b =
     (if cb then [Progress k n] else []) @
     [Translate_call k (batch_to_text b), Log_info (log_translated k n)]"

definition batch_items ::
  "ai_translate \<Rightarrow> string \<Rightarrow> string \<Rightarrow> string \<Rightarrow> nat \<Rightarrow> sub_item list \<Rightarrow> translated_item list" where
  "batch_items tr s t sty k b = text_to_subtitles (tr k (batch_to_text b) s t sty) b"

text \<open>The progress reports of a trace, in order.\<close>

fun progress_reports :: "event list \<Rightarrow> (nat \<times> nat) list" where
  "progress_reports [] = []"
| "progress_reports (Progress i n # evs) = (i, n) # progress_reports evs"
| "progress_reports (_ # evs) = progress_reports evs"

lemma run_batches_unrolled:
  "translated_subs (run_batches tr s t sty cb n i bs js) =
     translated_subs js @ concat (map (\<lambda>k. batch_items tr s t sty (i + k) (bs ! k)) [0..<length bs]) \<and>
   events (run_batches tr s t sty cb n i bs js) =
     events js @ concat (map (\<lambda>k. batch_events cb n (i + k) (bs ! k)) [0..<length bs])"
proof (induction bs arbitrary: i js)
  case (Cons b bs)
  show ?case
    using Cons.IH [of "Suc i" "batch_iteration tr s t sty cb n i b js"]
    by (simp add: batch_iteration_def batch_items_def batch_events_def Let_def map_upt_Suc
             del: upt_Suc)
qed simp

lemma translate_job_unrolled:
  "translated_subs (translate_job tr subs s t sty bs cb) =
     concat (map (\<lambda>k. batch_items tr s t sty (Suc k) (create_batches subs bs ! k))
                 [0..<length (create_batches subs bs)]) \<and>
   events (translate_job tr subs s t sty bs cb) =
     concat (map (\<lambda>k. batch_events cb (length (create_batches subs bs)) (Suc k) (create_batches subs bs ! k))
                 [0..<length (create_batches subs bs)])"
  using run_batches_unrolled [of tr s t sty cb "length (create_batches subs bs)" "Suc 0"
                                 "create_batches subs bs" job_init]
  by (simp add: translate_job_def job_init_def Let_def)


lemma progress_reports_append [simp]:
  "progress_reports (xs @ ys) = progress_reports xs @ progress_reports ys"
  by (induction xs rule: progress_reports.induct) simp_all

lemma progress_reports_concat:
  "progress_reports (concat xss) = concat (map progress_reports xss)"
  by (induction xss) simp_all

lemma map_upt_nth: "map (\<lambda>k. f (xs ! k)) [0..<length xs] = map f xs"
  by (rule nth_equalityI) simp_all

lemma concat_map_single: "concat (map (\<lambda>x. [f x]) xs) = map f xs"
  by (induction xs) simp_all

lemma batch_items_timing:
  "map item_timing (batch_items tr s t sty k b) =
     map sub_timing (take (length (py_split nl (py_strip (tr k (batch_to_text b) s t sty)))) b)"
proof -
  have "map item_timing (batch_items tr s t sty k b) =
        map sub_timing (map snd (zip (py_split nl (py_strip (tr k (batch_to_text b) s t sty))) b))"
    by (simp add: batch_items_def text_to_subtitles_zip item_timing_def sub_timing_def case_prod_beta)
  then show ?thesis by (simp add: map_snd_zip_take min_def)
qed

lemma progress_reports_callback:
  "progress_reports (events (translate_job tr subs s t sty bs True)) =
     map (\<lambda>k. (k, length (create_batches subs bs))) [1..<Suc (length (create_batches subs bs))]"
proof -
  have "map (\<lambda>k. (k, n)) [1..<Suc m] = map (\<lambda>k. (Suc k, n)) [0..<m]" for n m :: nat
    by (simp add: map_Suc_upt [symmetric] del: upt_Suc)
  then show ?thesis
    using translate_job_unrolled [of tr subs s t sty bs True]
    by (simp add: progress_reports_concat batch_events_def o_def concat_map_single)
qed

section \<open>Properties of the orchestrator\<close>

text \<open>The only failure of \<open>translate_file\<close> is an empty subtitle list;
  whatever the AI service returns, a non-empty input always yields an output
  file and a trace (the service's errors are not propagated).\<close>

lemma translate_file_fails_only_on_empty:
  "isl (translate_file tr subs src_lang tgt_lang style batch_size has_callback) = (subs = [])"
  by (simp add: translate_file_def Let_def)

text \<open>C12. The trace of a job with a progress callback: for each batch, in order,
  first \<open>progress_callback(i, total)\<close>, then the call to the service with the
  encoded batch, then the log line. Progress for batch \<open>i\<close> is reported before
  batch \<open>i\<close> is translated or merged.\<close>

theorem translate_job_trace:
  "events (translate_job tr subs src_lang tgt_lang style batch_size True) =
     concat (map (\<lambda>k. [Progress (Suc k) (length (create_batches subs batch_size)),
                       Translate_call (Suc k) (batch_to_text (create_batches subs batch_size ! k)),
                       Log_info (log_translated (Suc k) (length (create_batches subs batch_size)))])
                 [0..<length (create_batches subs batch_size)])"
  using translate_job_unrolled [of tr subs src_lang tgt_lang style batch_size True]
  by (simp add: batch_events_def)

text \<open>C13. The progress reports are \<open>(1, n), (2, n), ..., (n, n)\<close> for the
  \<open>n\<close> batches: strictly increasing, reaching \<open>n\<close> exactly once; without a
  callback there are none.\<close>

theorem translate_job_progress:
  "progress_reports (events (translate_job tr subs src_lang tgt_lang style batch_size cb)) =
     (if cb then map (\<lambda>k. (k, length (create_batches subs batch_size)))
                     [1..<Suc (length (create_batches subs batch_size))]
      else [])"
proof (cases cb)
  case True
  then show ?thesis by (simp add: progress_reports_callback)
next
  case False
  then show ?thesis
    using translate_job_unrolled [of tr subs src_lang tgt_lang style batch_size cb]
    by (simp add: progress_reports_concat batch_events_def o_def)
qed

text \<open>C14. Timing is never moved across batches: the output's timings are, batch
  after batch, the timings of the first \<open>len(lines)\<close> subtitles of that batch.\<close>

theorem translate_job_timing:
  "map item_timing (translated_subs (translate_job tr subs src_lang tgt_lang style batch_size cb)) =
     concat (map (\<lambda>k. map sub_timing
                       (take (length (py_split nl (py_strip
                                (tr (Suc k) (batch_to_text (create_batches subs batch_size ! k))
                                    src_lang tgt_lang style))))
                             (create_batches subs batch_size ! k)))
                 [0..<length (create_batches subs batch_size)])"
  using translate_job_unrolled [of tr subs src_lang tgt_lang style batch_size cb]
  by (simp add: map_concat batch_items_timing o_def)


text \<open>C15. When every response has at least as many lines as its batch has
  subtitles, no subtitle is lost: the output has one entry per input subtitle,
  with the input's timings in the input's order.\<close>

theorem translate_job_keeps_all:
  assumes "\<forall>k < length (create_batches subs batch_size).
             length (create_batches subs batch_size ! k) \<le>
             length (py_split nl (py_strip (tr (Suc k) (batch_to_text (create_batches subs batch_size ! k))
                                              src_lang tgt_lang style)))"
  shows "map item_timing (translated_subs (translate_job tr subs src_lang tgt_lang style batch_size cb)) =
           map sub_timing subs"
proof -
  let ?B = "create_batches subs batch_size"
  have each: "map (\<lambda>k. map item_timing (batch_items tr src_lang tgt_lang style (Suc k) (?B ! k)))
                 [0..<length ?B] = map (\<lambda>k. map sub_timing (?B ! k)) [0..<length ?B]"
  proof (rule map_cong [OF refl])
    fix k assume "k \<in> set [0..<length ?B]"
    with assms show "map item_timing (batch_items tr src_lang tgt_lang style (Suc k) (?B ! k)) =
                     map sub_timing (?B ! k)"
      by (simp add: batch_items_timing)
  qed
  have "map item_timing (translated_subs (translate_job tr subs src_lang tgt_lang style batch_size cb)) =
        concat (map (\<lambda>k. map item_timing (batch_items tr src_lang tgt_lang style (Suc k) (?B ! k)))
                    [0..<length ?B])"
    using translate_job_unrolled [of tr subs src_lang tgt_lang style batch_size cb]
    by (simp add: map_concat o_def)
  also have "\<dots> = concat (map (\<lambda>k. map sub_timing (?B ! k)) [0..<length ?B])"
    by (simp only: each)
  also have "\<dots> = map sub_timing (concat ?B)"
    by (simp add: map_upt_nth map_concat)
  also have "concat ?B = subs"
    by (simp add: create_batches_chunks concat_chunks)
  finally show ?thesis .
qed


theorem translate_job_keeps_all_witness:
  "map item_timing (translated_subs (translate_job (\<lambda>_ _ _ _ _. ''1. Xin chao\<newline>2. The gioi'')
      [\<lparr>sub_index = 1, sub_start = 1000000, sub_end = 2000000, sub_text = ''Hello''\<rparr>,
       \<lparr>sub_index = 2, sub_start = 2000000, sub_end = 3000000, sub_text = ''World''\<rparr>]
      ''en'' ''vi'' ''modern'' 10 True)) = [(1000000, 2000000), (2000000, 3000000)]"
proof -
  let ?subs = "[\<lparr>sub_index = 1, sub_start = 1000000, sub_end = 2000000, sub_text = ''Hello''\<rparr>,
                \<lparr>sub_index = 2, sub_start = 2000000, sub_end = 3000000, sub_text = ''World''\<rparr>]"
  have b: "create_batches ?subs 10 = [?subs]"
    by (simp add: create_batches_def batch_init_def batch_step_def flush_batches_def)
  have l: "length (py_split nl (py_strip ''1. Xin chao\<newline>2. The gioi'')) = 2"
    by (simp add: py_strip_def is_space_def)
  show ?thesis
    using translate_job_keeps_all [of ?subs 10 "\<lambda>_ _ _ _ _. ''1. Xin chao\<newline>2. The gioi''"
                                   "''en''" "''vi''" "''modern''" True] b l
    by (simp add: sub_timing_def)
qed

end
