(* ===== verification/Texts.thy ===== *)
theory Texts
  imports Prelude
begin

text \<open>
  The Vietnamese string constants of src/src/api_client.py, as the UTF-8 bytes
  of the source text (ASCII runs as literals, the other bytes as character
  codes). The comment above each shows the source text without its diacritics.
\<close>

definition vi_style_modern_key :: string where
  \<comment> \<open>hien dai\<close>
  "vi_style_modern_key = ''hi'' @ [CHR 0xE1, CHR 0xBB, CHR 0x87] @ ''n '' @ [CHR 0xC4, CHR 0x91, CHR 0xE1, CHR 0xBA, CHR 0xA1] @ ''i''"

definition vi_style_modern :: string where
  \<comment> \<open>van phong hien dai, tu nhien\<close>
  "vi_style_modern = ''v'' @ [CHR 0xC4, CHR 0x83] @ ''n phong hi'' @ [CHR 0xE1, CHR 0xBB, CHR 0x87] @ ''n '' @ [CHR 0xC4, CHR 0x91, CHR 0xE1, CHR 0xBA, CHR 0xA1] @ ''i, t'' @ [CHR 0xE1, CHR 0xBB, CHR 0xB1] @ '' nhi'' @ [CHR 0xC3, CHR 0xAA] @ ''n''"

definition vi_style_classic_key :: string where
  \<comment> \<open>co dai\<close>
  "vi_style_classic_key = ''c'' @ [CHR 0xE1, CHR 0xBB, CHR 0x95] @ '' '' @ [CHR 0xC4, CHR 0x91, CHR 0xE1, CHR 0xBA, CHR 0xA1] @ ''i''"

definition vi_style_classic :: string where
  \<comment> \<open>van phong co dien, trang trong\<close>
  "vi_style_classic = ''v'' @ [CHR 0xC4, CHR 0x83] @ ''n phong c'' @ [CHR 0xE1, CHR 0xBB, CHR 0x95] @ '' '' @ [CHR 0xC4, CHR 0x91] @ ''i'' @ [CHR 0xE1, CHR 0xBB, CHR 0x83] @ ''n, trang tr'' @ [CHR 0xE1, CHR 0xBB, CHR 0x8D] @ ''ng''"

definition vi_style_literary_key :: string where
  \<comment> \<open>van hoc\<close>
  "vi_style_literary_key = ''v'' @ [CHR 0xC4, CHR 0x83] @ ''n h'' @ [CHR 0xE1, CHR 0xBB, CHR 0x8D] @ ''c''"

definition vi_style_literary :: string where
  \<comment> \<open>van phong van hoc, trau chuot\<close>
  "vi_style_literary = ''v'' @ [CHR 0xC4, CHR 0x83] @ ''n phong v'' @ [CHR 0xC4, CHR 0x83] @ ''n h'' @ [CHR 0xE1, CHR 0xBB, CHR 0x8D] @ ''c, trau chu'' @ [CHR 0xE1, CHR 0xBB, CHR 0x91] @ ''t''"

definition vi_style_plain_key :: string where
  \<comment> \<open>gian di\<close>
  "vi_style_plain_key = ''gi'' @ [CHR 0xE1, CHR 0xBA, CHR 0xA3] @ ''n d'' @ [CHR 0xE1, CHR 0xBB, CHR 0x8B]"

definition vi_style_plain :: string where
  \<comment> \<open>van phong gian di, de hieu\<close>
  "vi_style_plain = ''v'' @ [CHR 0xC4, CHR 0x83] @ ''n phong gi'' @ [CHR 0xE1, CHR 0xBA, CHR 0xA3] @ ''n d'' @ [CHR 0xE1, CHR 0xBB, CHR 0x8B] @ '', d'' @ [CHR 0xE1, CHR 0xBB, CHR 0x85] @ '' hi'' @ [CHR 0xE1, CHR 0xBB, CHR 0x83] @ ''u''"

definition vi_style_young_key :: string where
  \<comment> \<open>tre trung\<close>
  "vi_style_young_key = ''tr'' @ [CHR 0xE1, CHR 0xBA, CHR 0xBB] @ '' trung''"

definition vi_style_young :: string where
  \<comment> \<open>van phong tre trung, nang dong\<close>
  "vi_style_young = ''v'' @ [CHR 0xC4, CHR 0x83] @ ''n phong tr'' @ [CHR 0xE1, CHR 0xBA, CHR 0xBB] @ '' trung, n'' @ [CHR 0xC4, CHR 0x83] @ ''ng '' @ [CHR 0xC4, CHR 0x91, CHR 0xE1, CHR 0xBB, CHR 0x99] @ ''ng''"

definition vi_style_default :: string where
  \<comment> \<open>van phong tu nhien\<close>
  "vi_style_default = ''v'' @ [CHR 0xC4, CHR 0x83] @ ''n phong t'' @ [CHR 0xE1, CHR 0xBB, CHR 0xB1] @ '' nhi'' @ [CHR 0xC3, CHR 0xAA] @ ''n''"

definition vi_translate_1 :: string where
  \<comment> \<open>Hay dich van ban sau tu \<close>
  "vi_translate_1 = ''H'' @ [CHR 0xC3, CHR 0xA3] @ ''y d'' @ [CHR 0xE1, CHR 0xBB, CHR 0x8B] @ ''ch v'' @ [CHR 0xC4, CHR 0x83] @ ''n b'' @ [CHR 0xE1, CHR 0xBA, CHR 0xA3] @ ''n sau t'' @ [CHR 0xE1, CHR 0xBB, CHR 0xAB] @ '' ''"

definition vi_translate_2 :: string where
  \<comment> \<open> sang \<close>
  "vi_translate_2 = '' sang ''"

definition vi_translate_3 :: string where
  \<comment> \<open> voi \<close>
  "vi_translate_3 = '' v'' @ [CHR 0xE1, CHR 0xBB, CHR 0x9B] @ ''i ''"

definition vi_translate_4 :: string where
  \<comment> \<open>Ban dich:\<close>
  "vi_translate_4 = ''B'' @ [CHR 0xE1, CHR 0xBA, CHR 0xA3] @ ''n d'' @ [CHR 0xE1, CHR 0xBB, CHR 0x8B] @ ''ch:''"

definition vi_edit_1 :: string where
  \<comment> \<open>Hay chinh sua van ban sau theo yeu cau:\n\nVAN BAN GOC:\n\<close>
  "vi_edit_1 = ''H'' @ [CHR 0xC3, CHR 0xA3] @ ''y ch'' @ [CHR 0xE1, CHR 0xBB, CHR 0x89] @ ''nh s'' @ [CHR 0xE1, CHR 0xBB, CHR 0xAD] @ ''a v'' @ [CHR 0xC4, CHR 0x83] @ ''n b'' @ [CHR 0xE1, CHR 0xBA, CHR 0xA3] @ ''n sau theo y'' @ [CHR 0xC3, CHR 0xAA] @ ''u c'' @ [CHR 0xE1, CHR 0xBA, CHR 0xA7] @ ''u:\<newline>\<newline>V'' @ [CHR 0xC4, CHR 0x82] @ ''N B'' @ [CHR 0xE1, CHR 0xBA, CHR 0xA2] @ ''N G'' @ [CHR 0xE1, CHR 0xBB, CHR 0x90] @ ''C:\<newline>''"

definition vi_edit_2 :: string where
  \<comment> \<open>\n\nYEU CAU CHINH SUA:\n\<close>
  "vi_edit_2 = ''\<newline>\<newline>Y'' @ [CHR 0xC3, CHR 0x8A] @ ''U C'' @ [CHR 0xE1, CHR 0xBA, CHR 0xA6] @ ''U CH'' @ [CHR 0xE1, CHR 0xBB, CHR 0x88] @ ''NH S'' @ [CHR 0xE1, CHR 0xBB, CHR 0xAC] @ ''A:\<newline>''"

definition vi_edit_3 :: string where
  \<comment> \<open>\n\nVAN BAN DA CHINH SUA:\<close>
  "vi_edit_3 = ''\<newline>\<newline>V'' @ [CHR 0xC4, CHR 0x82] @ ''N B'' @ [CHR 0xE1, CHR 0xBA, CHR 0xA2] @ ''N '' @ [CHR 0xC4, CHR 0x90, CHR 0xC3, CHR 0x83] @ '' CH'' @ [CHR 0xE1, CHR 0xBB, CHR 0x88] @ ''NH S'' @ [CHR 0xE1, CHR 0xBB, CHR 0xAC] @ ''A:''"

definition vi_detail_basic_key :: string where
  \<comment> \<open>co ban\<close>
  "vi_detail_basic_key = ''c'' @ [CHR 0xC6, CHR 0xA1] @ '' b'' @ [CHR 0xE1, CHR 0xBA, CHR 0xA3] @ ''n''"

definition vi_detail_basic :: string where
  \<comment> \<open>mo ta ngan gon\<close>
  "vi_detail_basic = ''m'' @ [CHR 0xC3, CHR 0xB4] @ '' t'' @ [CHR 0xE1, CHR 0xBA, CHR 0xA3] @ '' ng'' @ [CHR 0xE1, CHR 0xBA, CHR 0xAF] @ ''n g'' @ [CHR 0xE1, CHR 0xBB, CHR 0x8D] @ ''n''"

definition vi_detail_key :: string where
  \<comment> \<open>chi tiet\<close>
  "vi_detail_key = ''chi ti'' @ [CHR 0xE1, CHR 0xBA, CHR 0xBF] @ ''t''"

definition vi_detail :: string where
  \<comment> \<open>mo ta chi tiet\<close>
  "vi_detail = ''m'' @ [CHR 0xC3, CHR 0xB4] @ '' t'' @ [CHR 0xE1, CHR 0xBA, CHR 0xA3] @ '' chi ti'' @ [CHR 0xE1, CHR 0xBA, CHR 0xBF] @ ''t''"

definition vi_detail_full_key :: string where
  \<comment> \<open>rat chi tiet\<close>
  "vi_detail_full_key = ''r'' @ [CHR 0xE1, CHR 0xBA, CHR 0xA5] @ ''t chi ti'' @ [CHR 0xE1, CHR 0xBA, CHR 0xBF] @ ''t''"

definition vi_detail_full :: string where
  \<comment> \<open>mo ta rat chi tiet voi day du yeu to\<close>
  "vi_detail_full = ''m'' @ [CHR 0xC3, CHR 0xB4] @ '' t'' @ [CHR 0xE1, CHR 0xBA, CHR 0xA3] @ '' r'' @ [CHR 0xE1, CHR 0xBA, CHR 0xA5] @ ''t chi ti'' @ [CHR 0xE1, CHR 0xBA, CHR 0xBF] @ ''t v'' @ [CHR 0xE1, CHR 0xBB, CHR 0x9B] @ ''i '' @ [CHR 0xC4, CHR 0x91, CHR 0xE1, CHR 0xBA, CHR 0xA7] @ ''y '' @ [CHR 0xC4, CHR 0x91, CHR 0xE1, CHR 0xBB, CHR 0xA7] @ '' y'' @ [CHR 0xE1, CHR 0xBA, CHR 0xBF] @ ''u t'' @ [CHR 0xE1, CHR 0xBB, CHR 0x91]"

definition vi_script_1 :: string where
  \<comment> \<open>Hay tao kich ban anh tu cau chuyen sau:\n\nCAU CHUYEN:\n\<close>
  "vi_script_1 = ''H'' @ [CHR 0xC3, CHR 0xA3] @ ''y t'' @ [CHR 0xE1, CHR 0xBA, CHR 0xA1] @ ''o k'' @ [CHR 0xE1, CHR 0xBB, CHR 0x8B] @ ''ch b'' @ [CHR 0xE1, CHR 0xBA, CHR 0xA3] @ ''n '' @ [CHR 0xE1, CHR 0xBA, CHR 0xA3] @ ''nh t'' @ [CHR 0xE1, CHR 0xBB, CHR 0xAB] @ '' c'' @ [CHR 0xC3, CHR 0xA2] @ ''u chuy'' @ [CHR 0xE1, CHR 0xBB, CHR 0x87] @ ''n sau:\<newline>\<newline>C'' @ [CHR 0xC3, CHR 0x82] @ ''U CHUY'' @ [CHR 0xE1, CHR 0xBB, CHR 0x86] @ ''N:\<newline>''"

definition vi_script_2 :: string where
  \<comment> \<open>\n\nYEU CAU:\n- Tao \<close>
  "vi_script_2 = ''\<newline>\<newline>Y'' @ [CHR 0xC3, CHR 0x8A] @ ''U C'' @ [CHR 0xE1, CHR 0xBA, CHR 0xA6] @ ''U:\<newline>- T'' @ [CHR 0xE1, CHR 0xBA, CHR 0xA1] @ ''o ''"

definition vi_script_3 :: string where
  \<comment> \<open> canh quan trong\n- Phong cach: \<close>
  "vi_script_3 = '' c'' @ [CHR 0xE1, CHR 0xBA, CHR 0xA3] @ ''nh quan tr'' @ [CHR 0xE1, CHR 0xBB, CHR 0x8D] @ ''ng\<newline>- Phong c'' @ [CHR 0xC3, CHR 0xA1] @ ''ch: ''"

definition vi_script_4 :: string where
  \<comment> \<open>\n- Muc do: \<close>
  "vi_script_4 = ''\<newline>- M'' @ [CHR 0xE1, CHR 0xBB, CHR 0xA9] @ ''c '' @ [CHR 0xC4, CHR 0x91, CHR 0xE1, CHR 0xBB, CHR 0x99] @ '': ''"

definition vi_script_5 :: string where
  \<comment> \<open>\n- Moi canh bao gom:\n  1. Ten canh\n  2. Mo ta canh\n  3. Cac nhan vat\n  4. Boi canh\n  5. Prompt cho AI tao anh\n\nKICH BAN ANH:\<close>
  "vi_script_5 = ''\<newline>- M'' @ [CHR 0xE1, CHR 0xBB, CHR 0x97] @ ''i c'' @ [CHR 0xE1, CHR 0xBA, CHR 0xA3] @ ''nh bao g'' @ [CHR 0xE1, CHR 0xBB, CHR 0x93] @ ''m:\<newline>  1. T'' @ [CHR 0xC3, CHR 0xAA] @ ''n c'' @ [CHR 0xE1, CHR 0xBA, CHR 0xA3] @ ''nh\<newline>  2. M'' @ [CHR 0xC3, CHR 0xB4] @ '' t'' @ [CHR 0xE1, CHR 0xBA, CHR 0xA3] @ '' c'' @ [CHR 0xE1, CHR 0xBA, CHR 0xA3] @ ''nh\<newline>  3. C'' @ [CHR 0xC3, CHR 0xA1] @ ''c nh'' @ [CHR 0xC3, CHR 0xA2] @ ''n v'' @ [CHR 0xE1, CHR 0xBA, CHR 0xAD] @ ''t\<newline>  4. B'' @ [CHR 0xE1, CHR 0xBB, CHR 0x91] @ ''i c'' @ [CHR 0xE1, CHR 0xBA, CHR 0xA3] @ ''nh\<newline>  5. Prompt cho AI t'' @ [CHR 0xE1, CHR 0xBA, CHR 0xA1] @ ''o '' @ [CHR 0xE1, CHR 0xBA, CHR 0xA3] @ ''nh\<newline>\<newline>K'' @ [CHR 0xE1, CHR 0xBB, CHR 0x8A] @ ''CH B'' @ [CHR 0xE1, CHR 0xBA, CHR 0xA2] @ ''N '' @ [CHR 0xE1, CHR 0xBA, CHR 0xA2] @ ''NH:''"

end
