(* ===== verification/Client.thy ===== *)
theory Client
  imports Texts PyFloat
begin

text \<open>
  \<open>LMStudioClient\<close> (src/src/api_client.py). The client's only state is its
  \<open>base_url\<close>; the HTTP session and the LM Studio server behind it are the
  function \<open>http\<close> from the request sent to its outcome: an exception raised by
  \<open>requests\<close> (with its message), or a response with its status code, its
  text, and the result of \<open>response.json()\<close> reduced to what the client reads
  (\<open>result.get("choices")\<close>, and in a choice \<open>"text"\<close> and
  \<open>"message"\<close>/\<open>"content"\<close>), a decoding error being its message.
  Every method catches every exception and returns a string, so each outcome,
  failures included, is a string value here. Logging is not modelled.
\<close>

section \<open>Requests and responses\<close>

record completion_payload =
  cp_prompt :: string
  cp_max_tokens :: int
  cp_temperature :: double
  cp_top_p :: double
  cp_stop :: "string list"
  cp_stream :: bool

record chat_payload =
  ch_messages :: "(string \<times> string) list list"
  ch_max_tokens :: int
  ch_temperature :: double
  ch_stream :: bool

datatype request =
    Get_models string
  | Post_completions string completion_payload
  | Post_chat string chat_payload

record choice =
  choice_text :: "string option"
  choice_message :: "string option option"

datatype http_result =
    Raised string
  | Response nat string "string + choice list option"

record lm_client =
  base_url :: string

definition lm_client_init :: "string \<Rightarrow> lm_client" where
  "lm_client_init url = \<lparr>base_url = url\<rparr>"

text \<open>The keyword arguments \<open>**kwargs\<close> that \<open>generate_text\<close> reads.\<close>

record gen_kwargs =
  kw_max_tokens :: "int option"
  kw_temperature :: "double option"
  kw_top_p :: "double option"
  kw_stop :: "string list option"

definition no_kwargs :: gen_kwargs where
  "no_kwargs = \<lparr>kw_max_tokens = None, kw_temperature = None, kw_top_p = None, kw_stop = None\<rparr>"

definition max_tokens_kw :: "int \<Rightarrow> gen_kwargs" where
  "max_tokens_kw n = no_kwargs\<lparr>kw_max_tokens := Some n\<rparr>"

section \<open>check_connection, generate_text, chat_completion\<close>

definition check_connection :: "(request \<Rightarrow> http_result) \<Rightarrow> lm_client \<Rightarrow> bool" where
  "check_connection http c =
     (case http (Get_models (base_url c @ ''/models'')) of
        Raised _ \<Rightarrow> False
      | Response code _ _ \<Rightarrow> code = 200)"

text \<open>Lines 25--32: the payload, with the \<open>kwargs.get\<close> defaults; the
  literals \<open>0.7\<close> and \<open>0.9\<close> are the doubles nearest to 7/10 and 9/10.\<close>

definition completion_payload :: "string \<Rightarrow> gen_kwargs \<Rightarrow> completion_payload" where
  "completion_payload prompt kw =
     \<lparr>cp_prompt = prompt,
      cp_max_tokens = py_get (kw_max_tokens kw) 1000,
      cp_temperature = py_get (kw_temperature kw) (fl_div 7 10),
      cp_top_p = py_get (kw_top_p kw) (fl_div 9 10),
      cp_stop = py_get (kw_stop kw) [],
      cp_stream = False\<rparr>"

text \<open>\<open>result.get("choices", [{}])[0]\<close>: \<open>None\<close> is the \<open>IndexError\<close> of an
  empty list, which the \<open>except\<close> turns into its message.\<close>

definition first_choice :: "choice list option \<Rightarrow> choice option" where
  "first_choice cs =
     (case py_get cs [\<lparr>choice_text = None, choice_message = None\<rparr>] of
        [] \<Rightarrow> None
      | c # _ \<Rightarrow> Some c)"

definition index_error_msg :: string where
  "index_error_msg = ''list index out of range''"

text \<open>Lines 40--49: what \<open>generate_text\<close> returns for an outcome.\<close>

definition completion_result :: "http_result \<Rightarrow> string" where
  "completion_result r =
     (case r of
        Raised msg \<Rightarrow> ''Connection error: '' @ msg
      | Response code _ js \<Rightarrow>
          (if code = 200 then
             (case js of
                Inl err \<Rightarrow> ''Connection error: '' @ err
              | Inr cs \<Rightarrow>
                  (case first_choice cs of
                     None \<Rightarrow> ''Connection error: '' @ index_error_msg
                   | Some c \<Rightarrow> py_strip (py_get (choice_text c) [])))
           else ''Error: '' @ nat_to_dec code))"

definition generate_text ::
  "(request \<Rightarrow> http_result) \<Rightarrow> lm_client \<Rightarrow> string \<Rightarrow> gen_kwargs \<Rightarrow> string" where
  "generate_text http c prompt kw =
     completion_result (http (Post_completions (base_url c @ ''/completions'') (completion_payload prompt kw)))"

definition chat_result :: "http_result \<Rightarrow> string" where
  "chat_result r =
     (case r of
        Raised msg \<Rightarrow> ''Connection error: '' @ msg
      | Response code _ js \<Rightarrow>
          (if code = 200 then
             (case js of
                Inl err \<Rightarrow> ''Connection error: '' @ err
              | Inr cs \<Rightarrow>
                  (case first_choice cs of
                     None \<Rightarrow> ''Connection error: '' @ index_error_msg
                   | Some c \<Rightarrow>
                       py_strip (case choice_message c of Some (Some t) \<Rightarrow> t | _ \<Rightarrow> [])))
           else ''Error: '' @ nat_to_dec code))"

definition chat_completion ::
  "(request \<Rightarrow> http_result) \<Rightarrow> lm_client \<Rightarrow> (string \<times> string) list list \<Rightarrow> gen_kwargs \<Rightarrow> string" where
  "chat_completion http c messages kw =
     chat_result (http (Post_chat (base_url c @ ''/chat/completions'')
       \<lparr>ch_messages = messages,
        ch_max_tokens = py_get (kw_max_tokens kw) 1000,
        ch_temperature = py_get (kw_temperature kw) (fl_div 7 10),
        ch_stream = False\<rparr>))"

abbreviation completions_request :: "lm_client \<Rightarrow> string \<Rightarrow> gen_kwargs \<Rightarrow> request" where
  "completions_request c prompt kw \<equiv>
     Post_completions (base_url c @ ''/completions'') (completion_payload prompt kw)"

section \<open>Prompt builders\<close>

definition edit_story_text ::
  "(request \<Rightarrow> http_result) \<Rightarrow> lm_client \<Rightarrow> string \<Rightarrow> string \<Rightarrow> string" where
  "edit_story_text http c text instruction =
     generate_text http c (vi_edit_1 @ text @ vi_edit_2 @ instruction @ vi_edit_3) (max_tokens_kw 2000)"

definition style_map :: "(string \<times> string) list" where
  "style_map =
     [(vi_style_modern_key, vi_style_modern), (vi_style_classic_key, vi_style_classic),
      (vi_style_literary_key, vi_style_literary), (vi_style_plain_key, vi_style_plain),
      (vi_style_young_key, vi_style_young)]"

definition translate_prompt :: "string \<Rightarrow> string \<Rightarrow> string \<Rightarrow> string \<Rightarrow> string" where
  "translate_prompt text source_lang target_lang style =
     (let style_desc = py_get (map_of style_map style) vi_style_default
      in vi_translate_1 @ source_lang @ vi_translate_2 @ target_lang @ vi_translate_3 @ style_desc @
         '':'' @ [nl, nl] @ text @ [nl, nl] @ vi_translate_4)"

definition translate_text ::
  "(request \<Rightarrow> http_result) \<Rightarrow> lm_client \<Rightarrow> string \<Rightarrow> string \<Rightarrow> string \<Rightarrow> string \<Rightarrow> string" where
  "translate_text http c text source_lang target_lang style =
     generate_text http c (translate_prompt text source_lang target_lang style) no_kwargs"

definition detail_map :: "(string \<times> string) list" where
  "detail_map =
     [(vi_detail_basic_key, vi_detail_basic), (vi_detail_key, vi_detail),
      (vi_detail_full_key, vi_detail_full)]"

definition client_image_script ::
  "(request \<Rightarrow> http_result) \<Rightarrow> lm_client \<Rightarrow> string \<Rightarrow> int \<Rightarrow> string \<Rightarrow> string \<Rightarrow> string" where
  "client_image_script http c story num_scenes style detail_level =
     (let detail_desc = py_get (map_of detail_map detail_level) vi_detail
      in generate_text http c
           (vi_script_1 @ story @ vi_script_2 @ int_to_dec num_scenes @ vi_script_3 @ style @
            vi_script_4 @ detail_desc @ vi_script_5)
           (max_tokens_kw 3000))"


section \<open>Properties of the client\<close>

text \<open>C9. \<open>generate_text\<close> on every outcome of its request: an exception gives
  \<open>"Connection error: ..."\<close>, a status other than 200 gives
  \<open>"Error: {status}"\<close>, an empty \<open>choices\<close> list gives the \<open>IndexError\<close>
  message, a body without \<open>choices\<close> gives the empty string, and otherwise the
  stripped text of the first choice is returned. No failure is raised.\<close>

theorem generate_text_branches:
  "(http (completions_request c prompt kw) = Raised msg \<longrightarrow>
      generate_text http c prompt kw = ''Connection error: '' @ msg) \<and>
   (http (completions_request c prompt kw) = Response code body js \<and> code \<noteq> 200 \<longrightarrow>
      generate_text http c prompt kw = ''Error: '' @ nat_to_dec code) \<and>
   (http (completions_request c prompt kw) = Response 200 body (Inr (Some [])) \<longrightarrow>
      generate_text http c prompt kw = ''Connection error: list index out of range'') \<and>
   (http (completions_request c prompt kw) = Response 200 body (Inr None) \<longrightarrow>
      generate_text http c prompt kw = []) \<and>
   (http (completions_request c prompt kw) = Response 200 body (Inr (Some (ch # chs))) \<longrightarrow>
      generate_text http c prompt kw = py_strip (py_get (choice_text ch) []))"
  by (simp add: generate_text_def completion_result_def first_choice_def index_error_msg_def
                py_strip_def)

theorem generate_text_branches_witness:
  "generate_text (\<lambda>_. Response 500 ''oops'' (Inl ''bad json'')) (lm_client_init ''u'') ''p'' no_kwargs
     = ''Error: 500''"
proof -
  have "nat_to_dec 500 = ''500''"
    by (simp add: nat_to_dec.simps [of 500] nat_to_dec.simps [of 50] py_simps)
  then show ?thesis
    using generate_text_branches [of "\<lambda>_. Response 500 ''oops'' (Inl ''bad json'')"
            "lm_client_init ''u''" "''p''" no_kwargs _ 500 "''oops''" "Inl ''bad json''"]
    by simp
qed

text \<open>C10. A translation request always asks for at most 1000 tokens at
  temperature 0.7, whatever the length of the batch text: \<open>translate_text\<close>
  calls \<open>generate_text\<close> without keyword arguments.\<close>

theorem translate_text_request:
  "\<exists>p. translate_text http c text source_lang target_lang style =
         completion_result (http (Post_completions (base_url c @ ''/completions'') p)) \<and>
       cp_prompt p = translate_prompt text source_lang target_lang style \<and>
       cp_max_tokens p = 1000 \<and> cp_temperature p = fl_div 7 10"
  by (auto simp: translate_text_def generate_text_def completion_payload_def no_kwargs_def)

text \<open>C11. A style that is not one of the five keys of \<open>style_map\<close> is not an
  error: the prompt uses the generic fragment \<open>"van phong tu nhien"\<close>. This is
  what happens to \<open>translate_file\<close>'s default style \<open>"modern"\<close>.\<close>

theorem translate_prompt_style_fallback:
  "style \<notin> set (map fst style_map) \<Longrightarrow>
   translate_prompt text source_lang target_lang style =
     vi_translate_1 @ source_lang @ vi_translate_2 @ target_lang @ vi_translate_3 @
     vi_style_default @ '':'' @ [nl, nl] @ text @ [nl, nl] @ vi_translate_4"
  by (simp add: translate_prompt_def map_of_eq_None_iff [THEN iffD2])

theorem translate_prompt_style_fallback_witness:
  "''modern'' \<notin> set (map fst style_map) \<and>
   translate_prompt ''1. Hello'' ''en'' ''vi'' ''modern'' =
     vi_translate_1 @ ''en'' @ vi_translate_2 @ ''vi'' @ vi_translate_3 @
     vi_style_default @ '':'' @ [nl, nl] @ ''1. Hello'' @ [nl, nl] @ vi_translate_4"
proof -
  have k: "''modern'' \<notin> set (map fst style_map)"
    by (simp add: style_map_def vi_style_modern_key_def vi_style_classic_key_def
                  vi_style_literary_key_def vi_style_plain_key_def vi_style_young_key_def)
  show ?thesis using translate_prompt_style_fallback [OF k] k by simp
qed

end
