(* ===== verification/StoryEditor.thy ===== *)
theory StoryEditor
  imports Client
begin

text \<open>
  \<open>StoryEditor\<close> (src/src/story_editor.py). The editor holds the AI client
  it was built with (\<open>MainApp.setup_clients\<close> passes the
  \<open>LMStudioClient\<close>), so each method is a function of the HTTP layer
  \<open>http\<close> and the client \<open>c\<close>, built on \<open>generate_text\<close> and
  \<open>generate_image_script\<close> of theory \<open>Client\<close>. \<open>analyze_story\<close> parses the
  reply into a \<open>dict\<close>, modelled as the insertion-ordered association list of
  the Prelude. The string constants are the UTF-8 bytes of the source text.
\<close>

section \<open>Prompt texts\<close>

definition vi_ins_style_key :: string where
  \<comment> \<open>Chinh van phong\<close>
  "vi_ins_style_key = ''Ch'' @ [CHR 0xE1, CHR 0xBB, CHR 0x89] @ ''nh v'' @ [CHR 0xC4, CHR 0x83] @ ''n phong''"

definition vi_ins_style :: string where
  \<comment> \<open>Hay chinh sua van phong cua truyen cho hay hon, tu nhien hon\<close>
  "vi_ins_style = ''H'' @ [CHR 0xC3, CHR 0xA3] @ ''y ch'' @ [CHR 0xE1, CHR 0xBB, CHR 0x89] @ ''nh s'' @ [CHR 0xE1, CHR 0xBB, CHR 0xAD] @ ''a v'' @ [CHR 0xC4, CHR 0x83] @ ''n phong c'' @ [CHR 0xE1, CHR 0xBB, CHR 0xA7] @ ''a truy'' @ [CHR 0xE1, CHR 0xBB, CHR 0x87] @ ''n cho hay h'' @ [CHR 0xC6, CHR 0xA1] @ ''n, t'' @ [CHR 0xE1, CHR 0xBB, CHR 0xB1] @ '' nhi'' @ [CHR 0xC3, CHR 0xAA] @ ''n h'' @ [CHR 0xC6, CHR 0xA1] @ ''n''"

definition vi_ins_summary_key :: string where
  \<comment> \<open>Tom tat\<close>
  "vi_ins_summary_key = ''T'' @ [CHR 0xC3, CHR 0xB3] @ ''m t'' @ [CHR 0xE1, CHR 0xBA, CHR 0xAF] @ ''t''"

definition vi_ins_summary :: string where
  \<comment> \<open>Hay tom tat truyen mot cach ngan gon nhung van giu duoc noi dung chinh\<close>
  "vi_ins_summary = ''H'' @ [CHR 0xC3, CHR 0xA3] @ ''y t'' @ [CHR 0xC3, CHR 0xB3] @ ''m t'' @ [CHR 0xE1, CHR 0xBA, CHR 0xAF] @ ''t truy'' @ [CHR 0xE1, CHR 0xBB, CHR 0x87] @ ''n m'' @ [CHR 0xE1, CHR 0xBB, CHR 0x99] @ ''t c'' @ [CHR 0xC3, CHR 0xA1] @ ''ch ng'' @ [CHR 0xE1, CHR 0xBA, CHR 0xAF] @ ''n g'' @ [CHR 0xE1, CHR 0xBB, CHR 0x8D] @ ''n nh'' @ [CHR 0xC6, CHR 0xB0] @ ''ng v'' @ [CHR 0xE1, CHR 0xBA, CHR 0xAB] @ ''n gi'' @ [CHR 0xE1, CHR 0xBB, CHR 0xAF] @ '' '' @ [CHR 0xC4, CHR 0x91, CHR 0xC6, CHR 0xB0, CHR 0xE1, CHR 0xBB, CHR 0xA3] @ ''c n'' @ [CHR 0xE1, CHR 0xBB, CHR 0x99] @ ''i dung ch'' @ [CHR 0xC3, CHR 0xAD] @ ''nh''"

definition vi_ins_expand_key :: string where
  \<comment> \<open>Mo rong\<close>
  "vi_ins_expand_key = ''M'' @ [CHR 0xE1, CHR 0xBB, CHR 0x9F] @ '' r'' @ [CHR 0xE1, CHR 0xBB, CHR 0x99] @ ''ng''"

definition vi_ins_expand :: string where
  \<comment> \<open>Hay mo rong truyen them chi tiet, lam phong phu hon\<close>
  "vi_ins_expand = ''H'' @ [CHR 0xC3, CHR 0xA3] @ ''y m'' @ [CHR 0xE1, CHR 0xBB, CHR 0x9F] @ '' r'' @ [CHR 0xE1, CHR 0xBB, CHR 0x99] @ ''ng truy'' @ [CHR 0xE1, CHR 0xBB, CHR 0x87] @ ''n th'' @ [CHR 0xC3, CHR 0xAA] @ ''m chi ti'' @ [CHR 0xE1, CHR 0xBA, CHR 0xBF] @ ''t, l'' @ [CHR 0xC3, CHR 0xA0] @ ''m phong ph'' @ [CHR 0xC3, CHR 0xBA] @ '' h'' @ [CHR 0xC6, CHR 0xA1] @ ''n''"

definition vi_ins_spelling_key :: string where
  \<comment> \<open>Sua loi chinh ta\<close>
  "vi_ins_spelling_key = ''S'' @ [CHR 0xE1, CHR 0xBB, CHR 0xAD] @ ''a l'' @ [CHR 0xE1, CHR 0xBB, CHR 0x97] @ ''i ch'' @ [CHR 0xC3, CHR 0xAD] @ ''nh t'' @ [CHR 0xE1, CHR 0xBA, CHR 0xA3]"

definition vi_ins_spelling :: string where
  \<comment> \<open>Hay sua tat ca loi chinh ta va ngu phap trong truyen\<close>
  "vi_ins_spelling = ''H'' @ [CHR 0xC3, CHR 0xA3] @ ''y s'' @ [CHR 0xE1, CHR 0xBB, CHR 0xAD] @ ''a t'' @ [CHR 0xE1, CHR 0xBA, CHR 0xA5] @ ''t c'' @ [CHR 0xE1, CHR 0xBA, CHR 0xA3] @ '' l'' @ [CHR 0xE1, CHR 0xBB, CHR 0x97] @ ''i ch'' @ [CHR 0xC3, CHR 0xAD] @ ''nh t'' @ [CHR 0xE1, CHR 0xBA, CHR 0xA3] @ '' v'' @ [CHR 0xC3, CHR 0xA0] @ '' ng'' @ [CHR 0xE1, CHR 0xBB, CHR 0xAF] @ '' ph'' @ [CHR 0xC3, CHR 0xA1] @ ''p trong truy'' @ [CHR 0xE1, CHR 0xBB, CHR 0x87] @ ''n''"

definition vi_ins_optimize_key :: string where
  \<comment> \<open>Toi uu hoa\<close>
  "vi_ins_optimize_key = ''T'' @ [CHR 0xE1, CHR 0xBB, CHR 0x91] @ ''i '' @ [CHR 0xC6, CHR 0xB0] @ ''u h'' @ [CHR 0xC3, CHR 0xB3] @ ''a''"

definition vi_ins_optimize :: string where
  \<comment> \<open>Hay toi uu hoa cau truc va cach dien dat cua truyen\<close>
  "vi_ins_optimize = ''H'' @ [CHR 0xC3, CHR 0xA3] @ ''y t'' @ [CHR 0xE1, CHR 0xBB, CHR 0x91] @ ''i '' @ [CHR 0xC6, CHR 0xB0] @ ''u h'' @ [CHR 0xC3, CHR 0xB3] @ ''a c'' @ [CHR 0xE1, CHR 0xBA, CHR 0xA5] @ ''u tr'' @ [CHR 0xC3, CHR 0xBA] @ ''c v'' @ [CHR 0xC3, CHR 0xA0] @ '' c'' @ [CHR 0xC3, CHR 0xA1] @ ''ch di'' @ [CHR 0xE1, CHR 0xBB, CHR 0x85] @ ''n '' @ [CHR 0xC4, CHR 0x91, CHR 0xE1, CHR 0xBA, CHR 0xA1] @ ''t c'' @ [CHR 0xE1, CHR 0xBB, CHR 0xA7] @ ''a truy'' @ [CHR 0xE1, CHR 0xBB, CHR 0x87] @ ''n''"

definition vi_ins_default :: string where
  \<comment> \<open>Hay chinh sua truyen\<close>
  "vi_ins_default = ''H'' @ [CHR 0xC3, CHR 0xA3] @ ''y ch'' @ [CHR 0xE1, CHR 0xBB, CHR 0x89] @ ''nh s'' @ [CHR 0xE1, CHR 0xBB, CHR 0xAD] @ ''a truy'' @ [CHR 0xE1, CHR 0xBB, CHR 0x87] @ ''n''"

definition vi_shorter :: string where
  \<comment> \<open>ngan hon\<close>
  "vi_shorter = ''ng'' @ [CHR 0xE1, CHR 0xBA, CHR 0xAF] @ ''n h'' @ [CHR 0xC6, CHR 0xA1] @ ''n''"

definition vi_shorter_ins :: string where
  \<comment> \<open>. Hay lam cho truyen ngan gon hon\<close>
  "vi_shorter_ins = ''. H'' @ [CHR 0xC3, CHR 0xA3] @ ''y l'' @ [CHR 0xC3, CHR 0xA0] @ ''m cho truy'' @ [CHR 0xE1, CHR 0xBB, CHR 0x87] @ ''n ng'' @ [CHR 0xE1, CHR 0xBA, CHR 0xAF] @ ''n g'' @ [CHR 0xE1, CHR 0xBB, CHR 0x8D] @ ''n h'' @ [CHR 0xC6, CHR 0xA1] @ ''n''"

definition vi_longer :: string where
  \<comment> \<open>dai hon\<close>
  "vi_longer = ''d'' @ [CHR 0xC3, CHR 0xA0] @ ''i h'' @ [CHR 0xC6, CHR 0xA1] @ ''n''"

definition vi_longer_ins :: string where
  \<comment> \<open>. Hay mo rong truyen dai hon\<close>
  "vi_longer_ins = ''. H'' @ [CHR 0xC3, CHR 0xA3] @ ''y m'' @ [CHR 0xE1, CHR 0xBB, CHR 0x9F] @ '' r'' @ [CHR 0xE1, CHR 0xBB, CHR 0x99] @ ''ng truy'' @ [CHR 0xE1, CHR 0xBB, CHR 0x87] @ ''n d'' @ [CHR 0xC3, CHR 0xA0] @ ''i h'' @ [CHR 0xC6, CHR 0xA1] @ ''n''"

definition vi_story_1 :: string where
  \<comment> \<open> /  / TRUYEN GOC: / \<close>
  "vi_story_1 = [CHR 0x0A, CHR 0x0A] @ ''TRUY'' @ [CHR 0xE1, CHR 0xBB, CHR 0x86] @ ''N G'' @ [CHR 0xE1, CHR 0xBB, CHR 0x90] @ ''C:'' @ [CHR 0x0A]"

definition vi_story_2 :: string where
  \<comment> \<open> /  / TRUYEN DA CHINH SUA:\<close>
  "vi_story_2 = [CHR 0x0A, CHR 0x0A] @ ''TRUY'' @ [CHR 0xE1, CHR 0xBB, CHR 0x86] @ ''N '' @ [CHR 0xC4, CHR 0x90, CHR 0xC3, CHR 0x83] @ '' CH'' @ [CHR 0xE1, CHR 0xBB, CHR 0x88] @ ''NH S'' @ [CHR 0xE1, CHR 0xBB, CHR 0xAC] @ ''A:''"

definition vi_analyze_1 :: string where
  \<comment> \<open>Hay phan tich truyen sau: /  / \<close>
  "vi_analyze_1 = ''H'' @ [CHR 0xC3, CHR 0xA3] @ ''y ph'' @ [CHR 0xC3, CHR 0xA2] @ ''n t'' @ [CHR 0xC3, CHR 0xAD] @ ''ch truy'' @ [CHR 0xE1, CHR 0xBB, CHR 0x87] @ ''n sau:'' @ [CHR 0x0A, CHR 0x0A]"

definition vi_analyze_2 :: string where
  \<comment> \<open> /  / PHAN TICH: / 1. The loai: / 2. Nhan vat chinh: / 3. Boi canh: / 4. Cot truyen chinh: / 5. Diem manh: / 6. Diem can cai thien:\<close>
  "vi_analyze_2 = [CHR 0x0A, CHR 0x0A] @ ''PH'' @ [CHR 0xC3, CHR 0x82] @ ''N T'' @ [CHR 0xC3, CHR 0x8D] @ ''CH:'' @ [CHR 0x0A] @ ''1. Th'' @ [CHR 0xE1, CHR 0xBB, CHR 0x83] @ '' lo'' @ [CHR 0xE1, CHR 0xBA, CHR 0xA1] @ ''i:'' @ [CHR 0x0A] @ ''2. Nh'' @ [CHR 0xC3, CHR 0xA2] @ ''n v'' @ [CHR 0xE1, CHR 0xBA, CHR 0xAD] @ ''t ch'' @ [CHR 0xC3, CHR 0xAD] @ ''nh:'' @ [CHR 0x0A] @ ''3. B'' @ [CHR 0xE1, CHR 0xBB, CHR 0x91] @ ''i c'' @ [CHR 0xE1, CHR 0xBA, CHR 0xA3] @ ''nh:'' @ [CHR 0x0A] @ ''4. C'' @ [CHR 0xE1, CHR 0xBB, CHR 0x91] @ ''t truy'' @ [CHR 0xE1, CHR 0xBB, CHR 0x87] @ ''n ch'' @ [CHR 0xC3, CHR 0xAD] @ ''nh:'' @ [CHR 0x0A] @ ''5. '' @ [CHR 0xC4, CHR 0x90] @ ''i'' @ [CHR 0xE1, CHR 0xBB, CHR 0x83] @ ''m m'' @ [CHR 0xE1, CHR 0xBA, CHR 0xA1] @ ''nh:'' @ [CHR 0x0A] @ ''6. '' @ [CHR 0xC4, CHR 0x90] @ ''i'' @ [CHR 0xE1, CHR 0xBB, CHR 0x83] @ ''m c'' @ [CHR 0xE1, CHR 0xBA, CHR 0xA7] @ ''n c'' @ [CHR 0xE1, CHR 0xBA, CHR 0xA3] @ ''i thi'' @ [CHR 0xE1, CHR 0xBB, CHR 0x87] @ ''n:''"

definition vi_continue_1 :: string where
  \<comment> \<open>Hay tiep tuc cau chuyen sau (khoang \<close>
  "vi_continue_1 = ''H'' @ [CHR 0xC3, CHR 0xA3] @ ''y ti'' @ [CHR 0xE1, CHR 0xBA, CHR 0xBF] @ ''p t'' @ [CHR 0xE1, CHR 0xBB, CHR 0xA5] @ ''c c'' @ [CHR 0xC3, CHR 0xA2] @ ''u chuy'' @ [CHR 0xE1, CHR 0xBB, CHR 0x87] @ ''n sau (kho'' @ [CHR 0xE1, CHR 0xBA, CHR 0xA3] @ ''ng ''"

definition vi_continue_2 :: string where
  \<comment> \<open> tu): /  / \<close>
  "vi_continue_2 = '' t'' @ [CHR 0xE1, CHR 0xBB, CHR 0xAB] @ ''):'' @ [CHR 0x0A, CHR 0x0A]"

definition vi_continue_3 :: string where
  \<comment> \<open> /  / PHAN TIEP THEO:\<close>
  "vi_continue_3 = [CHR 0x0A, CHR 0x0A] @ ''PH'' @ [CHR 0xE1, CHR 0xBA, CHR 0xA6] @ ''N TI'' @ [CHR 0xE1, CHR 0xBA, CHR 0xBE] @ ''P THEO:''"

section \<open>edit_story\<close>

text \<open>Lines 17--23: \<open>instruction_map\<close>.\<close>

definition instruction_map :: "(string \<times> string) list" where
  "instruction_map =
     [(vi_ins_style_key, vi_ins_style), (vi_ins_summary_key, vi_ins_summary),
      (vi_ins_expand_key, vi_ins_expand), (vi_ins_spelling_key, vi_ins_spelling),
      (vi_ins_optimize_key, vi_ins_optimize)]"

text \<open>Lines 25--31: the instruction with its length clause.\<close>

definition edit_instruction :: "string \<Rightarrow> string \<Rightarrow> string" where
  "edit_instruction edit_type length_preference =
     (let instruction = py_get (map_of instruction_map edit_type) vi_ins_default
      in if length_preference = vi_shorter then instruction @ vi_shorter_ins
         else if length_preference = vi_longer then instruction @ vi_longer_ins
         else instruction)"

definition edit_prompt :: "string \<Rightarrow> string \<Rightarrow> string" where
  "edit_prompt instruction story = instruction @ vi_story_1 @ story @ vi_story_2"

text \<open>Lines 12--48.\<close>

definition edit_story ::
  "(request \<Rightarrow> http_result) \<Rightarrow> lm_client \<Rightarrow> string \<Rightarrow> string \<Rightarrow> string \<Rightarrow> string" where
  "edit_story http c story edit_type length_preference =
     generate_text http c (edit_prompt (edit_instruction edit_type length_preference) story)
       (no_kwargs\<lparr>kw_max_tokens := Some 4000, kw_temperature := Some (fl_div 7 10)\<rparr>)"

text \<open>Lines 50--61: \<open>include_prompts\<close> is accepted and not passed on.\<close>

definition editor_image_script ::
  "(request \<Rightarrow> http_result) \<Rightarrow> lm_client \<Rightarrow> string \<Rightarrow> int \<Rightarrow> string \<Rightarrow> string \<Rightarrow> bool \<Rightarrow> string" where
  "editor_image_script http c story num_scenes style detail_level include_prompts =
     client_image_script http c story num_scenes style detail_level"

section \<open>analyze_story\<close>

text \<open>\<open>key, value = line.split(':', 1)\<close>.\<close>

definition line_key :: "string \<Rightarrow> string" where
  "line_key line = takeWhile (\<lambda>c. c \<noteq> CHR '':'') line"

definition line_value :: "string \<Rightarrow> string" where
  "line_value line = tl (dropWhile (\<lambda>c. c \<noteq> CHR '':'') line)"

abbreviation has_colon :: "string \<Rightarrow> bool" where
  "has_colon l \<equiv> CHR '':'' \<in> set l"

text \<open>One iteration of the loop of lines 83--86.\<close>

definition analysis_step :: "string \<Rightarrow> (string \<times> string) list \<Rightarrow> (string \<times> string) list" where
  "analysis_step line result =
     (if CHR '':'' \<in> set line
      then dict_set (py_strip (line_key line)) (py_strip (line_value line)) result
      else result)"

text \<open>Lines 80--88.\<close>

definition parse_analysis :: "string \<Rightarrow> (string \<times> string) list" where
  "parse_analysis analysis = fold analysis_step (py_split nl analysis) []"

definition analyze_prompt :: "string \<Rightarrow> string" where
  "analyze_prompt story = vi_analyze_1 @ story @ vi_analyze_2"

text \<open>Lines 63--88.\<close>

definition analyze_story :: "(request \<Rightarrow> http_result) \<Rightarrow> lm_client \<Rightarrow> string \<Rightarrow> (string \<times> string) list" where
  "analyze_story http c story = parse_analysis (generate_text http c (analyze_prompt story) no_kwargs)"

section \<open>generate_continuation\<close>

text \<open>Lines 90--101.\<close>

definition continuation_prompt :: "string \<Rightarrow> int \<Rightarrow> string" where
  "continuation_prompt story len =
     vi_continue_1 @ int_to_dec len @ vi_continue_2 @ story @ vi_continue_3"

definition generate_continuation :: "(request \<Rightarrow> http_result) \<Rightarrow> lm_client \<Rightarrow> string \<Rightarrow> int \<Rightarrow> string" where
  "generate_continuation http c story len =
     generate_text http c (continuation_prompt story len) (max_tokens_kw (len * 2))"

section \<open>Lemmas on the parser\<close>

lemma fold_upd_lookup:
  "fold (\<lambda>l m. if P l then m(f l \<mapsto> g l) else m) ls m0 k =
     (case filter (\<lambda>l. P l \<and> f l = k) ls of [] \<Rightarrow> m0 k | xs \<Rightarrow> Some (g (last xs)))"
proof (induction ls arbitrary: m0)
  case (Cons l ls)
  then show ?case by (auto split: list.splits)
qed simp

lemma map_of_fold_analysis:
  "map_of (fold analysis_step ls d) =
     fold (\<lambda>l m. if has_colon l then m(py_strip (line_key l) \<mapsto> py_strip (line_value l)) else m) ls (map_of d)"
  by (induction ls arbitrary: d) (simp_all add: analysis_step_def)

lemma keys_fold_analysis:
  "distinct (map fst d) \<Longrightarrow>
   map fst (fold analysis_step ls d) =
     rev (remdups (rev (map fst d @ map (\<lambda>l. py_strip (line_key l)) (filter has_colon ls))))"
proof (induction ls arbitrary: d)
  case Nil
  then show ?case by (simp add: distinct_remdups_id)
next
  case (Cons l ls)
  have dd: "distinct (map fst (analysis_step l d))"
    using Cons.prems by (simp add: analysis_step_def)
  have k: "map fst (analysis_step l d) =
           rev (remdups (rev (map fst d @ map (\<lambda>l. py_strip (line_key l)) (filter has_colon [l]))))"
    using Cons.prems by (simp add: analysis_step_def keys_dict_set_first_occ distinct_remdups_id)
  show ?case
    using Cons.IH [OF dd] k first_occ_append [of "map fst d @ map (\<lambda>l. py_strip (line_key l)) (filter has_colon [l])"]
    by simp
qed

section \<open>Properties of the editor\<close>

text \<open>C17. The dict built by \<open>analyze_story\<close> from a reply: its keys are
  distinct, in the order in which they first appear among the reply's lines
  containing \<open>:\<close>; the value of a key is the stripped text after the first
  \<open>:\<close> of the last such line with that key (later lines overwrite earlier
  ones, and a value keeps any further \<open>:\<close>).\<close>

theorem parse_analysis_dict:
  "distinct (map fst (parse_analysis a)) \<and>
   map fst (parse_analysis a) =
     rev (remdups (rev (map (\<lambda>l. py_strip (line_key l)) (filter (\<lambda>l. CHR '':'' \<in> set l) (py_split nl a))))) \<and>
   map_of (parse_analysis a) k =
     (case filter (\<lambda>l. CHR '':'' \<in> set l \<and> py_strip (line_key l) = k) (py_split nl a) of
        [] \<Rightarrow> None
      | ls \<Rightarrow> Some (py_strip (line_value (last ls))))"
proof -
  have keys: "map fst (parse_analysis a) =
     rev (remdups (rev (map (\<lambda>l. py_strip (line_key l)) (filter has_colon (py_split nl a)))))"
    using keys_fold_analysis [of "[]" "py_split nl a"] by (simp add: parse_analysis_def)
  have "distinct (map fst (parse_analysis a))"
    by (simp only: keys distinct_rev distinct_remdups)
  moreover have "map_of (parse_analysis a) k =
     (case filter (\<lambda>l. has_colon l \<and> py_strip (line_key l) = k) (py_split nl a) of
        [] \<Rightarrow> None
      | ls \<Rightarrow> Some (py_strip (line_value (last ls))))"
    by (simp add: parse_analysis_def map_of_fold_analysis fold_upd_lookup)
  ultimately show ?thesis using keys by blast
qed

text \<open>C18. A failed request is parsed as analysis: when the HTTP call raises
  with a one-line message \<open>msg\<close>, \<open>analyze_story\<close> returns the dict
  \<open>{"Connection error": msg.strip()}\<close>, not an error.\<close>

theorem analyze_story_error:
  assumes "http (completions_request c (analyze_prompt story) no_kwargs) = Raised msg"
      and "nl \<notin> set msg"
  shows "analyze_story http c story = [(''Connection error'', py_strip msg)]"
proof -
  let ?r = "''Connection error: '' @ msg"
  have g: "generate_text http c (analyze_prompt story) no_kwargs = ?r"
    using assms(1) by (simp add: generate_text_def completion_result_def)
  have sp: "py_split nl ?r = [?r]"
    using assms(2) by simp
  have k: "py_strip (line_key ?r) = ''Connection error''"
  proof -
    have "line_key ?r = ''Connection error''" by (simp add: line_key_def)
    moreover have "py_strip ''Connection error'' = ''Connection error''"
      by (rule py_strip_no_space_ends) (simp_all add: is_space_def)
    ultimately show ?thesis by simp
  qed
  have v: "py_strip (line_value ?r) = py_strip msg"
  proof -
    have "line_value ?r = CHR '' '' # msg" by (simp add: line_value_def)
    moreover have "py_strip (CHR '' '' # msg) = py_strip msg"
      by (rule py_strip_space_Cons) (simp add: is_space_def)
    ultimately show ?thesis by simp
  qed
  have c: "CHR '':'' \<in> set ?r" by simp
  have "analyze_story http c story = analysis_step ?r []"
    by (simp only: analyze_story_def parse_analysis_def g sp fold_Cons fold_Nil o_apply id_apply)
  also have "\<dots> = [(''Connection error'', py_strip msg)]"
    by (simp only: analysis_step_def c k v if_True dict_set.simps(1))
  finally show ?thesis .
qed

theorem analyze_story_error_witness:
  "analyze_story (\<lambda>_. Raised ''timed out'') (lm_client_init ''http://localhost:1234/v1'') ''story''
     = [(''Connection error'', ''timed out'')]"
proof -
  have "py_strip ''timed out'' = ''timed out''"
    by (rule py_strip_no_space_ends) (simp_all add: is_space_def)
  then show ?thesis
    using analyze_story_error [of "\<lambda>_. Raised ''timed out''" "lm_client_init ''http://localhost:1234/v1''"
                                  "''story''" "''timed out''"]
    by simp
qed

text \<open>C19. \<open>edit_story\<close> sends one completion request with
  \<open>max_tokens=4000\<close>, temperature 0.7 and the default \<open>top_p\<close> 0.9; the
  prompt is the instruction for the edit type (the generic instruction for an
  unknown type), the clause for a shorter or longer text, the story, and the
  closing heading. The returned text is the client's result for that request.\<close>

theorem edit_story_request:
  "\<exists>p. edit_story http c story edit_type length_preference =
         completion_result (http (Post_completions (base_url c @ ''/completions'') p)) \<and>
       cp_max_tokens p = 4000 \<and> cp_temperature p = fl_div 7 10 \<and> cp_top_p p = fl_div 9 10 \<and>
       cp_prompt p =
         py_get (map_of instruction_map edit_type) vi_ins_default @
         (if length_preference = vi_shorter then vi_shorter_ins
          else if length_preference = vi_longer then vi_longer_ins else []) @
         vi_story_1 @ story @ vi_story_2"
  by (auto simp: edit_story_def generate_text_def completion_payload_def no_kwargs_def edit_prompt_def
                 edit_instruction_def Let_def)

end
