(* ===== verification/Base64.thy ===== *)
theory Base64
  imports Prelude
begin

text \<open>
  \<open>base64.b64decode(s)\<close> as \<open>ImageGenerator.generate\<close> calls it
  (src/src/image_generator.py, line 76): \<open>s.encode('ascii')\<close>, then
  CPython's \<open>binascii.a2b_base64\<close> in its default, non-strict mode. The
  decoder reads one character at a time with the state of the C loop
  (\<open>quad_pos\<close>, \<open>leftchar\<close>, \<open>pads\<close>): characters outside the alphabet are
  skipped, a pad ends the data once a quad is complete enough, and a quad left
  open at the end is an error. \<open>b64encode\<close> is the standard encoder, the
  format the Stable Diffusion server sends its images in.
\<close>

datatype b64_error = Non_ascii | Excess_data | Incorrect_padding

definition b64_val :: "char \<Rightarrow> nat option" where
  "b64_val c =
     (let n = (of_char c :: nat)
      in if 65 \<le> n \<and> n \<le> 90 then Some (n - 65)
         else if 97 \<le> n \<and> n \<le> 122 then Some (n - 71)
         else if 48 \<le> n \<and> n \<le> 57 then Some (n + 4)
         else if n = 43 then Some 62
         else if n = 47 then Some 63
         else None)"

text \<open>The loop of \<open>binascii_a2b_base64_impl\<close>; \<open>acc\<close> holds the bytes
  written so far, last first.\<close>

fun a2b_base64 :: "nat \<Rightarrow> nat \<Rightarrow> nat \<Rightarrow> string \<Rightarrow> string \<Rightarrow> b64_error + string" where
  "a2b_base64 quad_pos leftchar pads [] acc =
     (if quad_pos = 0 then Inr (rev acc)
      else if quad_pos = 1 then Inl Excess_data
      else Inl Incorrect_padding)"
| "a2b_base64 quad_pos leftchar pads (c # cs) acc =
     (if c = CHR ''=''
      then (if 2 \<le> quad_pos
            then (if 4 \<le> quad_pos + Suc pads then Inr (rev acc)
                  else a2b_base64 quad_pos leftchar (Suc pads) cs acc)
            else a2b_base64 quad_pos leftchar pads cs acc)
      else (case b64_val c of
              None \<Rightarrow> a2b_base64 quad_pos leftchar pads cs acc
            | Some v \<Rightarrow>
                (if quad_pos = 0 then a2b_base64 1 v 0 cs acc
                 else if quad_pos = 1 then a2b_base64 2 (v mod 16) 0 cs (char_of (leftchar * 4 + v div 16) # acc)
                 else if quad_pos = 2 then a2b_base64 3 (v mod 4) 0 cs (char_of (leftchar * 16 + v div 4) # acc)
                 else a2b_base64 0 0 0 cs (char_of (leftchar * 64 + v) # acc))))"

definition b64decode :: "string \<Rightarrow> b64_error + string" where
  "b64decode s =
     (if list_all (\<lambda>c. (of_char c :: nat) < 128) s then a2b_base64 0 0 0 s [] else Inl Non_ascii)"

section \<open>The encoder\<close>

definition b64_char :: "nat \<Rightarrow> char" where
  "b64_char v =
     (if v < 26 then char_of (65 + v) else if v < 52 then char_of (71 + v)
      else if v < 62 then char_of (v - 4) else if v = 62 then CHR ''+'' else CHR ''/'')"

fun b64encode :: "string \<Rightarrow> string" where
  "b64encode (a # b # c # rest) =
     (let x = (of_char a :: nat); y = (of_char b :: nat); z = (of_char c :: nat)
      in [b64_char (x div 4), b64_char (x mod 4 * 16 + y div 16),
          b64_char (y mod 16 * 4 + z div 64), b64_char (z mod 64)] @ b64encode rest)"
| "b64encode [a, b] =
     (let x = (of_char a :: nat); y = (of_char b :: nat)
      in [b64_char (x div 4), b64_char (x mod 4 * 16 + y div 16), b64_char (y mod 16 * 4), CHR ''=''])"
| "b64encode [a] =
     (let x = (of_char a :: nat) in [b64_char (x div 4), b64_char (x mod 4 * 16), CHR ''='', CHR ''=''])"
| "b64encode [] = []"

section \<open>Lemmas\<close>

lemma b64_val_char [simp]: "v < 64 \<Longrightarrow> b64_val (b64_char v) = Some v"
  by (auto simp: b64_val_def b64_char_def Let_def)

lemma b64_char_not_pad [simp]: "v < 64 \<Longrightarrow> b64_char v \<noteq> CHR ''=''"
  using b64_val_char [of v] by (auto simp: b64_val_def)

lemma b64_char_ascii [simp]: "v < 64 \<Longrightarrow> (of_char (b64_char v) :: nat) < 128"
  by (auto simp: b64_char_def)

lemma b64_digits:
  fixes x y z :: nat
  assumes "x < 256" "y < 256" "z < 256"
  shows "x div 4 < 64" "x mod 4 * 16 + y div 16 < 64" "y mod 16 * 4 + z div 64 < 64"
    "z mod 64 < 64" "y mod 16 * 4 < 64" "x mod 4 * 16 < 64"
    "x div 4 * 4 + (x mod 4 * 16 + y div 16) div 16 = x"
    "(x mod 4 * 16 + y div 16) mod 16 * 16 + (y mod 16 * 4 + z div 64) div 4 = y"
    "(y mod 16 * 4 + z div 64) mod 4 * 64 + z mod 64 = z"
    "x div 4 * 4 + (x mod 4 * 16) div 16 = x" "y div 16 mod 16 * 16 + y mod 16 = y"
  using assms by auto

lemma a2b_b64encode: "a2b_base64 0 l p (b64encode bs) acc = Inr (rev acc @ bs)"
proof (induction bs arbitrary: l p acc rule: b64encode.induct)
  case (1 a b c rest)
  then show ?case
    using b64_digits [of "of_char a" "of_char b" "of_char c"]
    by (simp add: Let_def)
next
  case (2 a b)
  then show ?case
    using b64_digits [of "of_char a" "of_char b" 0]
    by (simp add: Let_def)
next
  case (3 a)
  then show ?case
    using b64_digits [of "of_char a" 0 0]
    by (simp add: Let_def)
qed simp

lemma b64encode_ascii: "list_all (\<lambda>c. (of_char c :: nat) < 128) (b64encode bs)"
proof (induction bs rule: b64encode.induct)
  case (1 a b c rest)
  then show ?case using b64_digits [of "of_char a" "of_char b" "of_char c"] by (simp add: Let_def)
next
  case (2 a b)
  then show ?case using b64_digits [of "of_char a" "of_char b" 0] by (simp add: Let_def)
next
  case (3 a)
  then show ?case using b64_digits [of "of_char a" 0 0] by (simp add: Let_def)
qed simp

lemma b64_char_not_comma [simp]: "v < 64 \<Longrightarrow> CHR '','' \<noteq> b64_char v"
proof
  assume "v < 64" "CHR '','' = b64_char v"
  then have "b64_val CHR '','' = Some v" using b64_val_char [of v] by simp
  then show False by (simp add: b64_val_def)
qed

lemma comma_notin_b64encode: "CHR '','' \<notin> set (b64encode bs)"
proof (induction bs rule: b64encode.induct)
  case (1 a b c rest)
  then show ?case using b64_digits [of "of_char a" "of_char b" "of_char c"] by (simp add: Let_def)
next
  case (2 a b)
  then show ?case using b64_digits [of "of_char a" "of_char b" 0] by (simp add: Let_def)
next
  case (3 a)
  then show ?case using b64_digits [of "of_char a" 0 0] by (simp add: Let_def)
qed simp

section \<open>Properties of the decoder\<close>

text \<open>C20. Round trip: \<open>b64decode\<close> recovers every byte string from its
  standard base64 encoding, padding included.\<close>

theorem b64decode_b64encode: "b64decode (b64encode bs) = Inr bs"
  using a2b_b64encode [of 0 0 bs "[]"] b64encode_ascii [of bs] by (simp add: b64decode_def)

end
