(* ===== verification/Paths.thy ===== *)
theory Paths
  imports Prelude
begin

text \<open>
  The path operations the sources call, as CPython's \<open>posixpath\<close> defines
  them on \<open>str\<close>: \<open>os.path.splitext\<close>, \<open>basename\<close>, \<open>dirname\<close>,
  \<open>join\<close> (and the \<open>/\<close> of \<open>pathlib.Path\<close> on the relative names the
  sources append), and the file system as a store from path strings to nodes,
  with the effects the sources have on it: \<open>open(p, 'w').write\<close>,
  \<open>mkdir\<close>, \<open>exists\<close>. A path is a string of UTF-8 bytes; \<open>/\<close> and
  \<open>.\<close> are ASCII, so byte positions give the same results as code points.
\<close>

section \<open>str.rfind\<close>

text \<open>\<open>s.rfind(c)\<close>: the index of the last \<open>c\<close>, or \<open>-1\<close>.\<close>

definition rfind :: "char \<Rightarrow> string \<Rightarrow> int" where
  "rfind c s =
     (let k = length (takeWhile (\<lambda>x. x \<noteq> c) (rev s))
      in if k = length s then -1 else int (length s - 1 - k))"

section \<open>posixpath\<close>

text \<open>\<open>genericpath._splitext(p, '/', None, '.')\<close>: the extension starts at the
  last dot of the last component, unless that component is only dots up to it
  (a leading dot does not start an extension).\<close>

definition splitext :: "string \<Rightarrow> string \<times> string" where
  "splitext p =
     (let sep_index = rfind CHR ''/'' p; dot_index = rfind CHR ''.'' p
      in if sep_index < dot_index
         then (let filename_index = nat (sep_index + 1); d = nat dot_index
               in if list_all (\<lambda>c. c = CHR ''.'') (drop filename_index (take d p)) then (p, [])
                  else (take d p, drop d p))
         else (p, []))"

definition basename :: "string \<Rightarrow> string" where
  "basename p = drop (nat (rfind CHR ''/'' p + 1)) p"

definition dirname :: "string \<Rightarrow> string" where
  "dirname p =
     (let head = take (nat (rfind CHR ''/'' p + 1)) p
      in if head \<noteq> [] \<and> head \<noteq> replicate (length head) CHR ''/''
         then rev (dropWhile (\<lambda>c. c = CHR ''/'') (rev head)) else head)"

text \<open>\<open>os.path.join(a, b)\<close> for two arguments.\<close>

definition path_join :: "string \<Rightarrow> string \<Rightarrow> string" where
  "path_join a b =
     (if b \<noteq> [] \<and> hd b = CHR ''/'' then b
      else if a = [] \<or> last a = CHR ''/'' then a @ b
      else a @ ''/'' @ b)"

section \<open>The file system\<close>

text \<open>A node is a directory, a file written from bytes, or an image written by
  PIL's \<open>Image.save\<close> (width, height, RGB colour), whose PNG bytes are not
  modelled.\<close>

datatype node = Dir | File string | Image nat nat "nat \<times> nat \<times> nat"

type_synonym fs = "string \<rightharpoonup> node"

text \<open>The exceptions of file operations: \<open>FileNotFoundError\<close>,
  \<open>IsADirectoryError\<close>, \<open>FileExistsError\<close>, \<open>NotADirectoryError\<close>, and the
  \<open>UnicodeDecodeError\<close> of reading a file as UTF-8 text (the first byte,
  the range of bytes that fail, and the reason).\<close>

datatype os_error =
    File_not_found string | Is_a_directory string | File_exists string | Not_a_directory string
  | Decode_error nat nat nat string

text \<open>\<open>open(p, 'w'/'wb')\<close> followed by \<open>write(content)\<close>: the parent directory
  must exist, and \<open>p\<close> must not be a directory.\<close>

definition write_node :: "string \<Rightarrow> node \<Rightarrow> fs \<Rightarrow> os_error + fs" where
  "write_node p n fs =
     (if fs (dirname p) \<noteq> Some Dir then Inl (File_not_found p)
      else if fs p = Some Dir then Inl (Is_a_directory p)
      else Inr (fs(p \<mapsto> n)))"

definition write_file :: "string \<Rightarrow> string \<Rightarrow> fs \<Rightarrow> os_error + fs" where
  "write_file p content fs = write_node p (File content) fs"

text \<open>CPython's strict UTF-8 decoder: for a lead byte, the number of
  continuation bytes it needs and the range of the first one (which excludes
  overlong forms, surrogates and code points above U+10FFFF).\<close>

definition utf8_lead :: "nat \<Rightarrow> (nat \<times> nat \<times> nat) option" where
  "utf8_lead b =
     (if 0xC2 \<le> b \<and> b \<le> 0xDF then Some (1, 0x80, 0xBF)
      else if b = 0xE0 then Some (2, 0xA0, 0xBF)
      else if (0xE1 \<le> b \<and> b \<le> 0xEC) \<or> b = 0xEE \<or> b = 0xEF then Some (2, 0x80, 0xBF)
      else if b = 0xED then Some (2, 0x80, 0x9F)
      else if b = 0xF0 then Some (3, 0x90, 0xBF)
      else if 0xF1 \<le> b \<and> b \<le> 0xF3 then Some (3, 0x80, 0xBF)
      else if b = 0xF4 then Some (3, 0x80, 0x8F)
      else None)"

text \<open>How many of the \<open>n\<close> continuation bytes needed are there, the first in
  \<open>lo..hi\<close> and the others in \<open>0x80..0xBF\<close>.\<close>

fun cont_prefix :: "nat \<Rightarrow> nat \<Rightarrow> nat \<Rightarrow> string \<Rightarrow> nat" where
  "cont_prefix 0 lo hi cs = 0"
| "cont_prefix (Suc n) lo hi [] = 0"
| "cont_prefix (Suc n) lo hi (c # cs) =
     (if lo \<le> of_char c \<and> of_char c \<le> hi then Suc (cont_prefix n 0x80 0xBF cs) else 0)"

text \<open>The first decoding error of a byte string, at byte position \<open>pos\<close>:
  CPython reports the lead byte and the maximal valid prefix of the
  sequence it starts.\<close>

function utf8_check :: "nat \<Rightarrow> string \<Rightarrow> os_error option" where
  "utf8_check pos [] = None"
| "utf8_check pos (c # cs) =
     (let b = of_char c
      in if b < 128 then utf8_check (Suc pos) cs
         else case utf8_lead b of
                None \<Rightarrow> Some (Decode_error b pos (Suc pos) ''invalid start byte'')
              | Some (n, lo, hi) \<Rightarrow>
                  (let k = cont_prefix n lo hi cs
                   in if k = n then utf8_check (pos + Suc n) (drop n cs)
                      else Some (Decode_error b pos (pos + Suc k)
                                   (if k = length cs then ''unexpected end of data''
                                    else ''invalid continuation byte''))))"
  by pat_completeness auto
termination
  by (relation "measure (\<lambda>(pos, cs). length cs)") auto

text \<open>Universal newlines of text mode: CR LF and a lone CR read as LF.\<close>

fun univ_nl :: "string \<Rightarrow> string" where
  "univ_nl [] = []"
| "univ_nl [c] = [if c = CHR 0x0D then CHR ''\<newline>'' else c]"
| "univ_nl (c # d # cs) =
     (if c = CHR 0x0D \<and> d = CHR ''\<newline>'' then CHR ''\<newline>'' # univ_nl cs
      else (if c = CHR 0x0D then CHR ''\<newline>'' else c) # univ_nl (d # cs))"

text \<open>\<open>open(p, 'r', encoding='utf-8').read()\<close>: the whole file is decoded at
  once. An image written by PIL is a PNG file, whose first byte 0x89 is not a
  UTF-8 lead byte.\<close>

definition read_file :: "string \<Rightarrow> fs \<Rightarrow> os_error + string" where
  "read_file p fs =
     (case fs p of
        None \<Rightarrow> Inl (File_not_found p)
      | Some Dir \<Rightarrow> Inl (Is_a_directory p)
      | Some (Image _ _ _) \<Rightarrow> Inl (Decode_error 0x89 0 1 ''invalid start byte'')
      | Some (File content) \<Rightarrow>
          (case utf8_check 0 content of Some e \<Rightarrow> Inl e | None \<Rightarrow> Inr (univ_nl content)))"

text \<open>\<open>Path(p).mkdir(exist_ok=True)\<close>: the parent must exist.\<close>

definition mkdir :: "string \<Rightarrow> fs \<Rightarrow> os_error + fs" where
  "mkdir p fs =
     (case fs p of
        Some n \<Rightarrow> if n = Dir then Inr fs else Inl (File_exists p)
      | None \<Rightarrow> if fs (dirname p) = Some Dir then Inr (fs(p \<mapsto> Dir)) else Inl (File_not_found p))"

text \<open>\<open>Path(p).mkdir(parents=True, exist_ok=True)\<close>: on a missing parent,
  the parent is made first (pathlib's \<open>except FileNotFoundError\<close> branch);
  a path that is its own parent cannot be made.\<close>

lemma length_dirname_le: "length (dirname p) \<le> length p"
proof -
  let ?h = "take (nat (rfind CHR ''/'' p + 1)) p"
  have "length (dropWhile (\<lambda>c. c = CHR ''/'') (rev ?h)) \<le> length (rev ?h)"
    by (rule length_dropWhile_le)
  moreover have "length ?h \<le> length p" by simp
  ultimately show ?thesis
    unfolding dirname_def Let_def by (simp only: length_rev split: if_split) (blast intro: le_trans)
qed

lemma dropWhile_same_length: "length (dropWhile P xs) = length xs \<Longrightarrow> dropWhile P xs = xs"
proof (induction xs)
  case (Cons x xs)
  then show ?case using length_dropWhile_le [of P xs] by (auto split: if_splits)
qed simp

lemma dirname_shorter: "dirname p \<noteq> p \<Longrightarrow> length (dirname p) < length p"
proof -
  assume ne: "dirname p \<noteq> p"
  let ?h = "take (nat (rfind CHR ''/'' p + 1)) p"
  let ?d = "rev (dropWhile (\<lambda>c. c = CHR ''/'') (rev ?h))"
  have dh: "length ?d \<le> length ?h"
    using length_dropWhile_le [of _ "rev ?h"] by simp
  have hp: "length ?h \<le> length p" by simp
  show ?thesis
  proof (cases "?h \<noteq> [] \<and> ?h \<noteq> replicate (length ?h) CHR ''/''")
    case True
    then have d: "dirname p = ?d" by (simp add: dirname_def Let_def)
    show ?thesis
    proof (rule ccontr)
      assume "\<not> length (dirname p) < length p"
      then have "length p \<le> length ?d" by (simp only: d not_less)
      then have "length ?d = length p" "length ?h = length p" using dh hp by linarith+
      then have hp': "?h = p" and l: "length (dropWhile (\<lambda>c. c = CHR ''/'') (rev ?h)) = length (rev ?h)"
        by simp_all
      from l have "dropWhile (\<lambda>c. c = CHR ''/'') (rev ?h) = rev ?h"
        by (rule dropWhile_same_length)
      then have "?d = p" using hp' by simp
      with d ne show False by simp
    qed
  next
    case False
    then have d: "dirname p = ?h" by (auto simp: dirname_def Let_def)
    have "\<not> length p \<le> nat (rfind CHR ''/'' p + 1)"
    proof
      assume "length p \<le> nat (rfind CHR ''/'' p + 1)"
      then have "?h = p" by (rule take_all)
      with d ne show False by simp
    qed
    with d show ?thesis by simp
  qed
qed

function mkdir_p :: "string \<Rightarrow> fs \<Rightarrow> os_error + fs" where
  "mkdir_p p fs =
     (case fs p of
        Some Dir \<Rightarrow> Inr fs
      | Some _ \<Rightarrow> Inl (File_exists p)
      | None \<Rightarrow>
          if fs (dirname p) = Some Dir then Inr (fs(p \<mapsto> Dir))
          else if dirname p = p then Inl (File_not_found p)
          else (case mkdir_p (dirname p) fs of
                  Inl e \<Rightarrow> Inl e
                | Inr fs' \<Rightarrow> mkdir p fs'))"
  by pat_completeness auto
termination
  by (relation "measure (\<lambda>(p, fs). length p)") (simp_all add: dirname_shorter)

section \<open>Lemmas on paths\<close>

lemma rfind_absent: "c \<notin> set s \<Longrightarrow> rfind c s = -1"
proof -
  assume "c \<notin> set s"
  then have t: "takeWhile (\<lambda>x. x \<noteq> c) (rev s) = rev s" by (auto simp: takeWhile_eq_all_conv)
  show ?thesis unfolding rfind_def Let_def t by simp
qed

lemma rfind_last: "c \<notin> set ys \<Longrightarrow> rfind c (xs @ c # ys) = int (length xs)"
proof -
  assume c: "c \<notin> set ys"
  then have t: "takeWhile (\<lambda>x. x \<noteq> c) (rev ys @ c # rev xs) = rev ys"
    by (subst takeWhile_append2) auto
  show ?thesis unfolding rfind_def Let_def rev_append rev.simps append_assoc append_Cons append_Nil t
    by simp
qed

lemma rfind_last_Suc: "c \<notin> set ys \<Longrightarrow> nat (rfind c (xs @ c # ys) + 1) = Suc (length xs)"
  by (simp add: rfind_last)

lemma basename_no_slash: "CHR ''/'' \<notin> set b \<Longrightarrow> basename b = b"
  by (simp add: basename_def rfind_absent)

lemma basename_after_slash: "CHR ''/'' \<notin> set b \<Longrightarrow> basename (d @ CHR ''/'' # b) = b"
  by (simp add: basename_def rfind_last_Suc)

lemma basename_slash_free: "CHR ''/'' \<notin> set (basename p)"
proof (cases "CHR ''/'' \<in> set p")
  case True
  then obtain xs ys where "p = xs @ CHR ''/'' # ys" "CHR ''/'' \<notin> set ys"
    using split_list_last by metis
  then show ?thesis by (simp add: basename_def rfind_last_Suc)
next
  case False
  then show ?thesis by (simp add: basename_no_slash)
qed

lemma dirname_after_slash:
  assumes "CHR ''/'' \<notin> set b" and "d \<noteq> []" and "last d \<noteq> CHR ''/''"
  shows "dirname (d @ CHR ''/'' # b) = d"
proof -
  have h: "take (nat (rfind CHR ''/'' (d @ CHR ''/'' # b) + 1)) (d @ CHR ''/'' # b) = d @ [CHR ''/'']"
    using assms(1) by (simp add: rfind_last_Suc)
  obtain d' x where d: "d = d' @ [x]" using assms(2) by (cases d rule: rev_exhaust) auto
  with assms(3) have x: "x \<noteq> CHR ''/''" by simp
  have nrep: "d @ [CHR ''/''] \<noteq> replicate (length (d @ [CHR ''/''])) CHR ''/''"
  proof
    assume "d @ [CHR ''/''] = replicate (length (d @ [CHR ''/''])) CHR ''/''"
    then have "x \<in> set (replicate (length (d @ [CHR ''/''])) CHR ''/'')" by (metis d in_set_conv_decomp append_assoc append_Cons)
    with x show False by simp
  qed
  have "rev (dropWhile (\<lambda>c. c = CHR ''/'') (rev (d @ [CHR ''/'']))) = d"
    using d x by simp
  with h nrep show ?thesis by (simp add: dirname_def Let_def)
qed

lemma path_join_basename:
  "CHR ''/'' \<notin> set b \<Longrightarrow> basename (path_join d b) = b"
proof -
  assume b: "CHR ''/'' \<notin> set b"
  show ?thesis
  proof (cases "d = [] \<or> last d = CHR ''/''")
    case True
    then show ?thesis
    proof
      assume "d = []" with b show ?thesis
        by (cases b) (auto simp: path_join_def basename_no_slash)
    next
      assume l: "last d = CHR ''/''"
      show ?thesis
      proof (cases "d = []")
        case True
        with b show ?thesis by (cases b) (auto simp: path_join_def basename_no_slash)
      next
        case False
        with l obtain d' where d: "d = d' @ [CHR ''/'']" by (metis append_butlast_last_id)
        with b show ?thesis by (cases b) (auto simp: path_join_def basename_after_slash)
      qed
    qed
  next
    case False
    with b show ?thesis
      by (cases b) (auto simp: path_join_def basename_after_slash basename_no_slash)
  qed
qed

lemma splitext_append: "fst (splitext p) @ snd (splitext p) = p"
  by (simp add: splitext_def Let_def)

lemma splitext_ext:
  assumes "CHR ''.'' \<notin> set ext" and "CHR ''/'' \<notin> set ext"
      and "\<exists>c \<in> set (basename stem). c \<noteq> CHR ''.''"
  shows "splitext (stem @ CHR ''.'' # ext) = (stem, CHR ''.'' # ext)"
proof -
  let ?p = "stem @ CHR ''.'' # ext"
  have dot: "rfind CHR ''.'' ?p = int (length stem)" using assms(1) by (rule rfind_last)
  have sep: "rfind CHR ''/'' ?p = rfind CHR ''/'' stem"
  proof (cases "CHR ''/'' \<in> set stem")
    case True
    then obtain a b where st: "stem = a @ CHR ''/'' # b" and b: "CHR ''/'' \<notin> set b"
      by (metis split_list_last)
    then have "?p = a @ CHR ''/'' # (b @ CHR ''.'' # ext)" by simp
    moreover have "CHR ''/'' \<notin> set (b @ CHR ''.'' # ext)" using b assms(2) by simp
    ultimately show ?thesis using st b by (simp add: rfind_last)
  next
    case False
    with assms(2) show ?thesis by (simp add: rfind_absent)
  qed
  have "length (takeWhile (\<lambda>x. x \<noteq> CHR ''/'') (rev stem)) \<le> length stem"
    using length_takeWhile_le [of _ "rev stem"] by simp
  then have lt: "rfind CHR ''/'' stem < int (length stem)"
    by (simp add: rfind_def Let_def)
  have bn: "drop (nat (rfind CHR ''/'' stem + 1)) stem = basename stem"
    by (simp add: basename_def)
  show ?thesis
    using assms(3) dot sep lt
    by (simp add: splitext_def Let_def bn list_all_iff)
qed


lemma dirname_child:
  "d \<noteq> [] \<Longrightarrow> last d \<noteq> CHR ''/'' \<Longrightarrow> CHR ''/'' \<notin> set b \<Longrightarrow> dirname (d @ ''/'' @ b) = d"
  using dirname_after_slash [of b d] by simp

lemma mkdir_p_new: "fs p = None \<Longrightarrow> fs (dirname p) = Some Dir \<Longrightarrow> mkdir_p p fs = Inr (fs(p \<mapsto> Dir))"
  by (subst mkdir_p.simps) simp

lemma mkdir_p_new2:
  "fs p = None \<Longrightarrow> fs (dirname p) = None \<Longrightarrow> dirname p \<noteq> p \<Longrightarrow> fs (dirname (dirname p)) = Some Dir \<Longrightarrow>
   mkdir_p p fs = Inr (fs(dirname p \<mapsto> Dir, p \<mapsto> Dir))"
  by (subst mkdir_p.simps) (simp add: mkdir_p_new mkdir_def)

lemma univ_nl_no_cr: "CHR 0x0D \<notin> set s \<Longrightarrow> univ_nl s = s"
  by (induction s rule: univ_nl.induct) auto

end
