(* ===== verification/ImageGenerator.thy ===== *)
theory ImageGenerator
  imports Base64 Paths PyFloat
begin

text \<open>
  \<open>ImageGenerator\<close> (src/src/image_generator.py). Its state is the API URL
  and the output directory \<open>images_dir root\<close>, where \<open>root\<close> is
  \<open>Path(__file__).parent.parent\<close>; the constructor makes that directory.
  The Stable Diffusion server behind the HTTP session is the function
  \<open>sd\<close> from a request to its outcome (an exception, or a status, a text and
  the part of \<open>response.json()\<close> read, \<open>result.get("images")\<close>, a decoding
  failure being \<open>Inl\<close>). \<open>datetime.now().strftime(...)\<close> is read at most
  twice per call, at lines 72 and 105; the two strings are parameters. Every
  effect on the disk goes through the file-system store of theory
  \<open>Paths\<close>, so files written before an exception stay written. Logging is
  not modelled.
\<close>

section \<open>Requests\<close>

record sd_payload =
  sd_prompt :: string
  sd_negative_prompt :: string
  sd_width :: int
  sd_height :: int
  sd_steps :: int
  sd_cfg_scale :: double
  sd_sampler_index :: string
  sd_batch_size :: int
  sd_n_iter :: int
  sd_seed :: int

datatype sd_request = Get_sd_models string | Post_txt2img string sd_payload

datatype sd_result = Sd_raised string | Sd_response nat string "string + string list option"

text \<open>The keyword arguments of \<open>generate\<close>, with their defaults (line 31--33).\<close>

record sd_options =
  opt_model :: string
  opt_width :: int
  opt_height :: int
  opt_num_images :: int
  opt_steps :: int
  opt_cfg_scale :: double
  opt_sampler :: string

definition default_sd_options :: sd_options where
  "default_sd_options =
     \<lparr>opt_model = ''stable-diffusion'', opt_width = 512, opt_height = 512, opt_num_images = 1,
      opt_steps = 30, opt_cfg_scale = fl_div 15 2, opt_sampler = ''Euler a''\<rparr>"

section \<open>The generator\<close>

record image_generator =
  ig_api_url :: string
  ig_output_dir :: string

definition images_dir :: "string \<Rightarrow> string" where
  "images_dir root = root @ ''/output/images''"

text \<open>Lines 14--21.\<close>

definition image_generator_init :: "string \<Rightarrow> string \<Rightarrow> fs \<Rightarrow> os_error + (image_generator \<times> fs)" where
  "image_generator_init api_url root fs =
     (case mkdir_p (images_dir root) fs of
        Inl e \<Rightarrow> Inl e
      | Inr fs' \<Rightarrow> Inr (\<lparr>ig_api_url = api_url, ig_output_dir = images_dir root\<rparr>, fs'))"

text \<open>Lines 23--29.\<close>

definition sd_check_connection :: "(sd_request \<Rightarrow> sd_result) \<Rightarrow> image_generator \<Rightarrow> bool" where
  "sd_check_connection sd g =
     (case sd (Get_sd_models (ig_api_url g @ ''/sdapi/v1/sd-models'')) of
        Sd_raised _ \<Rightarrow> False
      | Sd_response code _ _ \<Rightarrow> code = 200)"

text \<open>Lines 37--42: built, and never read.\<close>

definition model_map :: "(string \<times> string) list" where
  "model_map =
     [(''stable-diffusion'', []), (''midjourney-style'', ''midjourney''),
      (''anime-diffusion'', ''anything-v4''), (''realistic-vision'', ''realistic-vision'')]"

text \<open>Lines 45--56.\<close>

definition txt2img_payload :: "string \<Rightarrow> sd_options \<Rightarrow> sd_payload" where
  "txt2img_payload prompt opts =
     \<lparr>sd_prompt = prompt, sd_negative_prompt = ''blurry, low quality, distorted, ugly, deformed'',
      sd_width = opt_width opts, sd_height = opt_height opts, sd_steps = opt_steps opts,
      sd_cfg_scale = opt_cfg_scale opts, sd_sampler_index = opt_sampler opts,
      sd_batch_size = opt_num_images opts, sd_n_iter = 1, sd_seed = -1\<rparr>"

text \<open>Line 76: the string handed to \<open>b64decode\<close>, the part before the first
  comma when there is one.\<close>

definition image_data :: "string \<Rightarrow> string" where
  "image_data img = (if CHR '','' \<in> set img then takeWhile (\<lambda>c. c \<noteq> CHR '','') img else img)"

text \<open>\<open>str(self.output_dir / f"{prefix}{timestamp}_{i}.png")\<close>.\<close>

definition image_path :: "string \<Rightarrow> string \<Rightarrow> string \<Rightarrow> nat \<Rightarrow> string" where
  "image_path dir prefix ts i = dir @ ''/'' @ prefix @ ts @ ''_'' @ nat_to_dec i @ ''.png''"

text \<open>The loop of lines 74--86; \<open>None\<close> is an exception raised in the loop
  (by \<open>b64decode\<close> or \<open>open\<close>), with the files written so far.\<close>

fun save_images :: "string \<Rightarrow> string \<Rightarrow> nat \<Rightarrow> string list \<Rightarrow> string list \<Rightarrow> fs \<Rightarrow> string list option \<times> fs" where
  "save_images dir ts i [] acc fs = (Some acc, fs)"
| "save_images dir ts i (img # imgs) acc fs =
     (case b64decode (image_data img) of
        Inl _ \<Rightarrow> (None, fs)
      | Inr img_bytes \<Rightarrow>
          (let filepath = image_path dir ''ai_image_'' ts (Suc i)
           in case write_file filepath img_bytes fs of
                Inl _ \<Rightarrow> (None, fs)
              | Inr fs' \<Rightarrow> save_images dir ts (Suc i) imgs (acc @ [filepath]) fs'))"

text \<open>The loop of lines 107--115: each placeholder is a 512x512 image of colour
  (73, 109, 137); an exception of \<open>img.save\<close> propagates.\<close>

fun placeholder_loop :: "string \<Rightarrow> string \<Rightarrow> nat \<Rightarrow> nat \<Rightarrow> string list \<Rightarrow> fs \<Rightarrow> (os_error + string list) \<times> fs" where
  "placeholder_loop dir ts i 0 acc fs = (Inr acc, fs)"
| "placeholder_loop dir ts i (Suc k) acc fs =
     (let filepath = image_path dir ''placeholder_'' ts (Suc i)
      in case write_node filepath (Image 512 512 (73, 109, 137)) fs of
           Inl e \<Rightarrow> (Inl e, fs)
         | Inr fs' \<Rightarrow> placeholder_loop dir ts (Suc i) k (acc @ [filepath]) fs')"

text \<open>Lines 102--118; \<open>range(num_images)\<close> is empty for \<open>num_images \<le> 0\<close>.\<close>

definition create_placeholder_images ::
  "image_generator \<Rightarrow> string \<Rightarrow> int \<Rightarrow> fs \<Rightarrow> (os_error + string list) \<times> fs" where
  "create_placeholder_images g ts num_images fs =
     placeholder_loop (ig_output_dir g) ts 0 (nat num_images) [] fs"

text \<open>Lines 31--100: every failure of the request, of the status, of the JSON
  and of the saving loop falls back to the placeholders.\<close>

definition generate ::
  "(sd_request \<Rightarrow> sd_result) \<Rightarrow> string \<Rightarrow> string \<Rightarrow> image_generator \<Rightarrow> string \<Rightarrow> sd_options \<Rightarrow>
   fs \<Rightarrow> (os_error + string list) \<times> fs" where
  "generate sd ts1 ts2 g prompt opts fs =
     (let fallback = create_placeholder_images g ts2 (opt_num_images opts)
      in case sd (Post_txt2img (ig_api_url g @ ''/sdapi/v1/txt2img'') (txt2img_payload prompt opts)) of
           Sd_raised _ \<Rightarrow> fallback fs
         | Sd_response code _ js \<Rightarrow>
             (if code \<noteq> 200 then fallback fs
              else (case js of
                      Inl _ \<Rightarrow> fallback fs
                    | Inr images \<Rightarrow>
                        (case save_images (ig_output_dir g) ts1 0 (py_get images []) [] fs of
                           (Some saved_paths, fs') \<Rightarrow> (Inr saved_paths, fs')
                         | (None, fs') \<Rightarrow> fallback fs'))))"

text \<open>The loop of lines 124--131: the result is keyed by \<open>prompt[:50]\<close>; the
  \<open>i\<close>-th call reads the clock as \<open>clock i\<close>.\<close>

fun batch_generate ::
  "(sd_request \<Rightarrow> sd_result) \<Rightarrow> (nat \<Rightarrow> string \<times> string) \<Rightarrow> image_generator \<Rightarrow> sd_options \<Rightarrow>
   nat \<Rightarrow> string list \<Rightarrow> (string \<times> string list) list \<Rightarrow> fs \<Rightarrow> (string \<times> string list) list \<times> fs" where
  "batch_generate sd clock g opts i [] results fs = (results, fs)"
| "batch_generate sd clock g opts i (prompt # prompts) results fs =
     (case generate sd (fst (clock i)) (snd (clock i)) g prompt opts fs of
        (Inr images, fs') \<Rightarrow> batch_generate sd clock g opts (Suc i) prompts (dict_set (cp_take 50 prompt) images results) fs'
      | (Inl _, fs') \<Rightarrow> batch_generate sd clock g opts (Suc i) prompts (dict_set (cp_take 50 prompt) [] results) fs')"

text \<open>Lines 120--133.\<close>

definition generate_batch ::
  "(sd_request \<Rightarrow> sd_result) \<Rightarrow> (nat \<Rightarrow> string \<times> string) \<Rightarrow> image_generator \<Rightarrow> string list \<Rightarrow>
   sd_options \<Rightarrow> fs \<Rightarrow> (string \<times> string list) list \<times> fs" where
  "generate_batch sd clock g prompts opts fs = batch_generate sd clock g opts 0 prompts [] fs"

text \<open>A directory path that \<open>dirname\<close> gives back for the files in it.\<close>

definition good_dir :: "string \<Rightarrow> bool" where
  "good_dir dir \<longleftrightarrow> dir \<noteq> [] \<and> last dir \<noteq> CHR ''/''"

section \<open>Lemmas on the generator\<close>

lemma image_path_slash:
  "image_path dir prefix ts i = dir @ CHR ''/'' # (prefix @ ts @ ''_'' @ nat_to_dec i @ ''.png'')"
  by (simp add: image_path_def)

lemma dirname_image_path:
  "good_dir dir \<Longrightarrow> CHR ''/'' \<notin> set prefix \<Longrightarrow> CHR ''/'' \<notin> set ts \<Longrightarrow>
   dirname (image_path dir prefix ts i) = dir"
  unfolding image_path_slash good_dir_def
  by (rule dirname_after_slash) (auto dest: nat_to_dec_digit digit_not_slash)

lemma image_path_inj: "image_path dir prefix ts i = image_path dir prefix ts j \<Longrightarrow> i = j"
proof -
  assume "image_path dir prefix ts i = image_path dir prefix ts j"
  then have "nat_to_dec i = nat_to_dec j" by (simp add: image_path_def)
  then show "i = j" by (metis dec_value_nat_to_dec)
qed

lemma image_path_not_dir: "image_path dir prefix ts i \<noteq> dir"
  by (simp add: image_path_def)

lemma placeholder_loop_ok:
  assumes "good_dir dir" and "CHR ''/'' \<notin> set ts" and "fs dir = Some Dir"
      and "\<forall>j. fs (image_path dir ''placeholder_'' ts j) \<noteq> Some Dir"
  shows "placeholder_loop dir ts i k acc fs =
           (Inr (acc @ map (image_path dir ''placeholder_'' ts) [Suc i..<Suc (i + k)]),
            fs(map (image_path dir ''placeholder_'' ts) [Suc i..<Suc (i + k)]
               [\<mapsto>] replicate k (Image 512 512 (73, 109, 137))))"
  using assms(3,4)
proof (induction k arbitrary: i acc fs)
  case (Suc k)
  let ?p = "image_path dir ''placeholder_'' ts (Suc i)"
  let ?fs = "fs(?p \<mapsto> Image 512 512 (73, 109, 137))"
  have w: "write_node ?p (Image 512 512 (73, 109, 137)) fs = Inr ?fs"
    using Suc.prems assms(1,2) by (simp add: write_node_def dirname_image_path)
  have "?fs dir = Some Dir" "\<forall>j. ?fs (image_path dir ''placeholder_'' ts j) \<noteq> Some Dir"
    using Suc.prems by (simp_all add: image_path_not_dir[symmetric])
  note ih = Suc.IH [where fs = ?fs and i = "Suc i" and acc = "acc @ [?p]", OF this]
  have up: "[Suc i..<Suc (Suc (i + k))] = Suc i # [Suc (Suc i)..<Suc (Suc (i + k))]"
    by (simp add: upt_rec)
  show ?case using w by (simp add: up Let_def ih del: upt_Suc) (simp add: fun_upd_def)
qed simp

lemma b64decode_encoded: "b64decode (b64encode bs) = Inr bs"
  using a2b_b64encode [of 0 0 bs "[]"] b64encode_ascii [of bs] by (simp add: b64decode_def)

lemma image_data_encoded: "image_data (b64encode bs) = b64encode bs"
  by (simp add: image_data_def comma_notin_b64encode)

lemma save_images_encoded:
  assumes "good_dir dir" and "CHR ''/'' \<notin> set ts" and "fs dir = Some Dir"
      and "\<forall>j. fs (image_path dir ''ai_image_'' ts j) \<noteq> Some Dir"
  shows "save_images dir ts i (map b64encode pngs) acc fs =
           (Some (acc @ map (image_path dir ''ai_image_'' ts) [Suc i..<Suc (i + length pngs)]),
            fs(map (image_path dir ''ai_image_'' ts) [Suc i..<Suc (i + length pngs)] [\<mapsto>] map File pngs))"
  using assms(3,4)
proof (induction pngs arbitrary: i acc fs)
  case (Cons png pngs)
  let ?p = "image_path dir ''ai_image_'' ts (Suc i)"
  let ?fs = "fs(?p \<mapsto> File png)"
  have w: "write_file ?p png fs = Inr ?fs"
    using Cons.prems assms(1,2) by (simp add: write_file_def write_node_def dirname_image_path)
  have "?fs dir = Some Dir" "\<forall>j. ?fs (image_path dir ''ai_image_'' ts j) \<noteq> Some Dir"
    using Cons.prems by (simp_all add: image_path_not_dir[symmetric])
  note ih = Cons.IH [where fs = ?fs and i = "Suc i" and acc = "acc @ [?p]", OF this]
  have up: "[Suc i..<Suc (Suc (i + length pngs))] = Suc i # [Suc (Suc i)..<Suc (Suc (i + length pngs))]"
    by (simp add: upt_rec)
  show ?case using w
    by (simp add: up Let_def ih b64decode_encoded image_data_encoded del: upt_Suc) (simp add: fun_upd_def)
qed simp

lemma distinct_image_paths: "distinct (map (image_path dir prefix ts) [a..<b])"
  by (simp add: distinct_map inj_on_def image_path_inj)

lemma keys_batch_generate:
  "distinct (map fst res) \<Longrightarrow>
   map fst (fst (batch_generate sd clock g opts i prompts res fs)) =
     rev (remdups (rev (map fst res @ map (cp_take 50) prompts)))"
proof (induction sd clock g opts i prompts res fs rule: batch_generate.induct)
  case (1 sd clock g opts i results fs)
  then show ?case by (simp add: distinct_remdups_id)
next
  case (2 sd clock g opts i prompt prompts results fs)
  show ?case
  proof (cases "generate sd (fst (clock i)) (snd (clock i)) g prompt opts fs")
    case (Pair r fs')
    then show ?thesis
      using 2 first_occ_append [of "map fst results @ [cp_take 50 prompt]"]
      by (cases r) (simp_all add: keys_dict_set_first_occ)
  qed
qed

section \<open>Properties of the generator\<close>

text \<open>C21. Line 76 keeps the part of the image string before the comma. For
  an image sent as a data URL (\<open>data:image/png;base64,<payload>\<close>), the
  string decoded is the header \<open>data:image/png;base64\<close>, which
  \<open>b64decode\<close> rejects (19 data characters: incorrect padding); the
  exception falls back to placeholders, so whatever the payload, the caller
  gets placeholder paths instead of the image.\<close>

theorem generate_data_url_placeholders:
  assumes "sd (Post_txt2img (ig_api_url g @ ''/sdapi/v1/txt2img'') (txt2img_payload prompt opts)) =
             Sd_response 200 t (Inr (Some ((''data:image/png;base64,'' @ payload) # imgs)))"
      and "good_dir (ig_output_dir g)" and "CHR ''/'' \<notin> set ts2" and "fs (ig_output_dir g) = Some Dir"
      and "\<forall>j. fs (image_path (ig_output_dir g) ''placeholder_'' ts2 j) \<noteq> Some Dir"
  shows "fst (generate sd ts1 ts2 g prompt opts fs) =
           Inr (map (image_path (ig_output_dir g) ''placeholder_'' ts2) [1..<Suc (nat (opt_num_images opts))])"
proof -
  have "image_data (''data:image/png;base64,'' @ payload) = ''data:image/png;base64''"
    by (simp add: image_data_def)
  moreover have "b64decode ''data:image/png;base64'' = Inl Incorrect_padding"
    by (simp add: b64decode_def b64_val_def py_simps)
  ultimately have "save_images (ig_output_dir g) ts1 0 ((''data:image/png;base64,'' @ payload) # imgs) [] fs = (None, fs)"
    by simp
  then show ?thesis
    using assms placeholder_loop_ok [OF assms(2-5), of 0 "nat (opt_num_images opts)" "[]"]
    by (simp add: generate_def create_placeholder_images_def)
qed

text \<open>C22. On a 200 response whose images are plain base64 strings, every
  image is decoded and written: the result lists \<open>ai_image_{ts}_{i}.png\<close>
  for \<open>i = 1..n\<close> in order, and the file at the \<open>i\<close>-th path holds
  exactly the \<open>i\<close>-th image's bytes.\<close>

theorem generate_saves_images:
  assumes "sd (Post_txt2img (ig_api_url g @ ''/sdapi/v1/txt2img'') (txt2img_payload prompt opts)) =
             Sd_response 200 t (Inr (Some (map b64encode pngs)))"
      and "good_dir (ig_output_dir g)" and "CHR ''/'' \<notin> set ts1" and "fs (ig_output_dir g) = Some Dir"
      and "\<forall>j. fs (image_path (ig_output_dir g) ''ai_image_'' ts1 j) \<noteq> Some Dir"
  shows "fst (generate sd ts1 ts2 g prompt opts fs) =
           Inr (map (image_path (ig_output_dir g) ''ai_image_'' ts1) [1..<Suc (length pngs)]) \<and>
         (\<forall>j < length pngs. snd (generate sd ts1 ts2 g prompt opts fs)
                              (image_path (ig_output_dir g) ''ai_image_'' ts1 (Suc j)) = Some (File (pngs ! j)))"
proof -
  let ?ps = "map (image_path (ig_output_dir g) ''ai_image_'' ts1) [1..<Suc (length pngs)]"
  have gen: "generate sd ts1 ts2 g prompt opts fs = (Inr ?ps, fs(?ps [\<mapsto>] map File pngs))"
    using assms save_images_encoded [OF assms(2-5), of 0 pngs "[]"]
    by (simp add: generate_def)
  have "(fs(?ps [\<mapsto>] map File pngs)) (?ps ! j) = Some (map File pngs ! j)" if "j < length pngs" for j
    using that by (intro map_upds_nth) (simp_all add: distinct_image_paths del: upt_Suc)
  then show ?thesis using gen by (simp del: upt_Suc)
qed

text \<open>C23. Every failure of the server (an exception of the request, a status
  other than 200, a body that is not the expected JSON) gives the placeholders:
  \<open>num_images\<close> images of 512x512 pixels, written as
  \<open>placeholder_{ts}_{i}.png\<close>; none is ever an error for the caller.\<close>

theorem generate_server_failure:
  assumes "sd (Post_txt2img (ig_api_url g @ ''/sdapi/v1/txt2img'') (txt2img_payload prompt opts)) = Sd_raised msg \<or>
           (sd (Post_txt2img (ig_api_url g @ ''/sdapi/v1/txt2img'') (txt2img_payload prompt opts)) =
              Sd_response code t js \<and> code \<noteq> 200) \<or>
           sd (Post_txt2img (ig_api_url g @ ''/sdapi/v1/txt2img'') (txt2img_payload prompt opts)) =
              Sd_response 200 t (Inl err)"
      and "good_dir (ig_output_dir g)" and "CHR ''/'' \<notin> set ts2" and "fs (ig_output_dir g) = Some Dir"
      and "\<forall>j. fs (image_path (ig_output_dir g) ''placeholder_'' ts2 j) \<noteq> Some Dir"
  shows "generate sd ts1 ts2 g prompt opts fs =
           (Inr (map (image_path (ig_output_dir g) ''placeholder_'' ts2) [1..<Suc (nat (opt_num_images opts))]),
            fs(map (image_path (ig_output_dir g) ''placeholder_'' ts2) [1..<Suc (nat (opt_num_images opts))]
               [\<mapsto>] replicate (nat (opt_num_images opts)) (Image 512 512 (73, 109, 137))))"
  using assms(1) placeholder_loop_ok [OF assms(2-5), of 0 "nat (opt_num_images opts)" "[]"]
  by (auto simp: generate_def create_placeholder_images_def)

text \<open>C24. \<open>generate_batch\<close> keys its result by \<open>prompt[:50]\<close> (the first
  50 code points): the keys are the distinct prefixes in order of first use, so
  two prompts that agree on their first 50 characters share one entry, the
  later prompt's images replacing the earlier one's.\<close>

theorem generate_batch_keys:
  "distinct (map fst (fst (generate_batch sd clock g prompts opts fs))) \<and>
   map fst (fst (generate_batch sd clock g prompts opts fs)) = rev (remdups (rev (map (cp_take 50) prompts)))"
  using keys_batch_generate [of "[]" sd clock g opts 0 prompts fs]
  by (simp add: generate_batch_def)

lemma example_dir:
  "good_dir ''/r/output/images''"
  "\<forall>j. ([''/r/output/images'' \<mapsto> Dir]) (image_path ''/r/output/images'' prefix ts j) \<noteq> Some Dir"
  by (simp_all add: good_dir_def image_path_not_dir)

theorem generate_data_url_placeholders_witness:
  "fst (generate (\<lambda>_. Sd_response 200 [] (Inr (Some [''data:image/png;base64,aGVsbG8=''])))
          ''T1'' ''T2'' \<lparr>ig_api_url = ''http://localhost:7860'', ig_output_dir = ''/r/output/images''\<rparr> ''a cat'' default_sd_options [''/r/output/images'' \<mapsto> Dir]) =
     Inr [''/r/output/images/placeholder_T2_1.png'']"
  using generate_data_url_placeholders
          [of "\<lambda>_. Sd_response 200 [] (Inr (Some [''data:image/png;base64,aGVsbG8='']))" "\<lparr>ig_api_url = ''http://localhost:7860'', ig_output_dir = ''/r/output/images''\<rparr>"
              "''a cat''" default_sd_options "[]" "''aGVsbG8=''" "[]" "''T2''" "[''/r/output/images'' \<mapsto> Dir]" "''T1''"]
        example_dir
  by (simp add: default_sd_options_def image_path_def py_simps)

theorem generate_saves_images_witness:
  "fst (generate (\<lambda>_. Sd_response 200 [] (Inr (Some [''aGVsbG8=''])))
          ''T1'' ''T2'' \<lparr>ig_api_url = ''http://localhost:7860'', ig_output_dir = ''/r/output/images''\<rparr> ''a cat'' default_sd_options [''/r/output/images'' \<mapsto> Dir]) =
     Inr [''/r/output/images/ai_image_T1_1.png''] \<and>
   snd (generate (\<lambda>_. Sd_response 200 [] (Inr (Some [''aGVsbG8=''])))
          ''T1'' ''T2'' \<lparr>ig_api_url = ''http://localhost:7860'', ig_output_dir = ''/r/output/images''\<rparr> ''a cat'' default_sd_options [''/r/output/images'' \<mapsto> Dir])
     ''/r/output/images/ai_image_T1_1.png'' = Some (File ''hello'')"
proof -
  have enc: "map b64encode [''hello''] = [''aGVsbG8='']"
    by (simp add: b64_char_def Let_def py_simps)
  have p1: "image_path ''/r/output/images'' ''ai_image_'' ''T1'' (Suc 0) = ''/r/output/images/ai_image_T1_1.png''"
    by (simp add: image_path_def py_simps)
  show ?thesis
    using generate_saves_images
            [of "\<lambda>_. Sd_response 200 [] (Inr (Some [''aGVsbG8='']))" "\<lparr>ig_api_url = ''http://localhost:7860'', ig_output_dir = ''/r/output/images''\<rparr>"
                "''a cat''" default_sd_options "[]" "[''hello'']" "''T1''" "[''/r/output/images'' \<mapsto> Dir]" "''T2''"]
          example_dir enc p1
    by simp
qed

theorem generate_server_failure_witness:
  "generate (\<lambda>_. Sd_raised ''Connection refused'') ''T1'' ''T2'' \<lparr>ig_api_url = ''http://localhost:7860'', ig_output_dir = ''/r/output/images''\<rparr> ''a cat'' default_sd_options [''/r/output/images'' \<mapsto> Dir] =
     (Inr [''/r/output/images/placeholder_T2_1.png''],
      [''/r/output/images'' \<mapsto> Dir](''/r/output/images/placeholder_T2_1.png'' \<mapsto> Image 512 512 (73, 109, 137)))"
proof -
  have p1: "image_path ''/r/output/images'' ''placeholder_'' ''T2'' (Suc 0) = ''/r/output/images/placeholder_T2_1.png''"
    by (simp add: image_path_def py_simps)
  show ?thesis
    using generate_server_failure
            [of "\<lambda>_. Sd_raised ''Connection refused''" "\<lparr>ig_api_url = ''http://localhost:7860'', ig_output_dir = ''/r/output/images''\<rparr>" "''a cat''" default_sd_options "''Connection refused''"
                _ _ _ _ "''T2''" "[''/r/output/images'' \<mapsto> Dir]" "''T1''"]
          example_dir p1
    by (simp add: default_sd_options_def)
qed

end
