(* ===== verification/VideoDownloader.thy ===== *)
theory VideoDownloader
  imports Paths
begin

text \<open>
  \<open>VideoDownloader\<close> (src/src/video_downloader.py). The downloader has no
  state besides its constant table \<open>platforms\<close>. yt-dlp is the function
  \<open>ydl\<close> from a request (the URL, whether to download, and the options
  dict built by the code) to its outcome: a failure with its message, or the
  info dict and the name \<open>prepare_filename\<close> gives; a download also reports
  the calls yt-dlp made to the logger and to the progress hooks, in order. A
  field of the info dict is absent, \<open>None\<close>, or a value, since
  \<open>info.get(k, d)\<close> returns \<open>d\<close> only for an absent key.
\<close>

section \<open>yt-dlp\<close>

datatype 'a field = Absent | Null | Val 'a

record ydl_info =
  yi_title :: "string field"
  yi_duration :: "int field"
  yi_formats :: "string option list field"
  yi_ext :: "string field"
  yi_thumbnail :: "string field"
  yi_description :: "string field"

datatype postprocessor =
    FFmpeg_video_convertor string
  | FFmpeg_extract_audio string string

record ydl_options =
  yo_outtmpl :: string
  yo_progress_hook :: bool
  yo_quiet :: bool
  yo_no_warnings :: bool
  yo_format :: string
  yo_merge_output_format :: string
  yo_writesubtitles :: bool
  yo_writeautomaticsub :: bool
  yo_subtitleslangs :: "string list"
  yo_postprocessors :: "postprocessor list"
  yo_logger :: bool

datatype ydl_request =
    Extract_info_only string
  | Extract_and_download string ydl_options

datatype log_level = Debug | Info | Warning | Error

text \<open>A call yt-dlp makes during a download: a message to the logger, or a
  progress-hook call with the status dict (its \<open>downloaded_bytes\<close> and
  \<open>total_bytes\<close>).\<close>

datatype ydl_call = Log log_level string | Hook nat nat

datatype ydl_outcome =
    Ydl_failed "ydl_call list" string
  | Ydl_done "ydl_call list" ydl_info string

section \<open>The downloader\<close>

text \<open>Lines 14--46: the domains with their extractor and format; the table is
  never read.\<close>

definition platforms :: "(string \<times> string \<times> (string \<times> string) list) list" where
  "platforms =
     [(''bilibili.com'', ''BiliBili'', [(''format'', ''bestvideo+bestaudio/best''), (''merge_output_format'', ''mp4'')]),
      (''v.qq.com'', ''Tencent'', [(''format'', ''best'')]),
      (''youku.com'', ''Youku'', [(''format'', ''best'')]),
      (''iqiyi.com'', ''Iqiyi'', [(''format'', ''best'')]),
      (''douyin.com'', ''TikTok'', [(''format'', ''best'')])]"

datatype dl_error = Ydl_error string | Type_error string | Key_error string

record video_info =
  vi_title :: "string option"
  vi_duration :: "int option"
  vi_formats :: "string list"
  vi_ext :: "string option"
  vi_thumbnail :: "string option"
  vi_description :: string

text \<open>\<open>info.get(k, d)\<close>; \<open>None\<close> is Python's \<open>None\<close>.\<close>

definition field_get :: "'a field \<Rightarrow> 'a \<Rightarrow> 'a option" where
  "field_get f d = (case f of Absent \<Rightarrow> Some d | Null \<Rightarrow> None | Val v \<Rightarrow> Some v)"

definition none_subscript :: string where
  "none_subscript = [CHR 0x27] @ ''NoneType'' @ [CHR 0x27] @ '' object is not subscriptable''"

text \<open>Line 63: \<open>[f['format'] for f in info.get('formats', [])[:5]]\<close>.\<close>

definition info_formats :: "string option list field \<Rightarrow> dl_error + string list" where
  "info_formats f =
     (case f of
        Null \<Rightarrow> Inl (Type_error none_subscript)
      | _ \<Rightarrow> (let fs = take 5 (case f of Val v \<Rightarrow> v | _ \<Rightarrow> [])
             in if None \<in> set fs then Inl (Key_error ''format'') else Inr (map the fs)))"

text \<open>Line 66: \<open>info.get('description', '')[:200]\<close>.\<close>

definition info_description :: "string field \<Rightarrow> dl_error + string" where
  "info_description f =
     (case f of Null \<Rightarrow> Inl (Type_error none_subscript) | Absent \<Rightarrow> Inr [] | Val d \<Rightarrow> Inr (cp_take 200 d))"

text \<open>Lines 48--70; every exception is logged and re-raised.\<close>

definition get_video_info :: "(ydl_request \<Rightarrow> ydl_outcome) \<Rightarrow> string \<Rightarrow> dl_error + video_info" where
  "get_video_info ydl url =
     (case ydl (Extract_info_only url) of
        Ydl_failed _ msg \<Rightarrow> Inl (Ydl_error msg)
      | Ydl_done _ info _ \<Rightarrow>
          (case info_formats (yi_formats info) of
             Inl e \<Rightarrow> Inl e
           | Inr formats \<Rightarrow>
               (case info_description (yi_description info) of
                  Inl e \<Rightarrow> Inl e
                | Inr description \<Rightarrow>
                    Inr \<lparr>vi_title = field_get (yi_title info) ''Unknown'',
                         vi_duration = field_get (yi_duration info) 0,
                         vi_formats = formats,
                         vi_ext = field_get (yi_ext info) ''Unknown'',
                         vi_thumbnail = field_get (yi_thumbnail info) [],
                         vi_description = description\<rparr>)))"

text \<open>Lines 124--138.\<close>

definition quality_map :: "(string \<times> string) list" where
  "quality_map =
     [(''best'', ''bestvideo+bestaudio/best''),
      (''1080p'', ''bestvideo[height<=1080]+bestaudio/best[height<=1080]''),
      (''720p'', ''bestvideo[height<=720]+bestaudio/best[height<=720]''),
      (''480p'', ''bestvideo[height<=480]+bestaudio/best[height<=480]''),
      (''360p'', ''bestvideo[height<=360]+bestaudio/best[height<=360]''),
      (''worst'', ''worstvideo+worstaudio/worst'')]"

definition get_format_selector :: "string \<Rightarrow> bool \<Rightarrow> string" where
  "get_format_selector quality audio_only =
     (if audio_only then ''bestaudio/best''
      else py_get (map_of quality_map quality) ''bestvideo+bestaudio/best'')"

text \<open>Lines 140--159: the message \<open>CustomLogger\<close> passes to the status callback
  for each level, if any.\<close>

definition custom_logger :: "bool \<Rightarrow> log_level \<Rightarrow> string \<Rightarrow> string option" where
  "custom_logger has_callback level msg =
     (if \<not> has_callback then None
      else case level of
             Debug \<Rightarrow> if py_contains ''Downloading'' msg then Some msg else None
           | Info \<Rightarrow> Some msg
           | Warning \<Rightarrow> Some (''Warning: '' @ msg)
           | Error \<Rightarrow> Some (''Error: '' @ msg))"

text \<open>Lines 81--104.\<close>

definition download_options ::
  "string \<Rightarrow> string \<Rightarrow> string \<Rightarrow> bool \<Rightarrow> bool \<Rightarrow> bool \<Rightarrow> bool \<Rightarrow> ydl_options" where
  "download_options output_path quality output_format subtitles audio_only has_progress has_status =
     \<lparr>yo_outtmpl = path_join output_path ''%(title)s.%(ext)s'',
      yo_progress_hook = has_progress,
      yo_quiet = False, yo_no_warnings = True,
      yo_format = get_format_selector quality audio_only,
      yo_merge_output_format = output_format,
      yo_writesubtitles = subtitles, yo_writeautomaticsub = subtitles,
      yo_subtitleslangs = (if subtitles then [''zh'', ''en'', ''vi''] else []),
      yo_postprocessors =
        (if \<not> audio_only then [FFmpeg_video_convertor output_format]
         else [FFmpeg_extract_audio ''mp3'' ''192'']),
      yo_logger = has_status\<rparr>"

text \<open>Lines 112--116.\<close>

definition output_file :: "bool \<Rightarrow> string \<Rightarrow> string" where
  "output_file audio_only filename =
     (if audio_only then fst (splitext filename) @ ''.mp3'' else filename)"

text \<open>Lines 72--122: the output file, and the calls made during the download;
  \<open>output_path = None\<close> is \<open>Path.home() / "Downloads"\<close>.\<close>

definition download ::
  "(ydl_request \<Rightarrow> ydl_outcome) \<Rightarrow> string \<Rightarrow> string \<Rightarrow> string \<Rightarrow> string \<Rightarrow> string option \<Rightarrow> bool \<Rightarrow> bool \<Rightarrow>
   bool \<Rightarrow> bool \<Rightarrow> ydl_call list \<times> (dl_error + string)" where
  "download ydl home url quality output_format output_path subtitles audio_only has_progress has_status =
     (let path = (case output_path of None \<Rightarrow> home @ ''/Downloads'' | Some p \<Rightarrow> p);
          opts = download_options path quality output_format subtitles audio_only has_progress has_status
      in case ydl (Extract_and_download url opts) of
           Ydl_failed calls msg \<Rightarrow> (calls, Inl (Ydl_error msg))
         | Ydl_done calls info filename \<Rightarrow> (calls, Inr (output_file audio_only filename)))"

section \<open>Properties of the downloader\<close>

text \<open>C25. An audio-only download returns the name yt-dlp prepared with its
  extension replaced by \<open>.mp3\<close>, the file \<open>FFmpegExtractAudio\<close> writes,
  when that name has an extension (the last component has a character other
  than a dot before the last dot).\<close>

theorem download_audio_mp3:
  assumes "ydl (Extract_and_download url
                 (download_options (case output_path of None \<Rightarrow> home @ ''/Downloads'' | Some p \<Rightarrow> p)
                   quality output_format subtitles True has_progress has_status)) =
             Ydl_done calls info (stem @ CHR ''.'' # ext)"
      and "CHR ''.'' \<notin> set ext" and "CHR ''/'' \<notin> set ext"
      and "\<exists>c \<in> set (basename stem). c \<noteq> CHR ''.''"
  shows "download ydl home url quality output_format output_path subtitles True has_progress has_status =
           (calls, Inr (stem @ ''.mp3''))"
  using assms(1) splitext_ext [OF assms(2-4)]
  by (simp add: download_def output_file_def)

text \<open>C26. Bounds of \<open>get_video_info\<close>: at most 5 formats, and a
  description of at most 200 code points.\<close>

theorem get_video_info_bounds:
  "get_video_info ydl url = Inr vi \<Longrightarrow>
   length (vi_formats vi) \<le> 5 \<and> length (filter (\<lambda>c. \<not> is_cont c) (vi_description vi)) \<le> 200"
  by (auto simp: get_video_info_def info_formats_def info_description_def cp_take_code_points Let_def
           split: ydl_outcome.splits sum.splits field.splits if_splits)

text \<open>C27. A description that is present but \<open>None\<close> is not defaulted:
  \<open>info.get('description', '')\<close> returns \<open>None\<close>, \<open>None[:200]\<close>
  raises \<open>TypeError\<close>, and \<open>get_video_info\<close> fails for that video.\<close>

theorem get_video_info_null_description:
  "ydl (Extract_info_only url) = Ydl_done calls info filename \<Longrightarrow> yi_formats info \<noteq> Null \<Longrightarrow>
   None \<notin> set (take 5 (case yi_formats info of Val v \<Rightarrow> v | _ \<Rightarrow> [])) \<Longrightarrow>
   yi_description info = Null \<Longrightarrow>
   get_video_info ydl url = Inl (Type_error none_subscript)"
  by (auto simp: get_video_info_def info_formats_def info_description_def Let_def split: field.splits)

theorem download_audio_mp3_witness:
  "download (\<lambda>_. Ydl_done [] \<lparr>yi_title = Val ''My clip'', yi_duration = Val 42, yi_formats = Absent, yi_ext = Val ''webm'', yi_thumbnail = Absent, yi_description = Absent\<rparr> ''/d/My clip.webm'') ''/home/u'' ''https://www.bilibili.com/video/x''
     ''best'' ''mp4'' None True True True True = ([], Inr ''/d/My clip.mp3'')"
proof -
  have b: "basename ''/d/My clip'' = ''My clip''" by (simp add: basename_def rfind_def)
  show ?thesis
    using download_audio_mp3 [of "\<lambda>_. Ydl_done [] \<lparr>yi_title = Val ''My clip'', yi_duration = Val 42, yi_formats = Absent, yi_ext = Val ''webm'', yi_thumbnail = Absent, yi_description = Absent\<rparr> ''/d/My clip.webm''" "''https://www.bilibili.com/video/x''"
                               "''/home/u''" None "''best''" "''mp4''" True True True "[]" "\<lparr>yi_title = Val ''My clip'', yi_duration = Val 42, yi_formats = Absent, yi_ext = Val ''webm'', yi_thumbnail = Absent, yi_description = Absent\<rparr>" "''/d/My clip''" "''webm''"]
          b
    by simp
qed

theorem get_video_info_bounds_witness:
  "get_video_info (\<lambda>_. Ydl_done [] \<lparr>yi_title = Val ''My clip'', yi_duration = Val 42, yi_formats = Absent, yi_ext = Val ''webm'', yi_thumbnail = Absent, yi_description = Absent\<rparr> ''x'') ''u'' =
     Inr \<lparr>vi_title = Some ''My clip'', vi_duration = Some 42, vi_formats = [], vi_ext = Some ''webm'',
          vi_thumbnail = Some [], vi_description = []\<rparr> \<and>
   length ([] :: string list) \<le> 5 \<and> length (filter (\<lambda>c. \<not> is_cont c) []) \<le> 200"
proof -
  have g: "get_video_info (\<lambda>_. Ydl_done [] \<lparr>yi_title = Val ''My clip'', yi_duration = Val 42, yi_formats = Absent, yi_ext = Val ''webm'', yi_thumbnail = Absent, yi_description = Absent\<rparr> ''x'') ''u'' =
     Inr \<lparr>vi_title = Some ''My clip'', vi_duration = Some 42, vi_formats = [], vi_ext = Some ''webm'',
          vi_thumbnail = Some [], vi_description = []\<rparr>"
    by (simp add: get_video_info_def info_formats_def info_description_def field_get_def)
  show ?thesis using get_video_info_bounds [OF g] g by simp
qed

theorem get_video_info_null_description_witness:
  "get_video_info (\<lambda>_. Ydl_done [] \<lparr>yi_title = Val ''My clip'', yi_duration = Val 42, yi_formats = Absent, yi_ext = Val ''webm'', yi_thumbnail = Absent, yi_description = Null\<rparr> ''x'') ''u'' = Inl (Type_error none_subscript)"
  using get_video_info_null_description [of "\<lambda>_. Ydl_done [] \<lparr>yi_title = Val ''My clip'', yi_duration = Val 42, yi_formats = Absent, yi_ext = Val ''webm'', yi_thumbnail = Absent, yi_description = Null\<rparr> ''x''" "''u''" "[]" "\<lparr>yi_title = Val ''My clip'', yi_duration = Val 42, yi_formats = Absent, yi_ext = Val ''webm'', yi_thumbnail = Absent, yi_description = Null\<rparr>" "''x''"]
  by simp

end
