(* ===== verification/Gui.thy ===== *)
theory Gui
  imports GuiTexts Orchestrator StoryEditor ImageGenerator VideoDownloader
begin

text \<open>
  The event handlers of \<open>MainApp\<close> (src/src/gui.py, lines 44--50 and
  800--1410), one definition per method and per worker closure; the
  window layout (lines 53--799) only builds widgets, and the first values it
  gives the entries are in the theory Startup. The application state is a record of what the handlers read and
  write: the text widgets, the entries and option menus (the record
  \<open>form\<close>), the progress bars and labels, the status bar, the message
  boxes shown, the canvas, the clipboard and the file system. Tk's main loop
  and the worker threads are explicit: \<open>threading.Thread(...).start()\<close> adds
  a job to \<open>threads\<close>, \<open>self.after(0, f)\<close> appends \<open>f\<close> to
  \<open>after_queue\<close>, and the relation \<open>gui_step\<close> lets the user act, a started
  thread run, or the main loop run the first queued callback, in any order;
  \<open>user_step\<close>, \<open>run_job\<close> and \<open>run_action\<close> dispatch an event, a
  thread and a callback to its definition.
  A worker runs its body as one step (it only reads what it captured and the
  services, and posts callbacks in order). Python's \<open>except E as e\<close> unbinds
  \<open>e\<close> when the clause ends; the closure cells of these variables are the
  store \<open>cells\<close>, so a callback that reads \<open>e\<close> later sees it unbound.
  An exception raised in a Tk callback is printed by Tk and recorded in
  \<open>tk_errors\<close>. The services are the record \<open>gui_env\<close>: the LM Studio
  server, \<open>pysrt\<close>'s parser, yt-dlp, the Stable Diffusion server, the
  directories, and the platform.
\<close>

section \<open>Python conversions the handlers use\<close>

text \<open>\<open>int(s)\<close>: surrounding whitespace, an optional sign, ASCII digits with
  single underscores between them.\<close>

fun digits_ok :: "string \<Rightarrow> bool" where
  "digits_ok [] = False"
| "digits_ok [c] = is_digit c"
| "digits_ok (c # d # cs) =
     (is_digit c \<and> (if d = CHR ''_'' then cs \<noteq> [] \<and> digits_ok cs else digits_ok (d # cs)))"

definition py_int :: "string \<Rightarrow> int option" where
  "py_int s =
     (let t = py_strip s;
          (sign, body) = (case t of CHR ''-'' # r \<Rightarrow> (-1 :: int, r) | CHR ''+'' # r \<Rightarrow> (1, r) | _ \<Rightarrow> (1, t))
      in if digits_ok body then Some (sign * int (dec_value (filter (\<lambda>c. c \<noteq> CHR ''_'') body))) else None)"

text \<open>\<open>float(s)\<close> on an unsigned decimal \<open>ddd\<close>, \<open>ddd.ddd\<close>, \<open>ddd.\<close> or
  \<open>.ddd\<close>, correctly rounded; signs, exponents, underscores, \<open>inf\<close> and
  \<open>nan\<close> are not covered (the double model has no sign) and give \<open>None\<close>.\<close>

definition py_float :: "string \<Rightarrow> double option" where
  "py_float s =
     (let t = py_strip s; ip = takeWhile is_digit t; r = dropWhile is_digit t
      in if r = [] then (if ip = [] then None else Some (fl_div (dec_value ip) 1))
         else if hd r = CHR ''.'' \<and> list_all is_digit (tl r) \<and> (ip \<noteq> [] \<or> tl r \<noteq> [])
         then Some (fl_div (dec_value (ip @ tl r)) (10 ^ length (tl r)))
         else None)"

text \<open>\<open>f"{x:.1f}"\<close> for a non-negative double: the exact value times ten,
  rounded half to even, with one decimal.\<close>

definition fmt_1f :: "double \<Rightarrow> string" where
  "fmt_1f d =
     (let (m, e) = d;
          n = (if 0 \<le> e then m * 2 ^ nat e * 10 else rdiv_even (m * 10) (2 ^ nat (- e)))
      in nat_to_dec (n div 10) @ ''.'' @ [digit_char (n mod 10)])"

text \<open>\<open>str(x)\<close> of an optional value, \<open>None\<close> printing as \<open>None\<close>.\<close>

definition str_opt :: "('a \<Rightarrow> string) \<Rightarrow> 'a option \<Rightarrow> string" where
  "str_opt f v = (case v of None \<Rightarrow> ''None'' | Some x \<Rightarrow> f x)"

section \<open>State\<close>

datatype text_widget =
    Story_w | Result_w | Orig_w | Trans_w | Download_status_w | Script_story_w | Script_output_w
  | Image_prompt_w

text \<open>The entries, option menus and check boxes, as the user left them.\<close>

record form =
  edit_type :: string
  length_var :: string
  srt_file_path :: string
  src_lang_combo :: string
  tgt_lang_combo :: string
  trans_style :: string
  batch_size_text :: string
  video_url :: string
  quality :: string
  format_var :: string
  download_path :: string
  subtitle_var :: bool
  audio_only_var :: bool
  image_style :: string
  num_scenes_text :: string
  detail_level :: string
  include_prompts :: bool
  image_model :: string
  image_size :: string
  num_images_text :: string
  steps_text :: string
  cfg_scale_text :: string
  sampler :: string

datatype dialog =
    Show_info string string
  | Show_warning string string
  | Show_error string string
  | Ask_yes_no string string bool

text \<open>The bodies of the threads started by the handlers, with what they
  captured.\<close>

datatype job =
    Check_job
  | Edit_job string string string
  | Translate_job string string string string int
  | Video_check_job string
  | Download_job string string string string bool bool
  | Script_job string int string string bool
  | Images_job string string string int int double string

text \<open>The callbacks handed to \<open>self.after(0, ...)\<close>.\<close>

datatype ui_action =
    Show_edit_result string
  | Worker_error string string nat
  | Translation_progress double string
  | Show_translation_result string string
  | Show_video_info string
  | Download_progress_raw nat nat
  | Download_status_insert string
  | Download_complete string
  | Show_generated_script string
  | Show_generated_images "string list"

record app =
  texts :: "text_widget \<Rightarrow> string"
  form :: form
  progress_bar :: double
  progress_label :: string
  download_progress :: double
  left_status :: string
  center_status :: "string \<times> string"
  current_tab :: string
  windows :: "string list"
  canvas :: "string option"
  clipboard :: string
  opened_folders :: "string list"
  dialogs :: "dialog list"
  after_queue :: "ui_action list"
  threads :: "job list"
  cells :: "nat \<Rightarrow> string option"
  next_cell :: nat
  tk_errors :: "string list"
  clock :: string
  files :: fs
  clients_ready :: bool

record gui_env =
  lm_http :: "request \<Rightarrow> http_result"
  lm_client :: lm_client
  srt_parse :: "string \<Rightarrow> sub_item list"
  ydl :: "ydl_request \<Rightarrow> ydl_outcome"
  sd :: "sd_request \<Rightarrow> sd_result"
  image_gen :: image_generator
  home_dir :: string
  app_dir :: string

datatype user_event =
    Show_tab nat | Open_settings | Open_status | Check_lm_connection
  | Type_text text_widget string | Edit_form form
  | Load_story_file "string option" | Clear_story_text | Process_story_edit
  | Save_edited_story "string option"
  | Select_srt_file "string option" | Translate_srt_file
  | Select_download_folder "string option" | Check_video_url | Clear_video_url | Download_video
  | Generate_image_script | Save_image_script "string option" | Copy_script_to_clipboard
  | Load_image_script "string option"
  | Generate_images | Generate_batch_images | Open_image_folder | Download_generated_image
  | Clear_generated_image

section \<open>Effects shared by the handlers\<close>

text \<open>\<open>MainApp.setup_clients\<close> (lines 45--50) hands \<open>LMStudioClient\<close> to
  \<open>SRTTranslator\<close>: the orchestrator's service is \<open>translate_text\<close>, its
  \<open>i\<close>-th call going through the HTTP layer \<open>http i\<close>.\<close>

definition lm_translate :: "(nat \<Rightarrow> request \<Rightarrow> http_result) \<Rightarrow> lm_client \<Rightarrow> ai_translate" where
  "lm_translate http c = (\<lambda>i text src_lang tgt_lang style. translate_text (http i) c text src_lang tgt_lang style)"

text \<open>Lines 1406--1409.\<close>

definition update_status :: "string \<Rightarrow> app \<Rightarrow> app" where
  "update_status message s = s\<lparr>left_status := ''['' @ clock s @ ''] '' @ message\<rparr>"

text \<open>\<open>widget.get(1.0, tk.END)\<close>: Tk adds a final newline.\<close>

definition text_get :: "app \<Rightarrow> text_widget \<Rightarrow> string" where
  "text_get s w = texts s w @ [nl]"

text \<open>\<open>widget.delete(1.0, tk.END)\<close> then \<open>widget.insert(1.0, v)\<close>.\<close>

definition set_text :: "text_widget \<Rightarrow> string \<Rightarrow> app \<Rightarrow> app" where
  "set_text w v s = s\<lparr>texts := (texts s)(w := v)\<rparr>"

definition show_dialog :: "dialog \<Rightarrow> app \<Rightarrow> app" where
  "show_dialog d s = s\<lparr>dialogs := dialogs s @ [d]\<rparr>"

definition post :: "ui_action \<Rightarrow> app \<Rightarrow> app" where
  "post a s = s\<lparr>after_queue := after_queue s @ [a]\<rparr>"

definition start_thread :: "job \<Rightarrow> app \<Rightarrow> app" where
  "start_thread j s = s\<lparr>threads := threads s @ [j]\<rparr>"

text \<open>The \<open>except Exception as e:\<close> clause of a worker: \<open>e\<close> is bound in a
  fresh cell, the callback \<open>lambda: messagebox.showerror(title, prefix +
  str(e))\<close> is posted, and the clause ends by unbinding \<open>e\<close>.\<close>

definition worker_except :: "string \<Rightarrow> string \<Rightarrow> string \<Rightarrow> app \<Rightarrow> app" where
  "worker_except title prefix msg s =
     (let c = next_cell s;
          s1 = s\<lparr>cells := (cells s)(c := Some msg), next_cell := Suc c\<rparr>;
          s2 = post (Worker_error title prefix c) s1
      in s2\<lparr>cells := (cells s2)(c := None)\<rparr>)"

text \<open>\<open>str(e)\<close> of the exceptions met.\<close>


definition os_error_msg :: "os_error \<Rightarrow> string" where
  "os_error_msg e =
     (case e of
        File_not_found p \<Rightarrow> ''[Errno 2] No such file or directory: '' @ quoted p
      | Is_a_directory p \<Rightarrow> ''[Errno 21] Is a directory: '' @ quoted p
      | File_exists p \<Rightarrow> ''[Errno 17] File exists: '' @ quoted p
      | Not_a_directory p \<Rightarrow> ''[Errno 20] Not a directory: '' @ quoted p
      | Decode_error b start stop reason \<Rightarrow>
          quoted ''utf-8'' @ '' codec can't decode '' @
          (if stop = Suc start then ''byte 0x'' @ [hex_digit (b div 16), hex_digit (b mod 16)] @ '' in position '' @ nat_to_dec start
           else ''bytes in position '' @ nat_to_dec start @ ''-'' @ nat_to_dec (stop - 1)) @ '': '' @ reason)"

definition dl_error_msg :: "dl_error \<Rightarrow> string" where
  "dl_error_msg e = (case e of Ydl_error m \<Rightarrow> m | Type_error m \<Rightarrow> m | Key_error k \<Rightarrow> quoted k)"

definition int_error_msg :: "string \<Rightarrow> string" where
  "int_error_msg v = ''invalid literal for int() with base 10: '' @ quoted v"

definition name_error_msg :: string where
  "name_error_msg = ''cannot access free variable '' @ quoted ''e'' @
                     '' where it is not associated with a value in enclosing scope''"

definition dict_div_error_msg :: string where
  "dict_div_error_msg = ''unsupported operand type(s) for /: '' @ quoted ''dict'' @ '' and '' @ quoted ''int''"

section \<open>User events\<close>

text \<open>Lines 77--88: the names of the five tabs \<open>create_widgets\<close> adds to
  the tab view, in order; the first tab added is the one shown.\<close>

definition tab_names :: "string list" where
  "tab_names =
     [''Ch'' @ [CHR 0xE1, CHR 0xBB, CHR 0x89] @ ''nh S'' @ [CHR 0xE1, CHR 0xBB, CHR 0xAD] @ ''a Truy'' @ [CHR 0xE1, CHR 0xBB, CHR 0x87] @ ''n'',
      ''D'' @ [CHR 0xE1, CHR 0xBB, CHR 0x8B] @ ''ch Ph'' @ [CHR 0xE1, CHR 0xBB, CHR 0xA5] @ '' '' @ [CHR 0xC4, CHR 0x90, CHR 0xE1, CHR 0xBB, CHR 0x81],
      ''T'' @ [CHR 0xE1, CHR 0xBA, CHR 0xA3] @ ''i Video'',
      ''Vi'' @ [CHR 0xE1, CHR 0xBA, CHR 0xBF] @ ''t K'' @ [CHR 0xE1, CHR 0xBB, CHR 0x8B] @ ''ch B'' @ [CHR 0xE1, CHR 0xBA, CHR 0xA3] @ ''n '' @ [CHR 0xE1, CHR 0xBA, CHR 0xA2] @ ''nh'',
      ''T'' @ [CHR 0xE1, CHR 0xBA, CHR 0xA1] @ ''o '' @ [CHR 0xE1, CHR 0xBA, CHR 0xA2] @ ''nh t'' @ [CHR 0xE1, CHR 0xBB, CHR 0xAB] @ '' K'' @ [CHR 0xE1, CHR 0xBB, CHR 0x8B] @ ''ch B'' @ [CHR 0xE1, CHR 0xBA, CHR 0xA3] @ ''n'']"

text \<open>\<open>CTkTabview.set(name)\<close>: a name that was never added raises
  \<open>ValueError\<close>, which Tk reports since the caller is a button command.\<close>

definition tabview_set :: "string \<Rightarrow> app \<Rightarrow> app" where
  "tabview_set name s =
     (if name \<in> set tab_names then s\<lparr>current_tab := name\<rparr>
      else s\<lparr>tk_errors := tk_errors s @ [''CTkTabview has no tab named '' @ quoted name]\<rparr>)"

text \<open>Lines 824--842: \<open>show_tab1\<close> .. \<open>show_tab5\<close>.\<close>

definition show_tab :: "nat \<Rightarrow> app \<Rightarrow> app" where
  "show_tab n s =
     (if 1 \<le> n \<and> n \<le> 5 then tabview_set ([gui_tab_1, gui_tab_2, gui_tab_3, gui_tab_4, gui_tab_5] ! (n - 1)) s
      else s)"

text \<open>Lines 844--888: the two windows, by title.\<close>

definition open_window :: "string \<Rightarrow> app \<Rightarrow> app" where
  "open_window title s = s\<lparr>windows := windows s @ [title]\<rparr>"

text \<open>Lines 890--906; the file name is the answer of the file dialog.\<close>

definition load_story_file :: "string option \<Rightarrow> app \<Rightarrow> app" where
  "load_story_file answer s =
     (case answer of
        None \<Rightarrow> s
      | Some file_path \<Rightarrow>
          (case read_file file_path (files s) of
             Inr content \<Rightarrow> update_status (gui_loaded_file @ basename file_path) (set_text Story_w content s)
           | Inl e \<Rightarrow> show_dialog (Show_error gui_err (gui_cannot_read @ os_error_msg e)) s))"

text \<open>Lines 912--944.\<close>

definition process_story_edit :: "app \<Rightarrow> app" where
  "process_story_edit s =
     (let story = py_strip (text_get s Story_w)
      in if story = [] then show_dialog (Show_warning gui_warn gui_need_story) s
         else start_thread (Edit_job story (edit_type (form s)) (length_var (form s)))
                (update_status (gui_processing_1 @ edit_type (form s) @ gui_processing_2) s))"

text \<open>Lines 952--972, 1243--1263: save a text area to the chosen file.\<close>

definition save_text ::
  "text_widget \<Rightarrow> string \<Rightarrow> string \<Rightarrow> string \<Rightarrow> string option \<Rightarrow> app \<Rightarrow> app" where
  "save_text w empty_msg saved_msg saved_ok_msg answer s =
     (let content = py_strip (text_get s w)
      in if content = [] then show_dialog (Show_warning gui_warn empty_msg) s
         else case answer of
                None \<Rightarrow> s
              | Some file_path \<Rightarrow>
                  (case write_file file_path content (files s) of
                     Inr fs' \<Rightarrow> show_dialog (Show_info gui_ok saved_ok_msg)
                                 (update_status (saved_msg @ basename file_path) (s\<lparr>files := fs'\<rparr>))
                   | Inl e \<Rightarrow> show_dialog (Show_error gui_err (gui_cannot_save @ os_error_msg e)) s))"

text \<open>Lines 985--1000: the first 30 lines of the file.\<close>

definition load_srt_preview :: "string \<Rightarrow> app \<Rightarrow> app" where
  "load_srt_preview file_path s =
     (case read_file file_path (files s) of
        Inr content \<Rightarrow>
          update_status (gui_loaded_srt @ basename file_path)
            (set_text Orig_w (py_join [nl] (take 30 (py_split nl content))) s)
      | Inl e \<Rightarrow> show_dialog (Show_error gui_err (gui_cannot_read_srt @ os_error_msg e)) s)"

text \<open>Lines 974--983.\<close>

definition select_srt_file :: "string option \<Rightarrow> app \<Rightarrow> app" where
  "select_srt_file answer s =
     (case answer of
        None \<Rightarrow> s
      | Some file_path \<Rightarrow> load_srt_preview file_path (s\<lparr>form := (form s)\<lparr>srt_file_path := file_path\<rparr>\<rparr>))"

text \<open>Lines 1002--1042.\<close>

definition translate_srt_file :: "app \<Rightarrow> app" where
  "translate_srt_file s =
     (let f = form s; file_path = srt_file_path f
      in if file_path = [] \<or> files s file_path = None then show_dialog (Show_warning gui_warn gui_need_srt) s
         else let batch_size = py_get (py_int (batch_size_text f)) 10;
                  s1 = (update_status gui_translate_start s)\<lparr>progress_bar := (0, 0)\<rparr>
              in start_thread (Translate_job file_path (src_lang_combo f) (tgt_lang_combo f) (trans_style f) batch_size) s1)"

text \<open>Lines 1095--1102: the URL entry, stripped; empty is refused.\<close>

definition check_video_url :: "app \<Rightarrow> app" where
  "check_video_url s =
     (let url = py_strip (video_url (form s))
      in if url = [] then show_dialog (Show_warning gui_warn gui_need_url) s
         else start_thread (Video_check_job url)
                (update_status (gui_checking_url @ cp_take 50 url @ ''...'') s))"

text \<open>Lines 1136--1174.\<close>

definition download_video :: "app \<Rightarrow> app" where
  "download_video s =
     (let f = form s; url = py_strip (video_url f)
      in if url = [] then show_dialog (Show_warning gui_warn gui_need_url) s
         else start_thread (Download_job url (quality f) (format_var f) (download_path f) (subtitle_var f) (audio_only_var f))
                ((update_status gui_download_start s)\<lparr>download_progress := (0, 0)\<rparr>))"

text \<open>Lines 1197--1235.\<close>

definition generate_image_script :: "app \<Rightarrow> app" where
  "generate_image_script s =
     (let f = form s; story = py_strip (text_get s Script_story_w)
      in if story = [] then show_dialog (Show_warning gui_warn gui_need_story) s
         else start_thread (Script_job story (py_get (py_int (num_scenes_text f)) 5) (image_style f) (detail_level f) (include_prompts f))
                (update_status gui_script_start s))"

text \<open>Lines 1265--1274.\<close>

definition copy_script_to_clipboard :: "app \<Rightarrow> app" where
  "copy_script_to_clipboard s =
     (let content = py_strip (text_get s Script_output_w)
      in if content \<noteq> [] then show_dialog (Show_info gui_ok gui_copied_ok) (update_status gui_copied (s\<lparr>clipboard := content\<rparr>))
         else show_dialog (Show_warning gui_warn gui_nothing_to_copy) s)"

text \<open>Lines 1276--1292.\<close>

definition load_image_script :: "string option \<Rightarrow> app \<Rightarrow> app" where
  "load_image_script answer s =
     (case answer of
        None \<Rightarrow> s
      | Some file_path \<Rightarrow>
          (case read_file file_path (files s) of
             Inr content \<Rightarrow> update_status (gui_loaded_script @ basename file_path) (set_text Image_prompt_w content s)
           | Inl e \<Rightarrow> show_dialog (Show_error gui_err (gui_cannot_read @ os_error_msg e)) s))"

text \<open>Lines 1294--1315: the three numbers are read together; if any of them
  fails to parse, all three take their defaults.\<close>

definition image_numbers :: "form \<Rightarrow> int \<times> int \<times> double" where
  "image_numbers f =
     (case (py_int (num_images_text f), py_int (steps_text f), py_float (cfg_scale_text f)) of
        (Some n, Some st, Some cfg) \<Rightarrow> (n, st, cfg)
      | _ \<Rightarrow> (1, 30, fl_div 15 2))"

definition generate_images :: "app \<Rightarrow> app" where
  "generate_images s =
     (let f = form s; prompt = py_strip (text_get s Image_prompt_w)
      in if prompt = [] then show_dialog (Show_warning gui_warn gui_need_prompt) s
         else let (n, st, cfg) = image_numbers f
              in start_thread (Images_job prompt (image_model f) (image_size f) n st cfg (sampler f))
                   (update_status gui_images_start s))"

text \<open>Lines 1376--1394: \<open>mkdir\<close> is outside the \<open>try\<close>, so its exception
  leaves the handler.\<close>

definition open_image_folder :: "gui_env \<Rightarrow> app \<Rightarrow> app" where
  "open_image_folder env s =
     (let output_dir = app_dir env @ ''/output/images''
      in case mkdir output_dir (files s) of
           Inl e \<Rightarrow> s\<lparr>tk_errors := tk_errors s @ [os_error_msg e]\<rparr>
         | Inr fs' \<Rightarrow> s\<lparr>files := fs', opened_folders := opened_folders s @ [output_dir]\<rparr>)"

text \<open>Lines 908--910.\<close>

definition clear_story_text :: "app \<Rightarrow> app" where
  "clear_story_text s = set_text Story_w [] s"

text \<open>Lines 952--972.\<close>

definition save_edited_story :: "string option \<Rightarrow> app \<Rightarrow> app" where
  "save_edited_story answer s = save_text Result_w gui_nothing_to_save gui_saved_file gui_saved_story answer s"

text \<open>Lines 1089--1093; the folder is the answer of the dialog.\<close>

definition select_download_folder :: "string option \<Rightarrow> app \<Rightarrow> app" where
  "select_download_folder answer s =
     (case answer of None \<Rightarrow> s | Some folder \<Rightarrow> s\<lparr>form := (form s)\<lparr>download_path := folder\<rparr>\<rparr>)"

text \<open>Lines 1131--1134.\<close>

definition clear_video_url :: "app \<Rightarrow> app" where
  "clear_video_url s = set_text Download_status_w [] (s\<lparr>form := (form s)\<lparr>video_url := []\<rparr>\<rparr>)"

text \<open>Lines 1243--1263.\<close>

definition save_image_script :: "string option \<Rightarrow> app \<Rightarrow> app" where
  "save_image_script answer s =
     save_text Script_output_w gui_no_script_to_save gui_saved_script gui_saved_script_ok answer s"

text \<open>Lines 1341--1344 and 1396--1399: the two buttons not implemented yet.\<close>

definition not_implemented :: "app \<Rightarrow> app" where
  "not_implemented s = show_dialog (Show_info gui_info gui_in_development) s"

text \<open>Lines 1401--1404.\<close>

definition clear_generated_image :: "app \<Rightarrow> app" where
  "clear_generated_image s = update_status gui_cleared_image (s\<lparr>canvas := None\<rparr>)"

text \<open>The handler of each user event.\<close>

fun user_step :: "gui_env \<Rightarrow> user_event \<Rightarrow> app \<Rightarrow> app" where
  "user_step env (Show_tab n) s = show_tab n s"
| "user_step env Open_settings s = open_window gui_settings_title s"
| "user_step env Open_status s = open_window gui_status_title s"
| "user_step env Check_lm_connection s = start_thread Check_job s"
| "user_step env (Type_text w v) s = set_text w v s"
| "user_step env (Edit_form f) s = s\<lparr>form := f\<rparr>"
| "user_step env (Load_story_file answer) s = load_story_file answer s"
| "user_step env Clear_story_text s = clear_story_text s"
| "user_step env Process_story_edit s = process_story_edit s"
| "user_step env (Save_edited_story answer) s = save_edited_story answer s"
| "user_step env (Select_srt_file answer) s = select_srt_file answer s"
| "user_step env Translate_srt_file s = translate_srt_file s"
| "user_step env (Select_download_folder answer) s = select_download_folder answer s"
| "user_step env Check_video_url s = check_video_url s"
| "user_step env Clear_video_url s = clear_video_url s"
| "user_step env Download_video s = download_video s"
| "user_step env Generate_image_script s = generate_image_script s"
| "user_step env (Save_image_script answer) s = save_image_script answer s"
| "user_step env Copy_script_to_clipboard s = copy_script_to_clipboard s"
| "user_step env (Load_image_script answer) s = load_image_script answer s"
| "user_step env Generate_images s = generate_images s"
| "user_step env Generate_batch_images s = not_implemented s"
| "user_step env Open_image_folder s = open_image_folder env s"
| "user_step env Download_generated_image s = not_implemented s"
| "user_step env Clear_generated_image s = clear_generated_image s"

section \<open>Worker threads\<close>

text \<open>Lines 1044--1054, run in the worker: the values the callback will show.\<close>

definition translation_progress :: "nat \<Rightarrow> nat \<Rightarrow> ui_action" where
  "translation_progress current total_n =
     (let progress = (if 0 < total_n then fl_div current total_n else (0, 0))
      in Translation_progress progress
           (gui_translating @ nat_to_dec current @ ''/'' @ nat_to_dec total_n @ gui_sentences @
            fmt_1f (dmul_nat progress 100) @ ''%)''))"

text \<open>What the worker posts for the events of a translation: one callback per
  progress report, in order.\<close>

fun post_progress :: "event list \<Rightarrow> app \<Rightarrow> app" where
  "post_progress [] s = s"
| "post_progress (Progress i n # evs) s = post_progress evs (post (translation_progress i n) s)"
| "post_progress (_ # evs) s = post_progress evs s"

text \<open>Lines 1021--1040 with \<open>SRTTranslator.translate_file\<close>: \<open>pysrt.open\<close>
  decodes the file as UTF-8 and parses it (its parser skips what it cannot
  read); an empty result raises \<open>ValueError\<close>.\<close>

definition translate_worker :: "gui_env \<Rightarrow> string \<Rightarrow> string \<Rightarrow> string \<Rightarrow> string \<Rightarrow> int \<Rightarrow> app \<Rightarrow> app" where
  "translate_worker env file_path src tgt style batch_size s =
     (case read_file file_path (files s) of
        Inl e \<Rightarrow> worker_except gui_err gui_err_translate (os_error_msg e) s
      | Inr content \<Rightarrow>
          (case translate_file (lm_translate (\<lambda>_. lm_http env) (lm_client env)) (srt_parse env content)
                  src tgt style batch_size True of
             Inl Empty_srt \<Rightarrow> worker_except gui_err gui_err_translate srt_empty_msg s
           | Inr (result, evs) \<Rightarrow> post (Show_translation_result result file_path) (post_progress evs s)))"

text \<open>Lines 1109--1113.\<close>

definition info_text :: "video_info \<Rightarrow> string" where
  "info_text info =
     gui_found_video @ gui_title_label @ str_opt id (vi_title info) @ [nl] @
     gui_duration_label @ str_opt int_to_dec (vi_duration info) @ gui_seconds @
     gui_format_label @ str_opt id (vi_ext info) @ [nl] @
     gui_qualities_label @ py_join '', '' (vi_formats info) @ [nl]"

text \<open>The calls yt-dlp makes during the download reach the GUI: a logger
  message through \<open>status_callback\<close> (lines 1183--1189), a progress-hook
  call through \<open>progress_callback\<close> (lines 1176--1181), which receives the
  status dict.\<close>

fun post_ydl_calls :: "ydl_call list \<Rightarrow> app \<Rightarrow> app" where
  "post_ydl_calls [] s = s"
| "post_ydl_calls (Log level msg # calls) s =
     post_ydl_calls calls (case custom_logger True level msg of None \<Rightarrow> s | Some m \<Rightarrow> post (Download_status_insert m) s)"
| "post_ydl_calls (Hook downloaded total_bytes # calls) s = post_ydl_calls calls (post (Download_progress_raw downloaded total_bytes) s)"

text \<open>Line 1323--1324: \<open>int(size.split('x')[0])\<close>, \<open>int(size.split('x')[1])\<close>.\<close>

definition image_size_parse :: "string \<Rightarrow> string + int \<times> int" where
  "image_size_parse size_text =
     (let parts = py_split CHR ''x'' size_text
      in case py_int (parts ! 0) of
           None \<Rightarrow> Inl (int_error_msg (parts ! 0))
         | Some w \<Rightarrow>
             if length parts < 2 then Inl ''list index out of range''
             else (case py_int (parts ! 1) of None \<Rightarrow> Inl (int_error_msg (parts ! 1)) | Some h \<Rightarrow> Inr (w, h)))"

text \<open>Lines 801--817: the \<open>check()\<close> closure of
  \<open>check_lm_studio_connection\<close>. The thread is started inside
  \<open>create_widgets\<close> (line 798), before \<open>setup_clients\<close> has set
  \<open>self.lm_client\<close> (line 47); if it runs first, the attribute lookup
  raises \<open>AttributeError\<close>, which its bare \<open>except:\<close> (lines 814--818)
  turns into the orange error status.\<close>

definition connection_check :: "gui_env \<Rightarrow> app \<Rightarrow> app" where
  "connection_check env s =
     s\<lparr>center_status := (if \<not> clients_ready s then (gui_lm_error, ''orange'')
                          else if check_connection (lm_http env) (lm_client env)
                          then (gui_lm_connected, ''green'') else (gui_lm_not_connected, ''red''))\<rparr>"

text \<open>Lines 925--940: the \<open>process()\<close> closure of \<open>process_story_edit\<close>;
  \<open>edit_story\<close> catches its own exceptions, so the except branch is never
  taken.\<close>

definition edit_worker :: "gui_env \<Rightarrow> string \<Rightarrow> string \<Rightarrow> string \<Rightarrow> app \<Rightarrow> app" where
  "edit_worker env story et lp s = post (Show_edit_result (edit_story (lm_http env) (lm_client env) story et lp)) s"

text \<open>Lines 1104--1121: the \<open>check()\<close> closure of \<open>check_video_url\<close>.\<close>

definition video_check_worker :: "gui_env \<Rightarrow> string \<Rightarrow> app \<Rightarrow> app" where
  "video_check_worker env url s =
     (case get_video_info (ydl env) url of
        Inr info \<Rightarrow> post (Show_video_info (info_text info)) s
      | Inl e \<Rightarrow> worker_except gui_err gui_err_check (dl_error_msg e) s)"

text \<open>Lines 1152--1172: the \<open>download()\<close> closure of \<open>download_video\<close>;
  the hooks of yt-dlp post their callbacks while it runs.\<close>

definition download_worker ::
  "gui_env \<Rightarrow> string \<Rightarrow> string \<Rightarrow> string \<Rightarrow> string \<Rightarrow> bool \<Rightarrow> bool \<Rightarrow> app \<Rightarrow> app" where
  "download_worker env url q fmt path subs audio_only s =
     (let (calls, r) = download (ydl env) (home_dir env) url q fmt (Some path) subs audio_only True True;
          s1 = post_ydl_calls calls s
      in case r of
           Inr result \<Rightarrow> post (Download_complete result) s1
         | Inl e \<Rightarrow> worker_except gui_err gui_err_download (dl_error_msg e) s1)"

text \<open>Lines 1216--1227: the \<open>generate()\<close> closure of
  \<open>generate_image_script\<close>; \<open>generate_image_script\<close> of the editor
  catches its own exceptions.\<close>

definition script_worker :: "gui_env \<Rightarrow> string \<Rightarrow> int \<Rightarrow> string \<Rightarrow> string \<Rightarrow> bool \<Rightarrow> app \<Rightarrow> app" where
  "script_worker env story n style detail inc s =
     post (Show_generated_script (editor_image_script (lm_http env) (lm_client env) story n style detail inc)) s"

text \<open>Lines 1317--1337: the \<open>generate()\<close> closure of \<open>generate_images\<close>:
  the size is parsed inside the \<open>try\<close>, then the generator runs and
  writes the files.\<close>

definition images_worker ::
  "gui_env \<Rightarrow> string \<Rightarrow> string \<Rightarrow> string \<Rightarrow> int \<Rightarrow> int \<Rightarrow> double \<Rightarrow> string \<Rightarrow> app \<Rightarrow> app" where
  "images_worker env prompt model size_text n st cfg smp s =
     (case image_size_parse size_text of
        Inl msg \<Rightarrow> worker_except gui_err gui_err_images msg s
      | Inr (w, h) \<Rightarrow>
          (let opts = \<lparr>opt_model = model, opt_width = w, opt_height = h, opt_num_images = n,
                       opt_steps = st, opt_cfg_scale = cfg, opt_sampler = smp\<rparr>;
               (r, fs') = generate (sd env) (clock s) (clock s) (image_gen env) prompt opts (files s);
               s1 = s\<lparr>files := fs'\<rparr>
           in case r of
                Inr paths \<Rightarrow> post (Show_generated_images paths) s1
              | Inl e \<Rightarrow> worker_except gui_err gui_err_images (os_error_msg e) s1))"

text \<open>A started thread runs the closure it was given as \<open>target\<close>.\<close>

fun run_job :: "gui_env \<Rightarrow> job \<Rightarrow> app \<Rightarrow> app" where
  "run_job env Check_job s = connection_check env s"
| "run_job env (Edit_job story et lp) s = edit_worker env story et lp s"
| "run_job env (Translate_job file_path src tgt style batch_size) s =
     translate_worker env file_path src tgt style batch_size s"
| "run_job env (Video_check_job url) s = video_check_worker env url s"
| "run_job env (Download_job url q fmt path subs audio_only) s =
     download_worker env url q fmt path subs audio_only s"
| "run_job env (Script_job story n style detail inc) s = script_worker env story n style detail inc s"
| "run_job env (Images_job prompt model size_text n st cfg smp) s =
     images_worker env prompt model size_text n st cfg smp s"

section \<open>Main-loop callbacks\<close>

text \<open>Lines 1068--1084: the translated file is written next to the original,
  as \<open>{name}_translated{ext}\<close>.\<close>

definition translated_name :: "string \<Rightarrow> string" where
  "translated_name original_path =
     (let (name, ext) = splitext (basename original_path) in name @ ''_translated'' @ ext)"

definition save_translation :: "string \<Rightarrow> string \<Rightarrow> app \<Rightarrow> app" where
  "save_translation result original_path s =
     (let new_name = translated_name original_path;
          save_path = path_join (dirname original_path) new_name
      in case write_file save_path result (files s) of
           Inr fs' \<Rightarrow> show_dialog (Show_info gui_ok (gui_saved_file @ new_name))
                        (update_status (gui_saved_translation @ new_name) (s\<lparr>files := fs'\<rparr>))
         | Inl e \<Rightarrow> show_dialog (Show_error gui_err (gui_cannot_save @ os_error_msg e)) s)"

text \<open>Lines 1056--1087; \<open>answer\<close> is the user's answer to the question.\<close>

definition show_translation_result :: "string \<Rightarrow> string \<Rightarrow> bool \<Rightarrow> app \<Rightarrow> app" where
  "show_translation_result result original_path answer s =
     (let s1 = show_dialog (Ask_yes_no gui_ok gui_ask_save answer) (set_text Trans_w (cp_take 5000 result) s);
          s2 = (if answer then save_translation result original_path s1 else s1)
      in s2\<lparr>progress_label := gui_finished, progress_bar := (1, 0)\<rparr>)"

text \<open>\<open>Image.open\<close> on a path: PIL identifies the file by its signature
  (PNG and JPEG are modelled); the message of the exception otherwise.\<close>

definition image_open_error :: "fs \<Rightarrow> string \<Rightarrow> string option" where
  "image_open_error fs p =
     (case fs p of
        None \<Rightarrow> Some (os_error_msg (File_not_found p))
      | Some Dir \<Rightarrow> Some (os_error_msg (Is_a_directory p))
      | Some (Image _ _ _) \<Rightarrow> None
      | Some (File b) \<Rightarrow>
          if take 8 b = [CHR 0x89, CHR 0x50, CHR 0x4E, CHR 0x47, CHR 0x0D, CHR 0x0A, CHR 0x1A, CHR 0x0A]
             \<or> take 3 b = [CHR 0xFF, CHR 0xD8, CHR 0xFF]
          then None else Some (''cannot identify image file '' @ quoted p))"

text \<open>Lines 1346--1374.\<close>

definition show_generated_images :: "string list \<Rightarrow> app \<Rightarrow> app" where
  "show_generated_images image_paths s =
     (if image_paths = [] then show_dialog (Show_warning gui_warn gui_no_images) s
      else let first_image = hd image_paths;
               msg = gui_created_1 @ nat_to_dec (length image_paths) @ gui_created_2
           in case image_open_error (files s) first_image of
                None \<Rightarrow> show_dialog (Show_info gui_ok msg) (update_status msg (s\<lparr>canvas := Some first_image\<rparr>))
              | Some err \<Rightarrow> show_dialog (Show_error gui_err (gui_cannot_show @ err)) s)"

text \<open>Lines 946--950.\<close>

definition show_edit_result :: "string \<Rightarrow> app \<Rightarrow> app" where
  "show_edit_result r s = update_status gui_edit_done (set_text Result_w r s)"

text \<open>Lines 1125--1129.\<close>

definition show_video_info :: "string \<Rightarrow> app \<Rightarrow> app" where
  "show_video_info t s = update_status gui_url_checked (set_text Download_status_w t s)"

text \<open>Lines 1191--1195.\<close>

definition download_complete :: "string \<Rightarrow> app \<Rightarrow> app" where
  "download_complete r s =
     show_dialog (Show_info gui_ok (gui_download_ok @ r))
       (update_status (gui_downloaded @ basename r) (s\<lparr>download_progress := (1, 0)\<rparr>))"

text \<open>Lines 1237--1241.\<close>

definition show_generated_script :: "string \<Rightarrow> app \<Rightarrow> app" where
  "show_generated_script t s = update_status gui_script_done (set_text Script_output_w t s)"

text \<open>Running a queued callback. The error callback of a worker reads the
  closure cell of \<open>e\<close>; an unbound cell raises \<open>NameError\<close>, which Tk
  reports instead of showing the message box. The download-progress callback
  divides the status dict yt-dlp passed by 100.\<close>

fun run_action :: "ui_action \<Rightarrow> bool \<Rightarrow> app \<Rightarrow> app" where
  "run_action (Show_edit_result r) answer s = show_edit_result r s"
| "run_action (Worker_error title prefix c) answer s =
     (case cells s c of
        None \<Rightarrow> s\<lparr>tk_errors := tk_errors s @ [name_error_msg]\<rparr>
      | Some msg \<Rightarrow> show_dialog (Show_error title (prefix @ msg)) s)"
| "run_action (Translation_progress p l) answer s = s\<lparr>progress_bar := p, progress_label := l\<rparr>"
| "run_action (Show_translation_result r path) answer s = show_translation_result r path answer s"
| "run_action (Show_video_info t) answer s = show_video_info t s"
| "run_action (Download_progress_raw _ _) answer s = s\<lparr>tk_errors := tk_errors s @ [dict_div_error_msg]\<rparr>"
| "run_action (Download_status_insert t) answer s =
     set_text Download_status_w (texts s Download_status_w @ t @ [nl]) s"
| "run_action (Download_complete r) answer s = download_complete r s"
| "run_action (Show_generated_script t) answer s = show_generated_script t s"
| "run_action (Show_generated_images ps) answer s = show_generated_images ps s"

section \<open>The application as a transition system\<close>

text \<open>The state of \<open>MainApp.__init__\<close> when \<open>create_widgets\<close> returns: the
  widgets' initial values, the first tab shown, and the connection check
  started by \<open>create_status_bar\<close> (line 798); \<open>setup_clients\<close> has not
  run yet.\<close>

definition app_init :: "form \<Rightarrow> fs \<Rightarrow> string \<Rightarrow> app" where
  "app_init f fs clk =
     \<lparr>texts = (\<lambda>_. []), form = f, progress_bar = (0, 0), progress_label = gui_ready_progress,
      download_progress = (0, 0), left_status = gui_ready, center_status = (gui_lm_checking, []),
      current_tab = hd tab_names, windows = [], canvas = None, clipboard = [], opened_folders = [],
      dialogs = [], after_queue = [], threads = [Check_job], cells = (\<lambda>_. None), next_cell = 0,
      tk_errors = [], clock = clk, files = fs, clients_ready = False\<rparr>"

datatype gui_event = Setup_clients | User user_event | Worker nat | Callback bool | Tick string

text \<open>One step: the main thread finishing \<open>__init__\<close> with
  \<open>setup_clients\<close> (lines 45--51), a user event or the first queued
  callback, both run by the main loop once \<open>app.mainloop()\<close> has started,
  a started thread running its body, or the clock moving.\<close>

inductive gui_step :: "gui_env \<Rightarrow> app \<Rightarrow> gui_event \<Rightarrow> app \<Rightarrow> bool" for env where
  clients: "\<not> clients_ready s \<Longrightarrow> gui_step env s Setup_clients (s\<lparr>clients_ready := True\<rparr>)"
| user: "clients_ready s \<Longrightarrow> gui_step env s (User u) (user_step env u s)"
| worker: "i < length (threads s) \<Longrightarrow>
           gui_step env s (Worker i) (run_job env (threads s ! i) (s\<lparr>threads := take i (threads s) @ drop (Suc i) (threads s)\<rparr>))"
| callback: "clients_ready s \<Longrightarrow> after_queue s = a # q \<Longrightarrow> gui_step env s (Callback answer) (run_action a answer (s\<lparr>after_queue := q\<rparr>))"
| tick: "gui_step env s (Tick t) (s\<lparr>clock := t\<rparr>)"

inductive_cases gui_step_callbackE: "gui_step env s (Callback answer) s'"

inductive gui_reach :: "gui_env \<Rightarrow> app \<Rightarrow> app \<Rightarrow> bool" for env s0 where
  refl: "gui_reach env s0 s0"
| step: "gui_reach env s0 s \<Longrightarrow> gui_step env s e s' \<Longrightarrow> gui_reach env s0 s'"


text \<open>A concrete environment and form, for the examples: LM Studio and the
  Stable Diffusion server are offline, yt-dlp rejects every URL, and the user
  has typed a video URL.\<close>

definition example_env :: gui_env where
  "example_env =
     \<lparr>lm_http = (\<lambda>_. Raised ''Connection refused''), lm_client = lm_client_init ''http://localhost:1234/v1'',
      srt_parse = (\<lambda>_. []), ydl = (\<lambda>_. Ydl_failed [] ''ERROR: Unsupported URL''),
      sd = (\<lambda>_. Sd_raised ''Connection refused''),
      image_gen = \<lparr>ig_api_url = ''http://127.0.0.1:7860'', ig_output_dir = images_dir ''/app''\<rparr>,
      home_dir = ''/home/u'', app_dir = ''/app/src''\<rparr>"

definition example_form :: form where
  "example_form =
     \<lparr>edit_type = ''grammar'', length_var = ''medium'', srt_file_path = [], src_lang_combo = ''auto'',
      tgt_lang_combo = ''vi'', trans_style = ''natural'', batch_size_text = ''10'',
      video_url = ''https://youtu.be/x'', quality = ''best'', format_var = ''mp4'', download_path = ''/home/u/Downloads'',
      subtitle_var = False, audio_only_var = False, image_style = ''realistic'', num_scenes_text = ''5'',
      detail_level = ''medium'', include_prompts = True, image_model = ''sd_xl_base_1.0'', image_size = ''512x512'',
      num_images_text = ''1'', steps_text = ''20'', cfg_scale_text = ''7.0'', sampler = ''Euler a''\<rparr>"

section \<open>Properties of the application\<close>


lemma effect_frame [simp]:
  "cells (update_status m s) = cells s" "download_progress (update_status m s) = download_progress s"
  "cells (set_text w v s) = cells s" "download_progress (set_text w v s) = download_progress s"
  "cells (show_dialog d s) = cells s" "download_progress (show_dialog d s) = download_progress s"
  "cells (post a s) = cells s" "download_progress (post a s) = download_progress s"
  "cells (start_thread j s) = cells s" "download_progress (start_thread j s) = download_progress s"
  "next_cell (post a s) = next_cell s"
  by (simp_all add: update_status_def set_text_def show_dialog_def post_def start_thread_def)

lemma worker_except_frame [simp]:
  "cells (worker_except t p m s) = (cells s)(next_cell s := None)"
  "download_progress (worker_except t p m s) = download_progress s"
  by (simp_all add: worker_except_def Let_def post_def)

lemma post_progress_frame [simp]:
  "cells (post_progress evs s) = cells s" "download_progress (post_progress evs s) = download_progress s"
  by (induction evs s rule: post_progress.induct) simp_all

lemma post_ydl_calls_frame [simp]:
  "cells (post_ydl_calls calls s) = cells s" "download_progress (post_ydl_calls calls s) = download_progress s"
  "next_cell (post_ydl_calls calls s) = next_cell s"
  by (induction calls s rule: post_ydl_calls.induct) (simp_all split: option.splits)

lemmas handler_defs =
  show_tab_def tabview_set_def open_window_def load_story_file_def clear_story_text_def process_story_edit_def save_text_def
  save_edited_story_def select_srt_file_def load_srt_preview_def translate_srt_file_def
  select_download_folder_def check_video_url_def clear_video_url_def download_video_def
  generate_image_script_def save_image_script_def copy_script_to_clipboard_def load_image_script_def
  generate_images_def not_implemented_def open_image_folder_def clear_generated_image_def

lemmas worker_defs =
  connection_check_def edit_worker_def video_check_worker_def download_worker_def script_worker_def
  images_worker_def

lemmas callback_defs =
  show_edit_result_def show_translation_result_def save_translation_def show_video_info_def
  download_complete_def show_generated_script_def show_generated_images_def

lemma user_step_frame:
  "cells (user_step env u s) = cells s \<and>
   (download_progress (user_step env u s) = download_progress s \<or> download_progress (user_step env u s) = (0, 0))"
  by (cases u)
     (simp_all add: handler_defs Let_def split: option.splits sum.splits prod.splits)

lemma translate_worker_frame:
  "cells (translate_worker env p src tgt sty bs s) = (cells s)(next_cell s := None) \<or>
   cells (translate_worker env p src tgt sty bs s) = cells s"
  "download_progress (translate_worker env p src tgt sty bs s) = download_progress s"
  by (auto simp: translate_worker_def split: sum.splits option.splits translate_error.splits prod.splits)

lemma run_job_frame:
  "(cells (run_job env j s) = (cells s)(next_cell s := None) \<or> cells (run_job env j s) = cells s) \<and>
   download_progress (run_job env j s) = download_progress s"
  by (cases j)
     (auto simp: translate_worker_frame worker_defs Let_def split: sum.splits prod.splits)

lemma run_action_frame:
  "cells (run_action a answer s) = cells s \<and>
   (download_progress (run_action a answer s) = download_progress s \<or> download_progress (run_action a answer s) = (1, 0))"
  by (cases a)
     (simp_all add: callback_defs Let_def split: option.splits sum.splits prod.splits)

lemma gui_step_cells:
  "gui_step env s e s' \<Longrightarrow> cells s = (\<lambda>_. None) \<Longrightarrow> cells s' = (\<lambda>_. None)"
proof (induction rule: gui_step.induct)
  case (user s u) then show ?case using user_step_frame [of env u s] by simp
next
  case (worker i s)
  then show ?case
    using run_job_frame [of env "threads s ! i" "s\<lparr>threads := take i (threads s) @ drop (Suc i) (threads s)\<rparr>"]
    by auto
next
  case (callback s a q answer) then show ?case using run_action_frame [of a answer "s\<lparr>after_queue := q\<rparr>"] by simp
qed simp_all

lemma gui_step_download_progress:
  "gui_step env s e s' \<Longrightarrow> download_progress s \<in> {(0, 0), (1, 0)} \<Longrightarrow> download_progress s' \<in> {(0, 0), (1, 0)}"
proof (induction rule: gui_step.induct)
  case (user s u) then show ?case using user_step_frame [of env u s] by auto
next
  case (worker i s)
  then show ?case
    using run_job_frame [of env "threads s ! i" "s\<lparr>threads := take i (threads s) @ drop (Suc i) (threads s)\<rparr>"]
    by simp
next
  case (callback s a q answer) then show ?case using run_action_frame [of a answer "s\<lparr>after_queue := q\<rparr>"] by auto
qed simp_all

lemma reach_cells: "gui_reach env s0 s \<Longrightarrow> cells s0 = (\<lambda>_. None) \<Longrightarrow> cells s = (\<lambda>_. None)"
  by (induction rule: gui_reach.induct) (auto intro: gui_step_cells)


lemma reach_download_progress:
  "gui_reach env s0 s \<Longrightarrow> download_progress s0 \<in> {(0, 0), (1, 0)} \<Longrightarrow> download_progress s \<in> {(0, 0), (1, 0)}"
proof (induction rule: gui_reach.induct)
  case refl then show ?case by simp
next
  case (step s e s') then show ?case using gui_step_download_progress by blast
qed

lemma translated_name_props:
  "CHR ''/'' \<notin> set (translated_name p) \<and> length (translated_name p) = length (basename p) + 11"
proof -
  obtain name ext where se: "splitext (basename p) = (name, ext)" by fastforce
  have e: "basename p = name @ ext" using splitext_append [of "basename p"] se by simp
  have "CHR ''/'' \<notin> set (name @ ext)" using basename_slash_free [of p] unfolding e .
  moreover have "length (basename p) = length name + length ext" by (simp add: e)
  ultimately show ?thesis by (auto simp: translated_name_def se)
qed

lemma save_path_not_original:
  "path_join (dirname p) (translated_name p) \<noteq> p"
proof
  assume "path_join (dirname p) (translated_name p) = p"
  then have "basename p = translated_name p"
    using path_join_basename [of "translated_name p" "dirname p"] translated_name_props [of p] by simp
  then show False using translated_name_props [of p] by simp
qed

lemma save_translation_keeps_original:
  "files (save_translation r p s) p = files s p"
  using save_path_not_original [of p]
  by (simp add: save_translation_def write_file_def write_node_def Let_def show_dialog_def update_status_def
           split: sum.splits)


text \<open>C28. The error dialog of every worker is lost: start the handlers in
  any state where no exception variable is bound (each \<open>except ... as e\<close>
  clause unbinds its variable before it returns); then, whatever events,
  threads and callbacks follow, a queued error callback finds the variable
  unbound, raises NameError inside Tk, and shows no dialog.\<close>

theorem worker_error_dialog_lost:
  "gui_reach env s0 s \<Longrightarrow> cells s0 = (\<lambda>_. None) \<Longrightarrow> after_queue s = Worker_error title prefix c # q \<Longrightarrow>
   gui_step env s (Callback answer) s' \<Longrightarrow>
   dialogs s' = dialogs s \<and> tk_errors s' = tk_errors s @ [name_error_msg]"
  by (auto elim!: gui_step_callbackE dest!: reach_cells)

theorem worker_error_dialog_lost_witness:
  "dialogs (run_action (Worker_error gui_err gui_err_check 0) True
     ((run_job example_env (Video_check_job ''https://youtu.be/x'')
        ((user_step example_env Check_video_url ((app_init example_form Map.empty ''10:00:00'')\<lparr>clients_ready := True\<rparr>))\<lparr>threads := [Check_job]\<rparr>))
      \<lparr>after_queue := []\<rparr>)) = [] \<and>
   tk_errors (run_action (Worker_error gui_err gui_err_check 0) True
     ((run_job example_env (Video_check_job ''https://youtu.be/x'')
        ((user_step example_env Check_video_url ((app_init example_form Map.empty ''10:00:00'')\<lparr>clients_ready := True\<rparr>))\<lparr>threads := [Check_job]\<rparr>))
      \<lparr>after_queue := []\<rparr>)) = [name_error_msg]"
proof -
  let ?u = "''https://youtu.be/x''"
  let ?s0 = "app_init example_form Map.empty ''10:00:00''"
  let ?r = "?s0\<lparr>clients_ready := True\<rparr>"
  let ?s1 = "user_step example_env Check_video_url ?r"
  let ?s2 = "run_job example_env (Video_check_job ?u) (?s1\<lparr>threads := [Check_job]\<rparr>)"
  let ?e = "Worker_error gui_err gui_err_check 0"
  let ?s3 = "run_action ?e True (?s2\<lparr>after_queue := []\<rparr>)"
  have url: "py_strip ?u = ?u"
  proof (rule py_strip_no_space_ends)
    show "\<not> is_space (hd ?u)" by (simp add: is_space_def Let_def)
    show "\<not> is_space (last ?u)" by (simp add: is_space_def Let_def)
  qed simp
  have fu: "video_url (form ?s0) = ?u" by (simp add: app_init_def example_form_def)
  have s1: "?s1 = start_thread (Video_check_job ?u) (update_status (gui_checking_url @ cp_take 50 ?u @ ''...'') ?r)"
    by (simp add: check_video_url_def fu url Let_def)
  have th: "threads ?s1 = [Check_job, Video_check_job ?u]"
    and a1: "after_queue ?s1 = []" "next_cell ?s1 = 0" "dialogs ?s1 = []" "tk_errors ?s1 = []" "clients_ready ?s1"
    by (simp_all only: s1) (simp_all add: start_thread_def update_status_def app_init_def)
  have "gui_reach example_env ?s0 ?r"
    by (rule gui_reach.step [OF gui_reach.refl gui_step.clients]) (simp add: app_init_def)
  then have r1: "gui_reach example_env ?s0 ?s1" by (rule gui_reach.step [OF _ gui_step.user]) simp
  have "gui_step example_env ?s1 (Worker 1) ?s2"
    using gui_step.worker [of 1 ?s1 example_env] unfolding th by simp
  with r1 have r2: "gui_reach example_env ?s0 ?s2" by (rule gui_reach.step)
  have gv: "get_video_info (ydl example_env) ?u = Inl (Ydl_error ''ERROR: Unsupported URL'')"
    by (simp add: get_video_info_def example_env_def)
  have s2: "?s2 = worker_except gui_err gui_err_check ''ERROR: Unsupported URL'' (?s1\<lparr>threads := [Check_job]\<rparr>)"
    by (simp only: run_job.simps video_check_worker_def gv sum.case dl_error_msg_def dl_error.case)
  have q: "after_queue ?s2 = [?e]" and d2: "dialogs ?s2 = []" and t2: "tk_errors ?s2 = []"
    and c2: "clients_ready ?s2"
    unfolding s2 by (simp_all add: a1 worker_except_def post_def Let_def del: user_step.simps)
  have "gui_step example_env ?s2 (Callback True) ?s3"
    using gui_step.callback [of ?s2 ?e "[]" example_env True] q c2 by simp
  then have "dialogs ?s3 = dialogs ?s2 \<and> tk_errors ?s3 = tk_errors ?s2 @ [name_error_msg]"
    using worker_error_dialog_lost [OF r2 _ q] by (simp add: app_init_def)
  then show ?thesis using d2 t2 by simp
qed



text \<open>C30. Saving a translation never overwrites the original subtitle file:
  whatever the user answers, the original path keeps its content.\<close>

theorem translation_result_keeps_original:
  "files (show_translation_result r p answer s) p = files s p"
  by (simp add: show_translation_result_def save_translation_keeps_original Let_def show_dialog_def set_text_def)

text \<open>C31. The download progress bar never shows progress: from any state
  where the bar is empty, as \<open>set(0)\<close> leaves it (line 524), whatever
  events, threads and callbacks follow, it is empty (0) or full (1), because
  every progress-hook callback raises TypeError before setting it.\<close>

theorem download_progress_never_partial:
  "gui_reach env s0 s \<Longrightarrow> download_progress s0 = (0, 0) \<Longrightarrow>
   download_progress s = (0, 0) \<or> download_progress s = (1, 0)"
  using reach_download_progress by fastforce

theorem download_progress_never_partial_witness:
  "download_progress (app_init example_form Map.empty ''10:00:00'') = (0, 0) \<and>
   (download_progress (app_init example_form Map.empty ''10:00:00'') = (0, 0) \<or>
    download_progress (app_init example_form Map.empty ''10:00:00'') = (1, 0))"
proof -
  have h: "download_progress (app_init example_form Map.empty ''10:00:00'') = (0, 0)"
    by (simp add: app_init_def)
  then show ?thesis using download_progress_never_partial [OF gui_reach.refl h] by simp
qed

lemma show_tab_names: "[gui_tab_1, gui_tab_2, gui_tab_3, gui_tab_4, gui_tab_5] = tab_names"
  by (simp add: tab_names_def gui_tab_1_def gui_tab_2_def gui_tab_3_def gui_tab_4_def gui_tab_5_def)

text \<open>C2. The navigation buttons select the tabs \<open>create_widgets\<close> created:
  \<open>show_tab1\<close> .. \<open>show_tab5\<close> pass \<open>CTkTabview.set\<close> exactly the names added
  at lines 77--88, so the \<open>n\<close>-th button shows the \<open>n\<close>-th tab and never
  raises \<open>ValueError\<close>.\<close>

theorem show_tab_selects:
  assumes "1 \<le> n" "n \<le> 5"
  shows "show_tab n s = s\<lparr>current_tab := tab_names ! (n - 1)\<rparr>"
proof -
  have "n - 1 < length tab_names" using assms by (simp add: tab_names_def)
  then have "tab_names ! (n - 1) \<in> set tab_names" by (rule nth_mem)
  then show ?thesis using assms by (simp add: show_tab_def tabview_set_def show_tab_names)
qed

theorem show_tab_selects_witness:
  "show_tab 5 (app_init example_form Map.empty ''10:00:00'') =
     (app_init example_form Map.empty ''10:00:00'')\<lparr>current_tab := tab_names ! 4\<rparr>"
  using show_tab_selects [of 5 "app_init example_form Map.empty ''10:00:00''"] by simp

end
