(* ===== verification/Layout.thy ===== *)
theory Layout
  imports Gui
begin

text \<open>
  The window layout of \<open>MainApp\<close> (src/src/gui.py, \<open>create_widgets\<close> and
  the \<open>create_tab*_content\<close> methods, lines 53--766) as far as the handlers
  read it: the values each combo box offers, and the first values of the
  entries, combo boxes and check boxes. A combo box without \<open>set\<close> shows its
  first value; an entry with a placeholder reads as empty. The frames,
  labels, fonts and grid positions have no effect on the handlers.
\<close>

section \<open>Texts\<close>

definition gui_keep_length :: string where
  \<comment> \<open>giu nguyen\<close>
  "gui_keep_length = ''gi'' @ [CHR 0xE1, CHR 0xBB, CHR 0xAF] @ '' nguy'' @ [CHR 0xC3, CHR 0xAA] @ ''n''"

definition gui_detail_default :: string where
  \<comment> \<open>chi tiet\<close>
  "gui_detail_default = ''chi ti'' @ [CHR 0xE1, CHR 0xBA, CHR 0xBF] @ ''t''"

definition gui_style_default :: string where
  \<comment> \<open>hien dai\<close>
  "gui_style_default = ''hi'' @ [CHR 0xE1, CHR 0xBB, CHR 0x87] @ ''n '' @ [CHR 0xC4, CHR 0x91, CHR 0xE1, CHR 0xBA, CHR 0xA1] @ ''i''"

section \<open>The values the combo boxes offer\<close>

text \<open>Line 182: the edit types of tab 1.\<close>

definition edit_type_values :: "string list" where
  "edit_type_values = [''Ch'' @ [CHR 0xE1, CHR 0xBB, CHR 0x89] @ ''nh v'' @ [CHR 0xC4, CHR 0x83] @ ''n phong'', ''T'' @ [CHR 0xC3, CHR 0xB3] @ ''m t'' @ [CHR 0xE1, CHR 0xBA, CHR 0xAF] @ ''t'', ''M'' @ [CHR 0xE1, CHR 0xBB, CHR 0x9F] @ '' r'' @ [CHR 0xE1, CHR 0xBB, CHR 0x99] @ ''ng'', ''S'' @ [CHR 0xE1, CHR 0xBB, CHR 0xAD] @ ''a l'' @ [CHR 0xE1, CHR 0xBB, CHR 0x97] @ ''i ch'' @ [CHR 0xC3, CHR 0xAD] @ ''nh t'' @ [CHR 0xE1, CHR 0xBA, CHR 0xA3], ''T'' @ [CHR 0xE1, CHR 0xBB, CHR 0x91] @ ''i '' @ [CHR 0xC6, CHR 0xB0] @ ''u h'' @ [CHR 0xC3, CHR 0xB3] @ ''a'']"

text \<open>Line 192: the lengths of tab 1.\<close>

definition length_values :: "string list" where
  "length_values = [''gi'' @ [CHR 0xE1, CHR 0xBB, CHR 0xAF] @ '' nguy'' @ [CHR 0xC3, CHR 0xAA] @ ''n'', ''ng'' @ [CHR 0xE1, CHR 0xBA, CHR 0xAF] @ ''n h'' @ [CHR 0xC6, CHR 0xA1] @ ''n'', ''d'' @ [CHR 0xC3, CHR 0xA0] @ ''i h'' @ [CHR 0xC6, CHR 0xA1] @ ''n'']"

text \<open>Line 286: the source languages of tab 2.\<close>

definition src_lang_values :: "string list" where
  "src_lang_values = [''zh'', ''en'', ''ja'', ''ko'', ''vi'', ''auto'']"

text \<open>Line 295: the target languages of tab 2.\<close>

definition tgt_lang_values :: "string list" where
  "tgt_lang_values = [''vi'', ''en'', ''zh'', ''ja'', ''ko'']"

text \<open>Line 423: the qualities of tab 3.\<close>

definition quality_values :: "string list" where
  "quality_values = [''best'', ''1080p'', ''720p'', ''480p'', ''360p'', ''worst'']"

text \<open>Line 434: the formats of tab 3.\<close>

definition format_values :: "string list" where
  "format_values = [''mp4'', ''mkv'', ''webm'', ''flv'']"

text \<open>Line 552: the image styles of tab 4.\<close>

definition image_style_values :: "string list" where
  "image_style_values = [''anime'', ''realistic'', ''painting'', ''digital art'', ''fantasy'', ''cinematic'']"

text \<open>Line 567: the detail levels of tab 4.\<close>

definition detail_level_values :: "string list" where
  "detail_level_values = [''c'' @ [CHR 0xC6, CHR 0xA1] @ '' b'' @ [CHR 0xE1, CHR 0xBA, CHR 0xA3] @ ''n'', ''chi ti'' @ [CHR 0xE1, CHR 0xBA, CHR 0xBF] @ ''t'', ''r'' @ [CHR 0xE1, CHR 0xBA, CHR 0xA5] @ ''t chi ti'' @ [CHR 0xE1, CHR 0xBA, CHR 0xBF] @ ''t'']"

text \<open>Line 662: the models of tab 5.\<close>

definition image_model_values :: "string list" where
  "image_model_values = [''stable-diffusion'', ''midjourney-style'', ''anime-diffusion'', ''realistic-vision'']"

text \<open>Line 671: the image sizes of tab 5.\<close>

definition image_size_values :: "string list" where
  "image_size_values = [''512x512'', ''768x768'', ''1024x1024'', ''512x768'', ''768x512'']"

text \<open>Line 698: the samplers of tab 5.\<close>

definition sampler_values :: "string list" where
  "sampler_values = [''Euler a'', ''DPM++ 2M'', ''DDIM'', ''LMS'', ''Heun'']"

section \<open>The first values of the form\<close>

text \<open>The first values of the entries, option menus and check boxes, tab by
  tab as \<open>create_widgets\<close> sets them; a combo box without \<open>set\<close> shows its
  first value, and an entry with a placeholder reads as empty.\<close>

definition empty_form :: form where
  "empty_form =
     \<lparr>edit_type = [], length_var = [], srt_file_path = [], src_lang_combo = [], tgt_lang_combo = [],
      trans_style = [], batch_size_text = [], video_url = [], quality = [], format_var = [],
      download_path = [], subtitle_var = False, audio_only_var = False, image_style = [],
      num_scenes_text = [], detail_level = [], include_prompts = False, image_model = [],
      image_size = [], num_images_text = [], steps_text = [], cfg_scale_text = [], sampler = []\<rparr>"

text \<open>Lines 180--193.\<close>

definition tab1_defaults :: "form \<Rightarrow> form" where
  "tab1_defaults f = f\<lparr>edit_type := hd edit_type_values, length_var := gui_keep_length\<rparr>"

text \<open>Lines 263--312.\<close>

definition tab2_defaults :: "form \<Rightarrow> form" where
  "tab2_defaults f =
     f\<lparr>srt_file_path := [], src_lang_combo := ''auto'', tgt_lang_combo := ''vi'',
       trans_style := gui_style_default, batch_size_text := ''10''\<rparr>"

text \<open>Lines 388--461.\<close>

definition tab3_defaults :: "string \<Rightarrow> form \<Rightarrow> form" where
  "tab3_defaults home f =
     f\<lparr>video_url := [], quality := ''best'', format_var := ''mp4'', subtitle_var := True,
       audio_only_var := False, download_path := home @ ''/Downloads''\<rparr>"

text \<open>Lines 550--573.\<close>

definition tab4_defaults :: "form \<Rightarrow> form" where
  "tab4_defaults f =
     f\<lparr>image_style := ''anime'', num_scenes_text := ''5'', detail_level := gui_detail_default,
       include_prompts := True\<rparr>"

text \<open>Lines 660--700.\<close>

definition tab5_defaults :: "form \<Rightarrow> form" where
  "tab5_defaults f =
     f\<lparr>image_model := ''stable-diffusion'', image_size := ''512x512'', num_images_text := ''1'',
       steps_text := ''30'', cfg_scale_text := ''7.5'', sampler := ''Euler a''\<rparr>"

definition initial_form :: "string \<Rightarrow> form" where
  "initial_form home = tab5_defaults (tab4_defaults (tab3_defaults home (tab2_defaults (tab1_defaults empty_form))))"

section \<open>The options and the services\<close>

text \<open>C3. The combo boxes offer only values the services recognise: every
  edit type of tab 1 has its own instruction in \<open>StoryEditor.edit_story\<close>,
  the two non-default lengths are the ones it adds a clause for and the
  default matches neither, the default translation style has its own entry
  in \<open>translate_text\<close>'s style map, every quality of tab 3 has its own
  format selector, every detail level of tab 4 its own description, and
  every size of tab 5 parses into its width and height.\<close>

theorem offered_options_recognised:
  "(\<forall>v\<in>set edit_type_values. map_of instruction_map v \<noteq> None) \<and>
   tl length_values = [vi_shorter, vi_longer] \<and> hd length_values \<notin> {vi_shorter, vi_longer} \<and>
   map_of style_map gui_style_default \<noteq> None \<and>
   (\<forall>v\<in>set quality_values. map_of quality_map v \<noteq> None) \<and>
   (\<forall>v\<in>set detail_level_values. map_of detail_map v \<noteq> None) \<and>
   map image_size_parse image_size_values =
     [Inr (512, 512), Inr (768, 768), Inr (1024, 1024), Inr (512, 768), Inr (768, 512)]"
proof (intro conjI)
  show "\<forall>v\<in>set edit_type_values. map_of instruction_map v \<noteq> None"
    by (simp add: edit_type_values_def instruction_map_def vi_ins_style_key_def vi_ins_summary_key_def
        vi_ins_expand_key_def vi_ins_spelling_key_def vi_ins_optimize_key_def)
  show "tl length_values = [vi_shorter, vi_longer]" "hd length_values \<notin> {vi_shorter, vi_longer}"
    by (simp_all add: length_values_def vi_shorter_def vi_longer_def)
  show "map_of style_map gui_style_default \<noteq> None"
    by (simp add: style_map_def gui_style_default_def vi_style_modern_key_def)
  show "\<forall>v\<in>set quality_values. map_of quality_map v \<noteq> None"
    by (simp add: quality_values_def quality_map_def)
  show "\<forall>v\<in>set detail_level_values. map_of detail_map v \<noteq> None"
    by (simp add: detail_level_values_def detail_map_def vi_detail_basic_key_def vi_detail_key_def
        vi_detail_full_key_def)
  show "map image_size_parse image_size_values =
          [Inr (512, 512), Inr (768, 768), Inr (1024, 1024), Inr (512, 768), Inr (768, 512)]"
    by code_simp
qed

theorem offered_options_recognised_witness:
  "map_of instruction_map (edit_type_values ! 1) \<noteq> None \<and> map_of quality_map (quality_values ! 1) \<noteq> None \<and>
   map_of detail_map (detail_level_values ! 2) \<noteq> None \<and> image_size_parse (image_size_values ! 3) = Inr (512, 768)"
proof -
  have m: "edit_type_values ! 1 \<in> set edit_type_values" "quality_values ! 1 \<in> set quality_values"
    "detail_level_values ! 2 \<in> set detail_level_values"
    by (simp_all add: edit_type_values_def quality_values_def detail_level_values_def)
  have "image_size_parse (image_size_values ! 3) = map image_size_parse image_size_values ! 3"
    by (simp add: image_size_values_def)
  then show ?thesis using offered_options_recognised m by simp
qed
end
