(* ===== verification/Startup.thy ===== *)
theory Startup
  imports Json Layout
begin

text \<open>
  Start-up of the application: \<open>main()\<close> and \<open>create_default_config\<close>
  (src/src/main.py), \<open>setup_logger\<close> (src/src/utils/logger.py) and the
  parts of \<open>MainApp.__init__\<close> (src/src/gui.py) that read the
  configuration and give the widgets their first values. \<open>json.load\<close> is a
  library parser; the model takes it as a function of the environment from
  the file's text to the value or the message of its \<open>JSONDecodeError\<close>.
  The repository directory is \<open>st_root\<close>: main.py and gui.py live in
  \<open>st_root/src\<close>, the logger writes to \<open>st_root/logs\<close>, and the image
  generator to \<open>st_root/output/images\<close>. Each log record carries the time
  \<open>st_now\<close>. The window, the widgets and \<open>mainloop\<close> are the GUI model;
  \<open>main\<close> would end in the state \<open>app_init\<close> the main loop starts from,
  but \<open>setup_app\<close> raises \<open>NameError\<close> for \<open>Path\<close>, so every run ends in
  \<open>sys.exit(1)\<close> after printing the error (\<open>main_always_exits\<close>).
\<close>

section \<open>Texts\<close>

definition main_started :: string where
  \<comment> \<open>Khoi dong AI Story Creator Pro\<close>
  "main_started = ''Kh'' @ [CHR 0xE1, CHR 0xBB, CHR 0x9F] @ ''i '' @ [CHR 0xC4, CHR 0x91, CHR 0xE1, CHR 0xBB, CHR 0x99] @ ''ng AI Story Creator Pro''"

definition main_version :: string where
  \<comment> \<open>Phien ban: \<close>
  "main_version = ''Phi'' @ [CHR 0xC3, CHR 0xAA] @ ''n b'' @ [CHR 0xE1, CHR 0xBA, CHR 0xA3] @ ''n: ''"

definition main_error :: string where
  \<comment> \<open>Loi khoi dong ung dung: \<close>
  "main_error = ''L'' @ [CHR 0xE1, CHR 0xBB, CHR 0x97] @ ''i kh'' @ [CHR 0xE1, CHR 0xBB, CHR 0x9F] @ ''i '' @ [CHR 0xC4, CHR 0x91, CHR 0xE1, CHR 0xBB, CHR 0x99] @ ''ng '' @ [CHR 0xE1, CHR 0xBB, CHR 0xA9] @ ''ng d'' @ [CHR 0xE1, CHR 0xBB, CHR 0xA5] @ ''ng: ''"

definition main_press_enter :: string where
  \<comment> \<open>Nhan Enter de thoat...\<close>
  "main_press_enter = ''Nh'' @ [CHR 0xE1, CHR 0xBA, CHR 0xA5] @ ''n Enter '' @ [CHR 0xC4, CHR 0x91, CHR 0xE1, CHR 0xBB, CHR 0x83] @ '' tho'' @ [CHR 0xC3, CHR 0xA1] @ ''t...''"


section \<open>The environment and the state of \<open>main\<close>\<close>

record startup_env =
  st_lm_http :: "request \<Rightarrow> http_result"
  st_srt_parse :: "string \<Rightarrow> sub_item list"
  st_ydl :: "ydl_request \<Rightarrow> ydl_outcome"
  st_sd :: "sd_request \<Rightarrow> sd_result"
  st_json_load :: "string \<Rightarrow> string + json"
  st_root :: string
  st_home :: string
  st_now :: string
  st_day :: string
  st_clock :: string

text \<open>What \<open>main\<close> changes: the file system, what it writes to standard
  output, and the file of the logger's \<open>FileHandler\<close> once it is open.\<close>

record main_state =
  ms_files :: fs
  ms_out :: "string list"
  ms_log :: "string option"

text \<open>\<open>Path(__file__).parent\<close> of main.py and gui.py.\<close>

definition main_dir :: "string \<Rightarrow> string" where
  "main_dir root = root @ ''/src''"

section \<open>The default configuration (main.py, lines 55--85)\<close>

definition default_config :: json where
  "default_config =
     JObj [(''app_name'', JStr ''AI Story Creator Pro''), (''version'', JStr ''1.0.0''),
           (''lm_studio_url'', JStr ''http://localhost:1234/v1''), (''sd_api_url'', JStr ''http://localhost:7860''),
           (''themes'', JObj [(''light'', JStr ''#FFFFFF''), (''dark'', JStr ''#1E1E1E''),
                              (''primary'', JStr ''#6366F1''), (''secondary'', JStr ''#8B5CF6'')]),
           (''translation_styles'', JArr (map JStr [vi_style_modern_key, vi_style_classic_key, vi_style_literary_key,
                                                   vi_style_plain_key, vi_style_young_key])),
           (''platforms'', JArr (map JStr [''bilibili.com'', ''v.qq.com'', ''youku.com'', ''iqiyi.com'', ''douyin.com'']))]"

definition create_default_config :: "string \<Rightarrow> fs \<Rightarrow> os_error + fs" where
  "create_default_config config_path fs = write_file config_path (json_dump default_config) fs"

section \<open>The logger (utils/logger.py)\<close>

definition log_dir :: "string \<Rightarrow> string" where
  "log_dir root = root @ ''/logs''"

definition log_file :: "string \<Rightarrow> string \<Rightarrow> string" where
  "log_file root day = log_dir root @ ''/app_'' @ day @ ''.log''"

text \<open>\<open>open(p, 'a')\<close> of \<open>FileHandler\<close>: an absent file is created empty.\<close>

definition open_append :: "string \<Rightarrow> fs \<Rightarrow> os_error + fs" where
  "open_append p fs =
     (if fs (dirname p) \<noteq> Some Dir then Inl (File_not_found p)
      else case fs p of
             None \<Rightarrow> Inr (fs(p \<mapsto> File []))
           | Some Dir \<Rightarrow> Inl (Is_a_directory p)
           | Some _ \<Rightarrow> Inr fs)"

text \<open>Lines 6--40: the directory of the logs, then the file handler.\<close>

definition setup_logger :: "startup_env \<Rightarrow> main_state \<Rightarrow> string + main_state" where
  "setup_logger env st =
     (case mkdir (log_dir (st_root env)) (ms_files st) of
        Inl e \<Rightarrow> Inl (os_error_msg e)
      | Inr fs1 \<Rightarrow>
          (case open_append (log_file (st_root env) (st_day env)) fs1 of
             Inl e \<Rightarrow> Inl (os_error_msg e)
           | Inr fs2 \<Rightarrow> Inr (st\<lparr>ms_files := fs2, ms_log := Some (log_file (st_root env) (st_day env))\<rparr>)))"

text \<open>A record formatted by \<open>'%(asctime)s - %(name)s - %(levelname)s -
  %(message)s'\<close>.\<close>

definition log_record :: "startup_env \<Rightarrow> string \<Rightarrow> string" where
  "log_record env msg = st_now env @ '' - AI_Story_App - INFO - '' @ msg @ [CHR ''\<newline>'']"

text \<open>\<open>logger.info(msg)\<close>: the console handler, then the file handler.\<close>

definition logger_info :: "startup_env \<Rightarrow> string \<Rightarrow> main_state \<Rightarrow> main_state" where
  "logger_info env msg st =
     (let line = log_record env msg; st1 = st\<lparr>ms_out := ms_out st @ [line]\<rparr>
      in case ms_log st of
           None \<Rightarrow> st1
         | Some p \<Rightarrow>
             (case ms_files st p of
                Some (File c) \<Rightarrow> st1\<lparr>ms_files := (ms_files st)(p \<mapsto> File (c @ line))\<rparr>
              | _ \<Rightarrow> st1))"

section \<open>\<open>MainApp.__init__\<close> (gui.py)\<close>

text \<open>The widgets whose content comes from the configuration.\<close>

record widgets =
  w_title :: json
  w_app_name_label :: json
  w_version_label :: string
  w_styles :: json
  w_platform_labels :: "string list"

text \<open>Lines 401--413: one label \<open>f"\<bullet> {platforms[idx]}"\<close> per platform.\<close>

definition platform_labels :: "json \<Rightarrow> string + string list" where
  "platform_labels ps =
     (case py_items ps of
        Inl e \<Rightarrow> Inl e
      | Inr items \<Rightarrow> Inr (map (\<lambda>p. [CHR 0xE2, CHR 0x80, CHR 0xA2, CHR '' ''] @ p) items))"

text \<open>Lines 45--51: the clients, built from the two URLs.\<close>

definition setup_clients :: "startup_env \<Rightarrow> json \<Rightarrow> fs \<Rightarrow> string + (gui_env \<times> fs)" where
  "setup_clients env config fs =
     (case py_getitem config ''lm_studio_url'' of
        Inl e \<Rightarrow> Inl e
      | Inr lm_url \<Rightarrow>
          (case py_getitem config ''sd_api_url'' of
             Inl e \<Rightarrow> Inl e
           | Inr sd_url \<Rightarrow>
               (case image_generator_init (py_str sd_url) (st_root env) fs of
                  Inl e \<Rightarrow> Inl (os_error_msg e)
                | Inr (gen, fs') \<Rightarrow>
                    Inr (\<lparr>lm_http = st_lm_http env, lm_client = lm_client_init (py_str lm_url),
                          srt_parse = st_srt_parse env, ydl = st_ydl env, sd = st_sd env, image_gen = gen,
                          home_dir = st_home env, app_dir = main_dir (st_root env)\<rparr>, fs'))))"

text \<open>\<open>str(e)\<close> of the \<open>NameError\<close> for \<open>Path\<close>.\<close>

definition path_name_error :: string where
  "path_name_error = ''name '' @ quoted ''Path'' @ '' is not defined''"

text \<open>Lines 26--35: \<open>setup_app\<close> gives the window its title from the
  configuration (line 28), then builds the icon path with \<open>Path(__file__)\<close>
  (line 33). gui.py never imports \<open>Path\<close> (lines 1--15), so the lookup
  of the name raises \<open>NameError\<close> for every configuration that has an
  \<open>app_name\<close>; the success value, the title, is the one the code would go
  on with.\<close>

definition setup_app :: "json \<Rightarrow> string + json" where
  "setup_app config =
     (case py_getitem config ''app_name'' of
        Inl e \<Rightarrow> Inl e
      | Inr title \<Rightarrow> Inl path_name_error)"

text \<open>Lines 17--24: \<open>setup_app\<close>, then \<open>create_widgets\<close>, which reads the
  name, the version, the styles and the platforms (lines 118, 150, 304,
  401), then \<open>setup_clients\<close>, which reads the URLs. Since \<open>setup_app\<close>
  always raises, the last two are never reached.\<close>

definition mainapp_init :: "startup_env \<Rightarrow> json \<Rightarrow> fs \<Rightarrow> string + (widgets \<times> gui_env \<times> fs)" where
  "mainapp_init env config fs =
     (case setup_app config of Inl e \<Rightarrow> Inl e | Inr title \<Rightarrow>
      case py_getitem config ''app_name'' of Inl e \<Rightarrow> Inl e | Inr name \<Rightarrow>
      case py_getitem config ''version'' of Inl e \<Rightarrow> Inl e | Inr ver \<Rightarrow>
      case py_getitem config ''translation_styles'' of Inl e \<Rightarrow> Inl e | Inr styles \<Rightarrow>
      case py_getitem config ''platforms'' of Inl e \<Rightarrow> Inl e | Inr ps \<Rightarrow>
      case platform_labels ps of Inl e \<Rightarrow> Inl e | Inr labels \<Rightarrow>
      case setup_clients env config fs of Inl e \<Rightarrow> Inl e | Inr (genv, fs') \<Rightarrow>
        Inr (\<lparr>w_title = title, w_app_name_label = name, w_version_label = ''Version: '' @ py_str ver,
              w_styles = styles, w_platform_labels = labels\<rparr>, genv, fs'))"

section \<open>\<open>main()\<close> (main.py, lines 21--53)\<close>

definition required_dirs :: "string list" where
  "required_dirs = [''output'', ''logs'', ''temp'', ''models'']"

fun make_dirs :: "string \<Rightarrow> string list \<Rightarrow> fs \<Rightarrow> os_error + fs" where
  "make_dirs d [] fs = Inr fs"
| "make_dirs d (n # ns) fs = (case mkdir (d @ ''/'' @ n) fs of Inl e \<Rightarrow> Inl e | Inr fs' \<Rightarrow> make_dirs d ns fs')"

datatype startup =
    is_exited: Exited (exit_out: "string list") (exit_files: fs)
  | Running (run_out: "string list") (run_files: fs) (run_widgets: widgets) (run_app: app) (run_env: gui_env)

text \<open>The \<open>except\<close> clause: the message, the prompt of \<open>input()\<close>, and
  \<open>sys.exit(1)\<close>.\<close>

definition startup_failed :: "main_state \<Rightarrow> string \<Rightarrow> startup" where
  "startup_failed st msg = Exited (ms_out st @ [main_error @ msg @ [CHR ''\<newline>''], main_press_enter]) (ms_files st)"

definition config_path :: "string \<Rightarrow> string" where
  "config_path root = main_dir root @ ''/config.json''"

definition main :: "startup_env \<Rightarrow> fs \<Rightarrow> startup" where
  "main env fs0 =
     (let st0 = \<lparr>ms_files = fs0, ms_out = [], ms_log = None\<rparr>; cp = config_path (st_root env)
      in case make_dirs (main_dir (st_root env)) required_dirs fs0 of
           Inl e \<Rightarrow> startup_failed st0 (os_error_msg e)
         | Inr fs1 \<Rightarrow>
      case setup_logger env (st0\<lparr>ms_files := fs1\<rparr>) of
           Inl msg \<Rightarrow> startup_failed (st0\<lparr>ms_files := fs1\<rparr>) msg
         | Inr st1 \<Rightarrow>
      let st2 = logger_info env (replicate 60 CHR ''='')
                  (logger_info env main_started (logger_info env (replicate 60 CHR ''='') st1))
      in case (if ms_files st2 cp = None then create_default_config cp (ms_files st2) else Inr (ms_files st2)) of
           Inl e \<Rightarrow> startup_failed st2 (os_error_msg e)
         | Inr fs3 \<Rightarrow>
      let st3 = st2\<lparr>ms_files := fs3\<rparr>
      in case read_file cp fs3 of
           Inl e \<Rightarrow> startup_failed st3 (os_error_msg e)
         | Inr text \<Rightarrow>
      case st_json_load env text of
           Inl msg \<Rightarrow> startup_failed st3 msg
         | Inr config \<Rightarrow>
      case py_getitem config ''version'' of
           Inl msg \<Rightarrow> startup_failed st3 msg
         | Inr v \<Rightarrow>
      let st4 = logger_info env (main_version @ py_str v) st3
      in case mainapp_init env config (ms_files st4) of
           Inl msg \<Rightarrow> startup_failed st4 msg
         | Inr (w, genv, fs5) \<Rightarrow>
             Running (ms_out st4) fs5 w (app_init (initial_form (st_home env)) fs5 (st_clock env)) genv)"


section \<open>Specifications of the start-up\<close>

text \<open>A fresh checkout under \<open>root\<close>, a non-empty path not ending in a
  slash: the repository and src/ directories are present, and none of the
  paths \<open>main\<close> creates is.\<close>

definition fresh_checkout :: "string \<Rightarrow> string \<Rightarrow> fs \<Rightarrow> bool" where
  "fresh_checkout root day fs \<longleftrightarrow>
     root \<noteq> [] \<and> last root \<noteq> CHR ''/'' \<and> CHR ''/'' \<notin> set day \<and>
     fs root = Some Dir \<and> fs (main_dir root) = Some Dir \<and>
     list_all (\<lambda>p. fs p = None)
       (map (\<lambda>n. main_dir root @ ''/'' @ n) required_dirs @
        [config_path root, log_dir root, log_file root day, root @ ''/output'', images_dir root])"

text \<open>A checkout of the repository as cloned: the repository and src/
  directories with main.py, nothing that \<open>main\<close> creates.\<close>

definition example_checkout :: fs where
  "example_checkout = [''/r'' \<mapsto> Dir, ''/r/src'' \<mapsto> Dir, ''/r/src/main.py'' \<mapsto> File ''main()'']"

text \<open>An environment whose JSON parser reads the default configuration and
  an empty object.\<close>

definition example_startup_env :: startup_env where
  "example_startup_env =
     \<lparr>st_lm_http = (\<lambda>_. Raised ''Connection refused''), st_srt_parse = (\<lambda>_. []),
      st_ydl = (\<lambda>_. Ydl_failed [] ''ERROR: Unsupported URL''), st_sd = (\<lambda>_. Sd_raised ''Connection refused''),
      st_json_load = (\<lambda>t. if t = json_dump default_config then Inr default_config
                           else if t = ''{}'' then Inr (JObj [])
                           else Inl ''Expecting value: line 1 column 1 (char 0)''),
      st_root = ''/r'', st_home = ''/home/u'', st_now = ''2026-11-09 10:00:00'', st_day = ''20261109'',
      st_clock = ''10:00:00''\<rparr>"

section \<open>Properties of the start-up\<close>

lemma default_config_items:
  "py_getitem default_config ''app_name'' = Inr (JStr ''AI Story Creator Pro'')"
  "py_getitem default_config ''version'' = Inr (JStr ''1.0.0'')"
  "py_getitem default_config ''lm_studio_url'' = Inr (JStr ''http://localhost:1234/v1'')"
  "py_getitem default_config ''sd_api_url'' = Inr (JStr ''http://localhost:7860'')"
  "py_getitem default_config ''translation_styles'' =
     Inr (JArr (map JStr [vi_style_modern_key, vi_style_classic_key, vi_style_literary_key, vi_style_plain_key, vi_style_young_key]))"
  "py_getitem default_config ''platforms'' =
     Inr (JArr (map JStr [''bilibili.com'', ''v.qq.com'', ''youku.com'', ''iqiyi.com'', ''douyin.com'']))"
  by (simp_all add: py_getitem_def default_config_def py_dict_def)

lemma default_config_text:
  "utf8_check 0 (json_dump default_config) = None" "CHR 0x0D \<notin> set (json_dump default_config)"
  by code_simp+

lemma fresh_checkout_facts:
  assumes "fresh_checkout r d fs"
  shows "r \<noteq> []" "last r \<noteq> CHR ''/''" "CHR ''/'' \<notin> set d" "fs r = Some Dir" "fs (r @ ''/src'') = Some Dir"
    "fs (r @ ''/src/output'') = None" "fs (r @ ''/src/logs'') = None" "fs (r @ ''/src/temp'') = None"
    "fs (r @ ''/src/models'') = None" "fs (r @ ''/src/config.json'') = None" "fs (r @ ''/logs'') = None"
    "fs (log_file r d) = None" "fs (r @ ''/output'') = None" "fs (r @ ''/output/images'') = None"
  using assms
  by (simp_all add: fresh_checkout_def main_dir_def required_dirs_def config_path_def log_dir_def images_dir_def)

lemma startup_dirnames:
  assumes "r \<noteq> []" "last r \<noteq> CHR ''/''" "CHR ''/'' \<notin> set d"
  shows "dirname (r @ ''/src'') = r" "dirname (r @ ''/src/output'') = r @ ''/src''"
     "dirname (r @ ''/src/logs'') = r @ ''/src''" "dirname (r @ ''/src/temp'') = r @ ''/src''"
     "dirname (r @ ''/src/models'') = r @ ''/src''" "dirname (r @ ''/src/config.json'') = r @ ''/src''"
     "dirname (r @ ''/logs'') = r" "dirname (log_file r d) = r @ ''/logs''"
     "dirname (r @ ''/output'') = r" "dirname (r @ ''/output/images'') = r @ ''/output''"
  using dirname_child [of r "''src''"] dirname_child [of "r @ ''/src''"] dirname_child [of r "''logs''"]
    dirname_child [of "r @ ''/logs''" "''app_'' @ d @ ''.log''"] dirname_child [of r "''output''"]
    dirname_child [of "r @ ''/output''" "''images''"] assms
  by (simp_all add: log_file_def log_dir_def)

lemma log_file_eq:
  "log_file r d = r @ xs \<longleftrightarrow> xs = ''/logs/app_'' @ d @ ''.log''"
  "r @ xs = log_file r d \<longleftrightarrow> xs = ''/logs/app_'' @ d @ ''.log''"
  "log_file r d \<noteq> r"  "r \<noteq> log_file r d"
  by (auto simp: log_file_def log_dir_def)

lemma mainapp_init_error:
  "mainapp_init env config fs = Inl (case py_getitem config ''app_name'' of Inl e \<Rightarrow> e | Inr _ \<Rightarrow> path_name_error)"
  by (simp add: mainapp_init_def setup_app_def split: sum.split)

lemma main_always_exits: "is_exited (main env fs)"
  by (simp add: main_def Let_def startup_failed_def mainapp_init_error split: sum.split)

lemmas startup_simps = main_def config_path_def main_dir_def required_dirs_def mkdir_def setup_logger_def
  log_dir_def open_append_def logger_info_def Let_def create_default_config_def write_file_def
  write_node_def read_file_def py_str_def mainapp_init_error startup_failed_def log_file_eq

lemma main_first_run:
  assumes fr: "fresh_checkout (st_root env) (st_day env) fs"
    and js: "st_json_load env (json_dump default_config) = Inr default_config"
  shows "main env fs =
     (let r = st_root env;
          lines = map (log_record env) [replicate 60 CHR ''='', main_started, replicate 60 CHR ''='', main_version @ ''1.0.0''];
          fs' = fs(main_dir r @ ''/output'' \<mapsto> Dir, main_dir r @ ''/logs'' \<mapsto> Dir, main_dir r @ ''/temp'' \<mapsto> Dir,
                   main_dir r @ ''/models'' \<mapsto> Dir, log_dir r \<mapsto> Dir, config_path r \<mapsto> File (json_dump default_config),
                   log_file r (st_day env) \<mapsto> File (concat lines))
      in Exited (lines @ [main_error @ path_name_error @ [CHR ''\<newline>''], main_press_enter]) fs')"
proof -
  obtain r d where r: "st_root env = r" and d: "st_day env = d" by blast
  note f = fresh_checkout_facts [OF fr [unfolded r d]]
  show ?thesis
    using startup_dirnames [OF f(1-3)]
    by (simp add: startup_simps r d f default_config_text univ_nl_no_cr js default_config_items)
qed

text \<open>C32. The first run of a fresh checkout never opens the window:
  \<open>main\<close> makes the four directories of src/, opens the log, writes the
  default configuration, reads it back and logs the version; then
  \<open>MainApp.__init__\<close> raises \<open>NameError\<close> for \<open>Path\<close> in \<open>setup_app\<close>, and
  \<open>main\<close> prints the message and the prompt of \<open>input()\<close> and exits. The log
  file holds the four records also printed.\<close>

theorem first_run_fails:
  assumes fr: "fresh_checkout (st_root env) (st_day env) fs"
    and js: "st_json_load env (json_dump default_config) = Inr default_config"
  shows "main env fs =
     (let r = st_root env;
          lines = map (log_record env) [replicate 60 CHR ''='', main_started, replicate 60 CHR ''='', main_version @ ''1.0.0''];
          fs' = fs(main_dir r @ ''/output'' \<mapsto> Dir, main_dir r @ ''/logs'' \<mapsto> Dir, main_dir r @ ''/temp'' \<mapsto> Dir,
                   main_dir r @ ''/models'' \<mapsto> Dir, log_dir r \<mapsto> Dir, config_path r \<mapsto> File (json_dump default_config),
                   log_file r (st_day env) \<mapsto> File (concat lines))
      in Exited (lines @ [main_error @ path_name_error @ [CHR ''\<newline>''], main_press_enter]) fs')"
  using assms by (rule main_first_run)

theorem first_run_fails_witness:
  "last (butlast (exit_out (main example_startup_env example_checkout))) =
     main_error @ path_name_error @ [CHR ''\<newline>''] \<and>
   exit_files (main example_startup_env example_checkout) ''/r/src/config.json'' = Some (File (json_dump default_config))"
proof -
  have h1: "fresh_checkout (st_root example_startup_env) (st_day example_startup_env) example_checkout"
    by (simp add: fresh_checkout_def example_startup_env_def example_checkout_def main_dir_def required_dirs_def
                  config_path_def log_dir_def log_file_def images_dir_def)
  have h2: "st_json_load example_startup_env (json_dump default_config) = Inr default_config"
    by (simp add: example_startup_env_def)
  show ?thesis
    using first_run_fails [OF h1 h2]
    by (simp add: Let_def config_path_def main_dir_def example_startup_env_def log_file_def log_dir_def)
qed

text \<open>C33. No configuration lets the application start: with any
  config.json that decodes and has a \<open>version\<close>, \<open>main\<close> exits, printing the
  \<open>KeyError\<close> for \<open>app_name\<close> when the value has no such key (or the
  \<open>TypeError\<close> when it is not a dict), and the \<open>NameError\<close> for \<open>Path\<close>
  otherwise.\<close>

theorem config_exit_message:
  assumes fr: "fresh_checkout (st_root env) (st_day env) fs" and u: "utf8_check 0 t = None"
    and js: "st_json_load env (univ_nl t) = Inr v" and ver: "py_getitem v ''version'' = Inr w"
  shows "\<exists>out fs'. main env (fs(config_path (st_root env) \<mapsto> File t)) =
           Exited (out @ [main_error @ (case py_getitem v ''app_name'' of Inl e \<Rightarrow> e | Inr _ \<Rightarrow> path_name_error) @
                          [CHR ''\<newline>''], main_press_enter]) fs'"
proof -
  obtain r d where r: "st_root env = r" and d: "st_day env = d" by blast
  note f = fresh_checkout_facts [OF fr [unfolded r d]]
  show ?thesis
    using startup_dirnames [OF f(1-3)]
    by (simp add: startup_simps r d f u js ver)
qed

theorem config_exit_message_witness:
  "last (butlast (exit_out (main example_startup_env
      (example_checkout(''/r/src/config.json'' \<mapsto> File (json_dump default_config)))))) =
     main_error @ path_name_error @ [CHR ''\<newline>'']"
proof -
  have h1: "fresh_checkout (st_root example_startup_env) (st_day example_startup_env) example_checkout"
    by (simp add: fresh_checkout_def example_startup_env_def example_checkout_def main_dir_def required_dirs_def
                  config_path_def log_dir_def log_file_def images_dir_def)
  have h2: "st_json_load example_startup_env (univ_nl (json_dump default_config)) = Inr default_config"
    by (simp add: example_startup_env_def univ_nl_no_cr default_config_text)
  have cp: "config_path (st_root example_startup_env) = ''/r/src/config.json''"
    by (simp add: config_path_def main_dir_def example_startup_env_def)
  obtain out fs' where "main example_startup_env (example_checkout(''/r/src/config.json'' \<mapsto> File (json_dump default_config))) =
      Exited (out @ [main_error @ path_name_error @ [CHR ''\<newline>''], main_press_enter]) fs'"
    using config_exit_message [OF h1 default_config_text(1) h2 default_config_items(2)]
    by (auto simp: cp default_config_items(1))
  then show ?thesis by (simp add: butlast_append)
qed

end
