(* ===== verification/Build.thy ===== *)
theory Build
  imports Gui
begin

text \<open>
  The build script src/build.py (\<open>build_app\<close>): it checks for
  src/main.py, makes build/, copies assets/ into it, runs PyInstaller on
  src/main.py, then copies config.json and README.md next to the executable.
  Paths are relative to the directory of build.py, the repository root.
  PyInstaller is a library: the model takes its build as a function of the
  environment from the argument list and the file system, and models the
  one check the arguments decide, that every \<open>--add-data\<close> source exists
  (PyInstaller stops with \<open>Unable to find ... when adding binary and data
  files\<close> otherwise). \<open>build_app\<close> has no \<open>try\<close>: an exception ends the
  script with a traceback.
\<close>

section \<open>Texts\<close>

definition build_not_found :: string where
  \<comment> \<open>? Loi: Khong tim thay \<close>
  "build_not_found = [CHR 0xE2, CHR 0x9D, CHR 0x8C] @ '' L'' @ [CHR 0xE1, CHR 0xBB, CHR 0x97] @ ''i: Kh'' @ [CHR 0xC3, CHR 0xB4] @ ''ng t'' @ [CHR 0xC3, CHR 0xAC] @ ''m th'' @ [CHR 0xE1, CHR 0xBA, CHR 0xA5] @ ''y ''"

definition build_found :: string where
  \<comment> \<open>? Tim thay main.py tai: \<close>
  "build_found = [CHR 0xE2, CHR 0x9C, CHR 0x85] @ '' T'' @ [CHR 0xC3, CHR 0xAC] @ ''m th'' @ [CHR 0xE1, CHR 0xBA, CHR 0xA5] @ ''y main.py t'' @ [CHR 0xE1, CHR 0xBA, CHR 0xA1] @ ''i: ''"

definition build_copying_assets :: string where
  \<comment> \<open> / ? Copying assets...\<close>
  "build_copying_assets = [CHR 0x0A, CHR 0xF0, CHR 0x9F, CHR 0x93, CHR 0x81] @ '' Copying assets...''"

definition build_building :: string where
  \<comment> \<open> / ? Building executable...\<close>
  "build_building = [CHR 0x0A, CHR 0xF0, CHR 0x9F, CHR 0x9A, CHR 0x80] @ '' Building executable...''"

definition build_completed :: string where
  \<comment> \<open> / ? Build completed!\<close>
  "build_completed = [CHR 0x0A, CHR 0xE2, CHR 0x9C, CHR 0x85] @ '' Build completed!''"

definition build_output :: string where
  \<comment> \<open>? Output: \<close>
  "build_output = [CHR 0xF0, CHR 0x9F, CHR 0x93, CHR 0x81] @ '' Output: ''"

definition build_copying_files :: string where
  \<comment> \<open> / ? Copying additional files...\<close>
  "build_copying_files = [CHR 0x0A, CHR 0xF0, CHR 0x9F, CHR 0x93, CHR 0x8B] @ '' Copying additional files...''"

definition build_success :: string where
  \<comment> \<open> / ? Build process completed successfully!\<close>
  "build_success = [CHR 0x0A, CHR 0xF0, CHR 0x9F, CHR 0x8E, CHR 0x89] @ '' Build process completed successfully!''"

definition build_next_steps :: string where
  \<comment> \<open> / ? Next steps:\<close>
  "build_next_steps = [CHR 0x0A, CHR 0xF0, CHR 0x9F, CHR 0x93, CHR 0x9D] @ '' Next steps:''"


section \<open>Directory trees\<close>

text \<open>\<open>q\<close> is \<open>p\<close> or a path below it.\<close>

definition under :: "string \<Rightarrow> string \<Rightarrow> bool" where
  "under p q \<longleftrightarrow> q = p \<or> take (Suc (length p)) q = p @ ''/''"

text \<open>\<open>shutil.rmtree(p)\<close>.\<close>

definition rmtree :: "string \<Rightarrow> fs \<Rightarrow> os_error + fs" where
  "rmtree p fs =
     (case fs p of
        None \<Rightarrow> Inl (File_not_found p)
      | Some Dir \<Rightarrow> Inr (\<lambda>q. if under p q then None else fs q)
      | Some _ \<Rightarrow> Inl (Not_a_directory p))"

text \<open>\<open>shutil.copytree(src, dst)\<close>, into a \<open>dst\<close> that does not exist yet.\<close>

definition copytree :: "string \<Rightarrow> string \<Rightarrow> fs \<Rightarrow> os_error + fs" where
  "copytree src dst fs =
     (case fs src of
        None \<Rightarrow> Inl (File_not_found src)
      | Some Dir \<Rightarrow>
          if fs dst \<noteq> None then Inl (File_exists dst)
          else Inr (\<lambda>q. if under dst q then fs (src @ drop (length dst) q) else fs q)
      | Some _ \<Rightarrow> Inl (Not_a_directory src))"

text \<open>\<open>shutil.copy2(src, dst)\<close> of a file.\<close>

definition copy2 :: "string \<Rightarrow> string \<Rightarrow> fs \<Rightarrow> os_error + fs" where
  "copy2 src dst fs =
     (case fs src of
        None \<Rightarrow> Inl (File_not_found src)
      | Some Dir \<Rightarrow> Inl (Is_a_directory src)
      | Some n \<Rightarrow> write_node dst n fs)"

section \<open>The script\<close>

record build_env =
  b_root :: string
  b_pyinstaller :: "string list \<Rightarrow> fs \<Rightarrow> string + fs"

datatype build_result =
    Build_returned (b_out: "string list") (b_files: fs)
  | Build_raised (b_out: "string list") (b_files: fs) (b_error: string)
  | Build_done (b_out: "string list") (b_files: fs)

text \<open>Lines 43--59, with \<open>os.pathsep = ':'\<close>.\<close>

definition pyinstaller_args :: "string \<Rightarrow> string list" where
  "pyinstaller_args root =
     [root @ ''/src/main.py'', ''--name=AI_Story_Creator_Pro'', ''--windowed'',
      ''--icon='' @ root @ ''/assets/icon.ico'',
      ''--add-data='' @ root @ ''/assets:assets'',
      ''--add-data='' @ root @ ''/config.json:.'',
      ''--hidden-import=customtkinter'', ''--hidden-import=PIL'', ''--hidden-import=PIL._imagingtk'',
      ''--hidden-import=PIL._tkinter_finder'', ''--collect-all=customtkinter'', ''--collect-all=PIL'',
      ''--clean'', ''--noconfirm'', ''--paths='' @ root @ ''/src'']"

text \<open>The sources of the \<open>--add-data=SRC:DEST\<close> arguments, for a root
  without a colon.\<close>

definition data_sources :: "string list \<Rightarrow> string list" where
  "data_sources args =
     map (\<lambda>a. takeWhile (\<lambda>c. c \<noteq> CHR '':'') (drop 11 a)) (filter (\<lambda>a. take 11 a = ''--add-data='') args)"

definition run_pyinstaller :: "build_env \<Rightarrow> string list \<Rightarrow> fs \<Rightarrow> string + fs" where
  "run_pyinstaller env args fs =
     (case filter (\<lambda>p. fs p = None) (data_sources args) of
        p # _ \<Rightarrow> Inl (''Unable to find '' @ quoted p @ '' when adding binary and data files.'')
      | [] \<Rightarrow> b_pyinstaller env args fs)"

text \<open>Lines 71--77: the two files, when they exist.\<close>

fun copy_files :: "string \<Rightarrow> string list \<Rightarrow> fs \<Rightarrow> os_error + fs" where
  "copy_files root [] fs = Inr fs"
| "copy_files root (n # ns) fs =
     (if fs (root @ ''/'' @ n) = None then copy_files root ns fs
      else case copy2 (root @ ''/'' @ n) (root @ ''/dist/AI_Story_Creator_Pro/'' @ n) fs of
             Inl e \<Rightarrow> Inl e
           | Inr fs' \<Rightarrow> copy_files root ns fs')"

definition build_banner :: "string list" where
  "build_banner = [replicate 60 CHR ''='' @ ''\<newline>'', ''Building AI Story Creator Pro...\<newline>'', replicate 60 CHR ''='' @ ''\<newline>'']"

definition build_final :: "string list" where
  "build_final =
     [build_success @ ''\<newline>'', build_next_steps @ ''\<newline>'',
      ''1. Run the executable from dist/AI_Story_Creator_Pro/\<newline>'',
      ''2. Make sure LM Studio is running on http://localhost:1234\<newline>'',
      ''3. For image generation, run Stable Diffusion WebUI\<newline>'',
      ''\<newline>Need help? Check README.md for more information.\<newline>'']"

text \<open>Lines 9--88.\<close>

definition build_app :: "build_env \<Rightarrow> fs \<Rightarrow> build_result" where
  "build_app env fs0 =
     (let root = b_root env; main_py = root @ ''/src/main.py''; build_dir = root @ ''/build'';
          assets_dir = root @ ''/assets''; out0 = build_banner
      in if fs0 main_py = None then Build_returned (out0 @ [build_not_found @ main_py @ ''\<newline>'']) fs0
         else
      let out1 = out0 @ [build_found @ main_py @ ''\<newline>'']
      in case mkdir build_dir fs0 of
           Inl e \<Rightarrow> Build_raised out1 fs0 (os_error_msg e)
         | Inr fs1 \<Rightarrow>
      let out2 = out1 @ [build_copying_assets @ ''\<newline>''];
          dest_assets = build_dir @ ''/assets'';
          r2 = (if fs1 assets_dir = None then Inr fs1
                else case (if fs1 dest_assets = None then Inr fs1 else rmtree dest_assets fs1) of
                       Inl e \<Rightarrow> Inl e
                     | Inr fs \<Rightarrow> copytree assets_dir dest_assets fs)
      in case r2 of
           Inl e \<Rightarrow> Build_raised out2 fs1 (os_error_msg e)
         | Inr fs2 \<Rightarrow>
      let out3 = out2 @ [build_building @ ''\<newline>'']
      in case run_pyinstaller env (pyinstaller_args root) fs2 of
           Inl msg \<Rightarrow> Build_raised out3 fs2 msg
         | Inr fs3 \<Rightarrow>
      let out4 = out3 @ [build_completed @ ''\<newline>'', build_output @ root @ ''/dist/AI_Story_Creator_Pro\<newline>'',
                         build_copying_files @ ''\<newline>'']
      in case copy_files root [''config.json'', ''README.md''] fs3 of
           Inl e \<Rightarrow> Build_raised out4 fs3 (os_error_msg e)
         | Inr fs4 \<Rightarrow> Build_done (out4 @ build_final) fs4)"

end
