(* ===== verification/Spec2Isabelle.thy ===== *)
theory Spec2Isabelle
  imports Startup Build
begin

text \<open>
  A verification development of Mot-Ai ("AI Story Creator Pro"), a desktop
  application in Python whose sources are under src/src. The program has
  one window, \<open>MainApp\<close> (gui.py), with five tabs. Each tab's handlers
  start a worker thread that calls one service class and hands the result
  back to the Tk main loop with \<open>self.after(0, ...)\<close>. The services are:
  \<^item> \<open>LMStudioClient\<close> (api_client.py), an HTTP client for a local
    OpenAI-compatible server;
  \<^item> \<open>SRTTranslator\<close> (srt_translator.py), which cuts a subtitle file into
    batches, encodes each batch as a numbered prompt, sends it through the
    client, decodes the answer by position and writes SRT text;
  \<^item> \<open>StoryEditor\<close> (story_editor.py), prompt builders over the same client;
  \<^item> \<open>ImageGenerator\<close> (image_generator.py), a client for the Stable
    Diffusion web API that decodes base64 images and writes them to disk,
    with placeholder images on failure;
  \<^item> \<open>VideoDownloader\<close> (video_downloader.py), options and result
    handling around yt-dlp.

  \<open>main()\<close> (main.py) creates the working directories, sets up the logger
  (utils/logger.py), writes a default config.json when there is none, reads
  it with \<open>json.load\<close> and builds \<open>MainApp\<close> from it. As shipped, the
  constructor raises \<open>NameError\<close> (gui.py uses \<open>Path\<close> without importing
  it), so \<open>main\<close> always ends in its except clause and the window never
  opens; the handlers are modelled and verified as code that would run
  once that import is added. build.py packages the application with
  PyInstaller.

  \<^bold>\<open>Theories.\<close> Each theory models one component, in the order of its
  source, and imports only what that component calls.
  \<^item> Prelude: Python strings as UTF-8 byte lists (\<open>strip\<close>, \<open>split\<close>,
    \<open>join\<close>, \<open>str(n)\<close>, code-point slicing \<open>cp_take\<close>), dicts as
    insertion-ordered association lists (\<open>dict_set\<close>), and the shared
    lemmas.
  \<^item> PyFloat: IEEE doubles as pairs (mantissa, exponent) with correctly
    rounded division, the operations \<open>timedelta.total_seconds\<close> and
    \<open>int()\<close> use.
  \<^item> Texts and GuiTexts: the Vietnamese string constants, as bytes.
  \<^item> Batcher: \<open>_create_batches\<close> as a fold of \<open>batch_step\<close> over an
    explicit loop state (C1).
  \<^item> Cues: the subtitle record read from pysrt.
  \<^item> Codec: \<open>_batch_to_text\<close>, \<open>_clean_text\<close>, \<open>_text_to_subtitles\<close> with
    its regular expressions written out (C4--C7).
  \<^item> Serializer: \<open>_create_srt_content\<close> and \<open>_timedelta_to_srt\<close>, with the
    float arithmetic the code does (C8).
  \<^item> Client: \<open>LMStudioClient\<close>, with the server as a function from request
    to HTTP outcome (C9--C11).
  \<^item> Orchestrator: \<open>translate_file\<close> as a loop over batches that produces the
    output and a trace of events: progress callbacks, service calls and log
    lines (C12--C15).
  \<^item> StoryEditor (C17--C19).
  \<^item> Paths: \<open>posixpath\<close> functions and a file system, a map from paths to
    directories, files and images, with \<open>open\<close>, \<open>mkdir\<close> and
    \<open>mkdir(parents=True)\<close>.
  \<^item> Base64: CPython's non-strict \<open>a2b_base64\<close> state machine, and an
    encoder for the round trip (C20).
  \<^item> ImageGenerator (C21--C24).
  \<^item> VideoDownloader: yt-dlp is an input function whose outcome lists the
    logger and progress-hook calls it made (C25--C27).
  \<^item> Gui: the state of \<open>MainApp\<close> as a record, and one definition per event
    handler, worker closure and callback. The application is the
    relation \<open>gui_step\<close>: a user event, a started thread running its body,
    the main loop running the first queued callback, or the clock
    moving, in any interleaving; the main thread's \<open>setup_clients\<close>
    is a step too, because the connection check is started before it.
    \<open>gui_reach\<close> is reachability from a given state. The shipped code
    never reaches the main loop (see Startup), so the invariants of the
    handlers are stated from any start state with no bound exception
    variable or with the download bar at 0 (C28--C31). The tab
    view is the list of tabs \<open>create_widgets\<close> adds, and
    \<open>CTkTabview.set\<close> raises on any other name (C2).
  \<^item> Layout: the values each combo box offers and the first values of the
    form; the options are checked against the tables of the services that
    receive them (C3).
  \<^item> Json: the json values, CPython's encoder with \<open>indent=4\<close> and
    \<open>ensure_ascii=False\<close>, and what \<open>x[key]\<close>, \<open>str\<close>, \<open>repr\<close> and
    iteration do to them, with the messages of KeyError and TypeError.
  \<^item> Startup: \<open>main()\<close>, \<open>setup_logger\<close> with the records \<open>logger.info\<close>
    writes, \<open>create_default_config\<close>, and \<open>MainApp.__init__\<close>, whose
    \<open>setup_app\<close> uses \<open>Path\<close>, which gui.py never imports. \<open>main\<close>
    would end \<open>Running\<close> with the state \<open>app_init\<close>, but every run ends
    \<open>Exited\<close>, after the except clause (C32--C33).
  \<^item> Build: \<open>build_app\<close> of build.py over the same file system, with
    \<open>shutil.rmtree\<close>, \<open>copytree\<close>, \<open>copy2\<close>, and PyInstaller as an
    input function behind the check it makes that every \<open>--add-data\<close>
    source exists.
  \<^item> This theory: end-to-end properties of the translation path, from the
    client to the SRT text (C16), and of a build after a first run
    (C34).

  \<^bold>\<open>Correspondence.\<close> Every definition names its source lines in the
  text above it. The state of each class is a record, and methods take and
  return it. A raised exception is the left side of a sum type, and an
  exception caught by the code is the branch that handles it. Python ints
  are \<open>int\<close>; counts and indices are \<open>nat\<close>. Strings are byte lists, so
  every split on an ASCII separator agrees with Python's split on code
  points. Slices by code point are \<open>cp_take\<close>.

  \<^bold>\<open>What the lemmas show.\<close> For each component:
  \<^item> its functional behaviour on every branch, errors included;
  \<^item> for the batcher, equivalence with a reference chunking;
  \<^item> round trips (SRT text to blocks, base64);
  \<^item> the bounds the code promises (five formats, 200 code points);
  \<^item> for the GUI, invariants of every state reachable from a start state
    that has them, proved by rule induction over \<open>gui_reach\<close>;
  \<^item> for the start-up, the exact outcome of a first run, and the error
    \<open>main\<close> exits with for every configuration;
  \<^item> for the window, that its buttons and options agree with what the
    tab view and the services accept.
  Several theorems state behaviour that is a defect of the code. These are
  listed as findings in the manifest:
  \<^item> the window never opens: \<open>setup_app\<close> raises NameError for
    \<open>Path\<close> (C32, C33);
  \<^item> error dialogs are lost because \<open>e\<close> is unbound (C28);
  \<^item> the download progress bar never moves (C31);
  \<^item> a data URL gives placeholders (C21);
  \<^item> prompts that agree on their first 50 code points share a key of
    \<open>generate_batch\<close> (C24);
  \<^item> a description present as \<open>None\<close> fails \<open>get_video_info\<close> (C27);
  \<^item> build.py packages \<open>assets/\<close> and \<open>config.json\<close> of the
    repository root, which do not exist after a first run, so PyInstaller
    stops (C34).

  \<^bold>\<open>Termination, fuel and bounds.\<close> No model uses fuel. Every loop of
  the sources runs over a finite list, and its model is structural recursion
  or a fold. The exceptions are \<open>mkdir_p\<close>, whose recursion on the parent
  directory terminates by the measure of the path's length
  (\<open>dirname_shorter\<close>); \<open>py_repr\<close>, whose recursion goes through the
  dict \<open>json.load\<close> builds from an object's pairs (\<open>mem_py_dict\<close>); and
  \<open>cp_split\<close>, which takes one code point at a time. Numbers are unbounded because Python's are; the
  double model has no bound on its exponent, which the values involved
  (seconds of a subtitle, temperatures, scales) never approach.

  \<^bold>\<open>Assumptions.\<close>
  \<^item> A worker thread runs its body as one step. Workers only read what
    they captured and post callbacks, so the interleavings that matter are
    those of whole bodies with the main loop.
  \<^item> Whitespace is ASCII whitespace.
  \<^item> \<open>float()\<close> is modelled on unsigned decimals.
  \<^item> PIL identifies PNG and JPEG files by their signature.

  \<^bold>\<open>Not modelled.\<close>
  \<^item> The presentation part of the widget layout (gui.py lines 53--766):
    frames, fonts, colours, grid and pack positions, the logo and the
    canvas size. No handler reads them; the tabs, the combo-box values,
    the first values of the form and the labels built from the
    configuration are modelled.
  \<^item> The module loggers of the services, whose records go to handlers
    \<open>setup_logger\<close> never attaches to them.
  \<^item> \<open>json.load\<close>, an input function of \<open>main\<close>: the encoder is modelled,
    the parser is the library's.
  \<^item> What PyInstaller builds; only its check of the data sources is
    modelled.
  \<^item> The parsers of pysrt, requests and yt-dlp. These are libraries: their
    results are inputs of the model.
  \<^item> Pixel data of images.
\<close>

section \<open>End-to-end properties\<close>

lemma time_1: "timedelta_to_srt 1000000 = ''00:00:01,000''"
  by (rule trans [OF timedelta_to_srt_fields [where s = 1 and ms = 0]])
     (simp_all add: td_total_seconds_def float_eval fmt_0d_def py_simps)

lemma time_2: "timedelta_to_srt 2000000 = ''00:00:02,000''"
  by (rule trans [OF timedelta_to_srt_fields [where s = 2 and ms = 0]])
     (simp_all add: td_total_seconds_def float_eval fmt_0d_def py_simps)

lemma time_3: "timedelta_to_srt 3000000 = ''00:00:03,000''"
  by (rule trans [OF timedelta_to_srt_fields [where s = 3 and ms = 0]])
     (simp_all add: td_total_seconds_def float_eval fmt_0d_def py_simps)

text \<open>The scenario of the specification, run through the whole program:
  two cues Hello (1s--2s) and World (2s--3s), batch size 10, a server that
  answers the numbered Vietnamese text. One batch is sent, encoded as
  \<open>1. Hello\<newline>2. World\<close>; the answer is decoded positionally and
  the SRT output keeps both timing pairs with the new text.\<close>

lemma hello_world_scenario:
  "translate_file
     (lm_translate (\<lambda>_ _. Response 200 [] (Inr (Some [\<lparr>choice_text = Some ''1. Xin chao\<newline>2. The gioi'',
                                                        choice_message = None\<rparr>])))
                   (lm_client_init ''http://localhost:1234/v1''))
     [\<lparr>sub_index = 1, sub_start = 1000000, sub_end = 2000000, sub_text = ''Hello''\<rparr>,
      \<lparr>sub_index = 2, sub_start = 2000000, sub_end = 3000000, sub_text = ''World''\<rparr>]
     ''en'' ''vi'' ''modern'' 10 True =
   Inr (''1\<newline>00:00:01,000 --> 00:00:02,000\<newline>Xin chao\<newline>\<newline>2\<newline>00:00:02,000 --> 00:00:03,000\<newline>The gioi\<newline>'',
        [Progress 1 1, Translate_call 1 ''1. Hello\<newline>2. World'', Log_info ''Translated batch 1/1''])"
proof -
  have resp: "translate_text (\<lambda>_. Response 200 [] (Inr (Some [\<lparr>choice_text = Some ''1. Xin chao\<newline>2. The gioi'',
                                                        choice_message = None\<rparr>])))
                c tx s t sty = ''1. Xin chao\<newline>2. The gioi''" for c tx s t sty
    by (simp add: translate_text_def generate_text_def completion_result_def first_choice_def
                  py_strip_def is_space_def)
  show ?thesis
    by (simp add: translate_file_def translate_job_def resp lm_translate_def job_init_def Let_def
                  create_batches_def batch_init_def batch_step_def flush_batches_def
                  batch_to_text_def clean_text_def strip_tags.simps(2)
                  text_to_subtitles_def line_text_def match_numbered_def py_strip_def
                  batch_iteration_def log_translated_def create_srt_content_def time_1 time_2 time_3
                  py_simps)
qed

text \<open>C16. A failing service does not fail the job: when the HTTP call for
  batch \<open>k+1\<close> raises (for instance a connection error with message
  \<open>msg\<close>), \<open>LMStudioClient.generate_text\<close> returns the text
  \<open>Connection error: msg\<close>, which the decoder turns into one translated
  subtitle carrying the timing of the batch's first cue; the remaining cues of
  that batch are dropped and the loop goes on with the next batch.\<close>

theorem service_failure_becomes_subtitle:
  assumes "k < length (create_batches subs batch_size)"
      and "\<forall>req. http (Suc k) req = Raised msg"
      and "msg \<noteq> []" and "nl \<notin> set msg" and "\<not> is_space (last msg)"
  shows "batch_items (lm_translate http c) src_lang tgt_lang style (Suc k)
           (create_batches subs batch_size ! k) =
         [(''Connection error: '' @ msg,
           sub_start (hd (create_batches subs batch_size ! k)),
           sub_end (hd (create_batches subs batch_size ! k)))]"
proof -
  let ?b = "create_batches subs batch_size ! k"
  let ?r = "''Connection error: '' @ msg"
  have ne: "?b \<noteq> []" using assms(1) by (rule create_batches_nth_nonempty)
  have call: "lm_translate http c (Suc k) (batch_to_text ?b) src_lang tgt_lang style = ?r"
    using assms(2) by (simp add: lm_translate_def translate_text_def generate_text_def completion_result_def)
  have strip: "py_strip ?r = ?r"
    using assms(3,5) by (intro py_strip_no_space_ends) (simp_all add: is_space_def)
  have split: "py_split nl ?r = [?r]"
    using assms(4) by simp
  have line: "line_text ?r = ?r"
    by (simp add: line_text_def match_numbered_not_digit is_digit_def)
  have "batch_items (lm_translate http c) src_lang tgt_lang style (Suc k) ?b =
        text_to_subtitles ?r ?b"
    by (simp only: batch_items_def call)
  also have "\<dots> = map (\<lambda>(line, sub). (line_text line, sub_start sub, sub_end sub)) (zip [?r] ?b)"
    by (simp only: text_to_subtitles_zip strip split)
  also have "\<dots> = [(?r, sub_start (hd ?b), sub_end (hd ?b))]"
    using ne by (cases ?b) (simp_all only: line zip_Cons_Cons zip_Nil list.map prod.case list.sel simp_thms)
  finally show ?thesis .
qed

theorem service_failure_becomes_subtitle_witness:
  "batch_items (lm_translate (\<lambda>i _. if i = 2 then Raised ''timed out'' else Response 200 [] (Inr None))
                             (lm_client_init ''http://localhost:1234/v1''))
     ''en'' ''vi'' ''modern'' 2
     (create_batches [\<lparr>sub_index = 1, sub_start = 0, sub_end = 1, sub_text = ''a''\<rparr>,
                      \<lparr>sub_index = 2, sub_start = 2, sub_end = 3, sub_text = ''b''\<rparr>,
                      \<lparr>sub_index = 3, sub_start = 4, sub_end = 5, sub_text = ''c''\<rparr>] 1 ! 1)
   = [(''Connection error: timed out'', 2, 3)]"
proof -
  let ?subs = "[\<lparr>sub_index = 1, sub_start = 0, sub_end = 1, sub_text = ''a''\<rparr>,
                \<lparr>sub_index = 2, sub_start = 2, sub_end = 3, sub_text = ''b''\<rparr>,
                \<lparr>sub_index = 3, sub_start = 4, sub_end = 5, sub_text = ''c''\<rparr>]"
  let ?http = "\<lambda>i (_::request). if i = (2::nat) then Raised ''timed out'' else Response 200 [] (Inr None)"
  have b: "create_batches ?subs 1 = map (\<lambda>x. [x]) ?subs"
    by (simp add: create_batches_def batch_init_def batch_step_def flush_batches_def)
  have k: "1 < length (create_batches ?subs 1)"
    by (simp only: b) simp
  have h: "\<forall>req. ?http (Suc 1) req = Raised ''timed out''"
    by simp
  have m: "''timed out'' \<noteq> []" "nl \<notin> set ''timed out''" "\<not> is_space (last ''timed out'')"
    by (simp_all add: is_space_def)
  have "batch_items (lm_translate ?http (lm_client_init ''http://localhost:1234/v1''))
          ''en'' ''vi'' ''modern'' (Suc 1) (create_batches ?subs 1 ! 1) =
        [(''Connection error: '' @ ''timed out'',
          sub_start (hd (create_batches ?subs 1 ! 1)), sub_end (hd (create_batches ?subs 1 ! 1)))]"
    using service_failure_becomes_subtitle [of 1 ?subs 1 ?http "''timed out''"
            "lm_client_init ''http://localhost:1234/v1''" "''en''" "''vi''" "''modern''"] k h m
    by blast
  then show ?thesis
    by (simp only: b Suc_1) simp
qed



text \<open> Batch size 1: every cue is a batch of its own, and the progress
  callback sees \<open>(1, n), (2, n), ..., (n, n)\<close> for \<open>n\<close> cues, in increasing
  order.\<close>

theorem batch_size_one_progress:
  "create_batches subs 1 = map (\<lambda>x. [x]) subs \<and>
   progress_reports (events (translate_job tr subs src_lang tgt_lang style 1 True)) =
     map (\<lambda>k. (k, length subs)) [1..<Suc (length subs)]"
proof -
  have b: "create_batches subs 1 = map (\<lambda>x. [x]) subs"
    by (simp add: create_batches_chunks batch_width_def chunks_one One_nat_def)
  then show ?thesis by (simp add: progress_reports_callback)
qed


text \<open>C34. The build script cannot build a checkout that has been run: the
  first run, which ends in the except clause of \<open>main\<close>, writes
  config.json into src/, while build.py passes PyInstaller
  the data files assets/ and config.json of the repository root, which
  neither the repository nor the first run creates, so PyInstaller stops on
  the first of them.\<close>

theorem build_after_first_run:
  assumes fr: "fresh_checkout (st_root env) (st_day env) fs"
    and js: "st_json_load env (json_dump default_config) = Inr default_config"
    and br: "b_root benv = st_root env" and colon: "CHR '':'' \<notin> set (st_root env)"
    and m: "fs (st_root env @ ''/src/main.py'') = Some (File code)"
    and abs: "hd (st_root env) = CHR ''/''" and b: "fs (st_root env @ ''/build'') = None" and a: "fs (st_root env @ ''/assets'') = None"
  shows "build_app benv (exit_files (main env fs)) =
           Build_raised (build_banner @ [build_found @ st_root env @ ''/src/main.py\<newline>'',
                                         build_copying_assets @ ''\<newline>'', build_building @ ''\<newline>''])
             ((exit_files (main env fs))(st_root env @ ''/build'' \<mapsto> Dir))
             (''Unable to find '' @ quoted (st_root env @ ''/assets'') @ '' when adding binary and data files.'')"
proof -
  obtain r d where r: "st_root env = r" and d: "st_day env = d" by blast
  note f = fresh_checkout_facts [OF fr [unfolded r d]]
  have dn: "dirname (r @ ''/build'') = r" using dirname_child [of r "''build''"] f(1,2) by simp
  have c: "CHR '':'' \<notin> set r" using colon r by simp
  have tw: "\<And>xs. takeWhile (\<lambda>c. c \<noteq> CHR '':'') (r @ xs) = r @ takeWhile (\<lambda>c. c \<noteq> CHR '':'') xs"
    using c by (induction r) auto
  have t11: "take 11 r @ ys \<noteq> ''--add-data=''" for ys
    using abs f(1) r by (cases r) auto
  show ?thesis
    using main_first_run [OF fr js] startup_dirnames [OF f(1-3)] f
    by (simp add: r d br m [unfolded r] b [unfolded r] a [unfolded r] dn tw t11 build_app_def mkdir_def run_pyinstaller_def data_sources_def pyinstaller_args_def
                  Let_def main_dir_def log_file_eq config_path_def images_dir_def log_dir_def)
qed

theorem build_after_first_run_witness:
  "b_error (build_app \<lparr>b_root = ''/r'', b_pyinstaller = (\<lambda>_ fs. Inr fs)\<rparr>
              (exit_files (main example_startup_env example_checkout))) =
     ''Unable to find '' @ quoted ''/r/assets'' @ '' when adding binary and data files.''"
proof -
  have h1: "fresh_checkout (st_root example_startup_env) (st_day example_startup_env) example_checkout"
    by (simp add: fresh_checkout_def example_startup_env_def example_checkout_def main_dir_def required_dirs_def
                  config_path_def log_dir_def log_file_def images_dir_def)
  have h2: "st_json_load example_startup_env (json_dump default_config) = Inr default_config"
    by (simp add: example_startup_env_def)
  show ?thesis
    using build_after_first_run [OF h1 h2, of "\<lparr>b_root = ''/r'', b_pyinstaller = (\<lambda>_ fs. Inr fs)\<rparr>"]
    by (simp add: example_startup_env_def example_checkout_def)
qed

end
